theory Spec2Isabelle
  imports Main
begin

section \<open>The status taxonomy\<close>

text \<open>
  The class \<^verbatim>\<open>AccountStatus\<close> of \<^verbatim>\<open>tls_visa_bot.py\<close> is a bag of string constants, and
  \<^verbatim>\<open>update_account_status\<close> takes any string as its status: a status is a \<^typ>\<open>string\<close>
  here too, and the twelve constants are the twelve literals of the class.
\<close>

definition INIT :: string where "INIT = ''INITIALIZING''"
definition LOGIN_FAILED :: string where "LOGIN_FAILED = ''LOGIN FAILED''"
definition LOGGED_IN :: string where "LOGGED_IN = ''LOGGED IN''"
definition BOOKING :: string where "BOOKING = ''BOOKING''"
definition BOOKED :: string where "BOOKED = ''BOOKED''"
definition FAILED :: string where "FAILED = ''FAILED''"
definition CLOUDFLARE :: string where "CLOUDFLARE = ''CLOUDFLARE BLOCKED''"
definition BOOKING_FAILED :: string where "BOOKING_FAILED = ''BOOKING FAILED''"
definition CALENDAR_ERROR :: string where "CALENDAR_ERROR = ''CALENDAR ERROR''"
definition SESSION_EXPIRED :: string where "SESSION_EXPIRED = ''SESSION EXPIRED''"
definition NETWORK_ERROR :: string where "NETWORK_ERROR = ''NETWORK ERROR''"
definition MAINTENANCE :: string where "MAINTENANCE = ''SITE MAINTENANCE''"

lemmas status_defs =
  INIT_def LOGIN_FAILED_def LOGGED_IN_def BOOKING_def BOOKED_def FAILED_def CLOUDFLARE_def
  BOOKING_FAILED_def CALENDAR_ERROR_def SESSION_EXPIRED_def NETWORK_ERROR_def MAINTENANCE_def

text \<open>
  The statuses that \<^verbatim>\<open>update_account_status\<close> itself treats as failures: the literal
  list of its \<^verbatim>\<open>elif status in [...]\<close>.
\<close>

definition error_statuses :: "string list" where
  "error_statuses = [LOGIN_FAILED, FAILED, BOOKING_FAILED, CALENDAR_ERROR]"

text \<open>
  The specification's reading of the taxonomy (its section 4.2), kept apart from the code's
  list above so that the two can be compared: the terminal statuses are the ones marked T,
  the success status is \<^verbatim>\<open>BOOKED\<close>, and the failure-classified statuses are the terminal
  ones other than \<^verbatim>\<open>BOOKED\<close>. (The specification's \<^verbatim>\<open>CHALLENGE_BLOCKED\<close> and
  \<^verbatim>\<open>SITE_MAINTENANCE\<close> are the source's \<^verbatim>\<open>CLOUDFLARE\<close> and \<^verbatim>\<open>MAINTENANCE\<close>.)
\<close>

definition spec_terminal :: "string \<Rightarrow> bool" where
  "spec_terminal s \<longleftrightarrow>
     s \<in> set [LOGIN_FAILED, BOOKED, FAILED, CLOUDFLARE, BOOKING_FAILED, CALENDAR_ERROR,
              SESSION_EXPIRED, NETWORK_ERROR, MAINTENANCE]"

definition spec_failure_classified :: "string \<Rightarrow> bool" where
  "spec_failure_classified s \<longleftrightarrow> spec_terminal s \<and> s \<noteq> BOOKED"

section \<open>The bot and its ledger\<close>

text \<open>
  One entry of \<^verbatim>\<open>account["history"]\<close> and one value of \<^verbatim>\<open>self.account_history\<close>. The
  dictionary keys are the field names; the entry's \<^verbatim>\<open>"status"\<close> key is \<open>entry_status\<close>,
  since the account has a \<^verbatim>\<open>"status"\<close> key of its own. \<^verbatim>\<open>total_attempts\<close> starts at 0 and
  is only ever incremented, so it is a natural number.
\<close>

record history_entry =
  timestamp :: string
  entry_status :: string
  details :: string
  step :: string
  attempt :: nat

record account =
  status :: string
  history :: "history_entry list"
  last_updated :: string
  total_attempts :: nat
  last_error :: "string option"
  success :: bool

text \<open>
  What the bot does to the world outside its own fields is kept as a journal of events, in
  the order in which the calls are made.
\<close>

datatype event =
    Goto string
  | WaitForSelector string
  | WaitForHidden string
  | Reload
  | Click string
  | Fill string string
  | TypeChar string char
  | Evaluate string
  | ScrollBy int
  | MouseMove
  | SelectOption string string
  | QuerySelector string
  | QuerySelectorAll string
  | WaitForLoadState
  | Delay
  | Notify string string "string option"
  | BrowserClose nat

text \<open>
  The object \<^verbatim>\<open>TLSVisaBot\<close>. \<open>browser\<close> and \<open>page\<close> are handles of the page driver
  (\<^verbatim>\<open>Optional[Browser]\<close>, \<^verbatim>\<open>Optional[Page]\<close>). \<open>current_step\<close> is the engine's step index:
  the source assigns it the literals 0 to 8 and nothing else, so it is a natural number (a
  negative index, which Python would count from the end of the table, does not arise).
  Three more fields hold the effects: \<open>history_file\<close> is the content of
  \<^verbatim>\<open>results/account_history.json\<close> (the ledger as last dumped), \<open>logged\<close> the lines given
  to the logger, \<open>journal\<close> the calls made to the page driver and the notification sink.
\<close>

record bot =
  browser :: "nat option"
  page :: "nat option"
  current_account :: "(string \<times> nat) option"
  logged_in :: bool
  current_step :: nat
  account_history :: "string \<rightharpoonup> account"
  steps :: "string list"
  history_file :: "(string \<rightharpoonup> account) option"
  logged :: "string list"
  journal :: "event list"

definition init :: bot where
  "init = \<lparr>browser = None, page = None, current_account = None, logged_in = False,
     current_step = 0, account_history = Map.empty,
     steps = [''Initialize Bot'', ''Bypass Cloudflare'', ''Authentication via OAuth'',
       ''Login Verification'', ''Country Selection'', ''City Selection'',
       ''Book Detail Page'', ''Personal Info Page'', ''Calendar Page'',
       ''Confirmation Page'', ''Payment Verification''],
     history_file = None, logged = [], journal = []\<rparr>"

text \<open>
  \<^verbatim>\<open>update_account_status\<close> reads the clock as many as three times
  (\<^verbatim>\<open>datetime.now().isoformat()\<close>): when it creates the record, when it builds the history
  entry, and when it sets \<^verbatim>\<open>last_updated\<close>. A call is given the three readings.
\<close>

record readings =
  at_create :: string
  at_entry :: string
  at_update :: string

definition step_label :: "bot \<Rightarrow> string" where
  "step_label self =
     (if current_step self < length (steps self) then steps self ! current_step self
      else ''Unknown'')"

definition new_account :: "readings \<Rightarrow> string \<Rightarrow> account" where
  "new_account now st =
     \<lparr>status = st, history = [], last_updated = at_create now, total_attempts = 0,
      last_error = None, success = False\<rparr>"

definition track :: "string \<Rightarrow> string \<Rightarrow> account \<Rightarrow> account" where
  "track st det acc =
     (if st = BOOKED then acc\<lparr>success := True\<rparr>
      else if st \<in> set error_statuses then acc\<lparr>last_error := Some det\<rparr>
      else acc)"

definition update_account :: "readings \<Rightarrow> string \<Rightarrow> string \<Rightarrow> string \<Rightarrow> account \<Rightarrow> account" where
  "update_account now label st det acc0 =
     (let acc1 = acc0\<lparr>status := st, total_attempts := total_attempts acc0 + 1\<rparr>;
          acc2 = track st det acc1;
          entry = \<lparr>timestamp = at_entry now, entry_status = st, details = det,
                   step = label, attempt = total_attempts acc2\<rparr>
      in acc2\<lparr>history := history acc2 @ [entry], last_updated := at_update now\<rparr>)"

definition update_account_status :: "readings \<Rightarrow> bot \<Rightarrow> string \<Rightarrow> string \<Rightarrow> string \<Rightarrow> bot" where
  "update_account_status now self email st det =
     (let acc0 = (case account_history self email of
                    None \<Rightarrow> new_account now st
                  | Some acc \<Rightarrow> acc);
          ledger = (account_history self)(email \<mapsto> update_account now (step_label self) st det acc0)
      in self\<lparr>account_history := ledger,
              history_file := Some ledger,
              logged := logged self @
                [''Account '' @ email @ '' status updated to '' @ st @ '': '' @ det]\<rparr>)"

text \<open>
  A sequence of calls, as the workflow makes them: between two calls the engine may have
  moved \<^verbatim>\<open>self.current_step\<close>, so a call carries the step index at which it is made.
\<close>

record call =
  call_step :: nat
  call_email :: string
  call_status :: string
  call_details :: string
  call_now :: readings

fun record_calls :: "bot \<Rightarrow> call list \<Rightarrow> bot" where
  "record_calls self [] = self"
| "record_calls self (c # cs) =
     record_calls
       (update_account_status (call_now c) (self\<lparr>current_step := call_step c\<rparr>)
          (call_email c) (call_status c) (call_details c)) cs"

definition calls_for :: "string \<Rightarrow> call list \<Rightarrow> call list" where
  "calls_for email cs = filter (\<lambda>c. call_email c = email) cs"

text \<open>
  The most recently recorded terminal status of a history, in the specification's sense of
  terminal.
\<close>

definition last_terminal :: "history_entry list \<Rightarrow> string option" where
  "last_terminal h =
     (case filter spec_terminal (map entry_status h) of
        [] \<Rightarrow> None
      | s # ss \<Rightarrow> Some (last (s # ss)))"

text \<open>Concrete calls, for the instances below.\<close>

definition demo_now :: "string \<Rightarrow> readings" where
  "demo_now t = \<lparr>at_create = t @ ''.1'', at_entry = t @ ''.2'', at_update = t @ ''.3''\<rparr>"

definition demo_calls :: "call list" where
  "demo_calls =
     [\<lparr>call_step = 0, call_email = ''a@x.com'', call_status = INIT,
        call_details = ''Starting workflow - Initialize Bot'', call_now = demo_now ''t1''\<rparr>,
      \<lparr>call_step = 2, call_email = ''b@x.com'', call_status = LOGIN_FAILED,
        call_details = ''Failed to authenticate'', call_now = demo_now ''t2''\<rparr>,
      \<lparr>call_step = 2, call_email = ''a@x.com'', call_status = LOGGED_IN,
        call_details = ''Step 2: Successfully authenticated'', call_now = demo_now ''t3''\<rparr>,
      \<lparr>call_step = 11, call_email = ''a@x.com'', call_status = BOOKED,
        call_details = [], call_now = demo_now ''t4''\<rparr>]"

definition rerun_calls :: "call list" where
  "rerun_calls =
     [\<lparr>call_step = 0, call_email = ''a@x.com'', call_status = INIT,
        call_details = ''Starting workflow - Initialize Bot'', call_now = demo_now ''t1''\<rparr>,
      \<lparr>call_step = 0, call_email = ''a@x.com'', call_status = BOOKED,
        call_details = [], call_now = demo_now ''t2''\<rparr>,
      \<lparr>call_step = 0, call_email = ''a@x.com'', call_status = INIT,
        call_details = ''Starting workflow - Initialize Bot'', call_now = demo_now ''t3''\<rparr>,
      \<lparr>call_step = 0, call_email = ''a@x.com'', call_status = FAILED,
        call_details = [], call_now = demo_now ''t4''\<rparr>]"

section \<open>Exceptions, outcomes and the page driver\<close>

text \<open>
  The file defines several of its functions more than once: at class level, at module level
  and nested in other functions. Each function below is the definition at the lines that its
  text names, and a call \<^verbatim>\<open>self.f(...)\<close> inside a modelled function reaches the modelled
  definition of \<^verbatim>\<open>f\<close>; of the two definitions of \<^verbatim>\<open>_human_type\<close>, the functions of the module
  reach the one of the module. A leading underscore of a source name is dropped.

  The exceptions that the modelled code raises or lets through: \<open>PlaywrightError m\<close> is an
  error that a call of the page driver raises (a timeout, a lost connection), with its
  message; \<open>KeyError k\<close> is the error of a dictionary lookup of the key \<open>k\<close>; \<open>NameError n\<close> is
  the error of reading the global name \<open>n\<close> where the module binds no such name; and
  \<open>Exception m\<close> is the \<^verbatim>\<open>Exception(m)\<close> that the code raises itself. \<open>str_of\<close> is Python's
  \<^verbatim>\<open>str(e)\<close>.

  Two names that the file reads are bound nowhere in it: \<^verbatim>\<open>PlaywrightError\<close> (lines 559 and
  896; line 14 imports \<^verbatim>\<open>async_playwright\<close>, \<^verbatim>\<open>Browser\<close> and \<^verbatim>\<open>Page\<close> only) and \<^verbatim>\<open>TIMING\<close> (lines
  706 and 707). Reading either raises \<^verbatim>\<open>NameError\<close>, whatever the arguments of the function are.
\<close>

datatype exn = PlaywrightError string | KeyError string | NameError string | Exception string

fun str_of :: "exn \<Rightarrow> string" where
  "str_of (PlaywrightError m) = m"
| "str_of (KeyError k) = [CHR 0x27] @ k @ [CHR 0x27]"
| "str_of (NameError n) = ''name '' @ [CHR 0x27] @ n @ [CHR 0x27] @ '' is not defined''"
| "str_of (Exception m) = m"

datatype 'a outcome = Returned 'a | Raised exn

definition called :: "event \<Rightarrow> bot \<Rightarrow> bot" where
  "called ev self = self\<lparr>journal := journal self @ [ev]\<rparr>"

definition logger :: "string \<Rightarrow> bot \<Rightarrow> bot" where
  "logger msg self = self\<lparr>logged := logged self @ [msg]\<rparr>"

text \<open>
  \<^verbatim>\<open>_human_delay\<close> sleeps for a random time between its two bounds. The journal keeps the
  call; the duration is not modelled.
\<close>

definition human_delay :: "bot \<Rightarrow> bot" where
  "human_delay self = called Delay self"

fun digit_char :: "nat \<Rightarrow> char" where
  "digit_char n = char_of (48 + n)"

fun str_nat :: "nat \<Rightarrow> string" where
  "str_nat n = (if n < 10 then [digit_char n] else str_nat (n div 10) @ [digit_char (n mod 10)])"

declare str_nat.simps [simp del]

definition to_upper :: "char \<Rightarrow> char" where
  "to_upper c =
     (let n = (of_char c :: nat) in if 97 \<le> n \<and> n \<le> 122 then char_of (n - 32) else c)"

definition upper :: "string \<Rightarrow> string" where
  "upper s = map to_upper s"

subsection \<open>\<^verbatim>\<open>setup\<close> (lines 191 to 301) and \<^verbatim>\<open>close\<close> (lines 1515 to 1520)\<close>

text \<open>
  What the page driver answers during \<^verbatim>\<open>setup\<close> (\<open>bot_setup\<close> here, since \<open>setup\<close> is a
  keyword of the prover): whether starting it and launching the
  persistent context raise, the context's \<^verbatim>\<open>browser\<close> attribute (an optional handle), the new
  page or the error of \<^verbatim>\<open>new_page\<close>, and whether setting the headers and adding the init
  script raise.
\<close>

record setup_driver =
  start_playwright :: "exn option"
  launch_persistent_context :: "exn option"
  context_browser :: "nat option"
  new_page :: "exn + nat"
  set_extra_http_headers :: "exn option"
  add_init_script :: "exn option"

definition setup_failed :: "exn \<Rightarrow> bot \<Rightarrow> bool outcome \<times> bot" where
  "setup_failed e self = (Raised e, logger (''Error during setup: '' @ str_of e) self)"

definition bot_setup :: "setup_driver \<Rightarrow> bot \<Rightarrow> bool outcome \<times> bot" where
  "bot_setup d self =
     (case start_playwright d of
        Some e \<Rightarrow> setup_failed e self
      | None \<Rightarrow>
     (case launch_persistent_context d of
        Some e \<Rightarrow> setup_failed e self
      | None \<Rightarrow>
     (let self1 = self\<lparr>browser := context_browser d\<rparr> in
      case new_page d of
        Inl e \<Rightarrow> setup_failed e self1
      | Inr p \<Rightarrow>
     (let self2 = self1\<lparr>page := Some p\<rparr> in
      case set_extra_http_headers d of
        Some e \<Rightarrow> setup_failed e self2
      | None \<Rightarrow>
     (case add_init_script d of
        Some e \<Rightarrow> setup_failed e self2
      | None \<Rightarrow> (Returned True, self2))))))"

text \<open>
  \<^verbatim>\<open>close\<close>. The first argument is what \<^verbatim>\<open>await self.browser.close()\<close> does if it is
  called: \<open>None\<close> when it returns, \<open>Some e\<close> when it raises \<open>e\<close>.
\<close>

definition close :: "exn option \<Rightarrow> bot \<Rightarrow> unit outcome \<times> bot" where
  "close browser_close self =
     (case browser self of
        None \<Rightarrow> (Returned (), self)
      | Some b \<Rightarrow>
          (let self1 = called (BrowserClose b) self in
           case browser_close of
             Some e \<Rightarrow> (Raised e, self1)
           | None \<Rightarrow> (Returned (), self1\<lparr>browser := None, page := None\<rparr>)))"

subsection \<open>The pacing aids: \<^verbatim>\<open>_human_type\<close> and \<^verbatim>\<open>_human_scroll\<close>\<close>

text \<open>
  What the page answers to the calls of the typing primitive: for a selector, whether the
  click and the fill raise; for a selector and the position of a character in the text,
  whether typing it raises.
\<close>

record typing_driver =
  click_field :: "string \<Rightarrow> exn option"
  fill_field :: "string \<Rightarrow> exn option"
  type_char :: "string \<Rightarrow> nat \<Rightarrow> exn option"

text \<open>
  The loop \<^verbatim>\<open>for char in text\<close> of the method of the class (lines 187 to 189): each character
  is typed and followed by a delay.
\<close>

fun type_each :: "typing_driver \<Rightarrow> string \<Rightarrow> nat \<Rightarrow> string \<Rightarrow> bot \<Rightarrow> unit outcome \<times> bot" where
  "type_each d selector i [] self = (Returned (), self)"
| "type_each d selector i (c # cs) self =
     (let self1 = called (TypeChar selector c) self in
      case type_char d selector i of
        Some e \<Rightarrow> (Raised e, self1)
      | None \<Rightarrow> type_each d selector (Suc i) cs (human_delay self1))"

text \<open>
  The method of the class (lines 182 to 189): click, delay, clear the field, type. It has
  no handler: an error of the page leaves it as it is.
\<close>

definition TLSVisaBot_human_type ::
  "typing_driver \<Rightarrow> string \<Rightarrow> string \<Rightarrow> bot \<Rightarrow> unit outcome \<times> bot" where
  "TLSVisaBot_human_type d selector txt self =
     (let self1 = called (Click selector) self in
      case click_field d selector of
        Some e \<Rightarrow> (Raised e, self1)
      | None \<Rightarrow>
     (let self2 = called (Fill selector []) (human_delay self1) in
      case fill_field d selector of
        Some e \<Rightarrow> (Raised e, self2)
      | None \<Rightarrow> type_each d selector 0 txt self2))"

text \<open>
  The function of the module (lines 699 to 711): the \<^verbatim>\<open>try\<close> block first, then the function
  with its handler, which logs the error and raises it again. In the loop, the first
  \<^verbatim>\<open>page.type\<close> is followed by a sleep whose bounds are read from \<^verbatim>\<open>TIMING\<close> (lines 705 to 708):
  the read raises \<^verbatim>\<open>NameError\<close> before anything else happens, so the loop never reaches a
  second character. A text without characters goes through.
\<close>

definition human_type_try ::
  "typing_driver \<Rightarrow> string \<Rightarrow> string \<Rightarrow> bot \<Rightarrow> unit outcome \<times> bot" where
  "human_type_try d selector txt self =
     (let self1 = called (Click selector) self in
      case click_field d selector of
        Some e \<Rightarrow> (Raised e, self1)
      | None \<Rightarrow>
          (case txt of
             [] \<Rightarrow> (Returned (), self1)
           | c # cs \<Rightarrow>
               (let self2 = called (TypeChar selector c) self1 in
                case type_char d selector 0 of
                  Some e \<Rightarrow> (Raised e, self2)
                | None \<Rightarrow> (Raised (NameError ''TIMING''), self2))))"

definition human_type ::
  "typing_driver \<Rightarrow> string \<Rightarrow> string \<Rightarrow> bot \<Rightarrow> unit outcome \<times> bot" where
  "human_type d selector txt self =
     (case human_type_try d selector txt self of
        (Raised e, self') \<Rightarrow> (Raised e, logger (''Error during human typing: '' @ str_of e) self')
      | (Returned u, self') \<Rightarrow> (Returned u, self'))"

text \<open>
  \<^verbatim>\<open>_human_scroll\<close> (lines 713 to 759). The page answers the two height queries with a
  number or an error, and the \<open>i\<close>-th \<^verbatim>\<open>window.scrollBy\<close> of the call with an error or
  none; the random draws of the \<open>i\<close>-th iteration are given too. \<^verbatim>\<open>random.randint(a, b)\<close>
  is within its bounds whatever the draw.
\<close>

record scroll_driver =
  scroll_height :: "exn + int"
  inner_height :: "exn + int"
  scroll_by :: "nat \<Rightarrow> exn option"
  step_draw :: "nat \<Rightarrow> nat"
  pause_draw :: "nat \<Rightarrow> bool"
  mouse_draw :: "nat \<Rightarrow> bool"
  mouse_move :: "nat \<Rightarrow> exn option"

definition randint :: "int \<Rightarrow> int \<Rightarrow> nat \<Rightarrow> int" where
  "randint a b draw = a + int draw mod (b - a + 1)"

function scroll_down ::
  "scroll_driver \<Rightarrow> int \<Rightarrow> nat \<Rightarrow> int \<Rightarrow> bot \<Rightarrow> (nat \<times> int) outcome \<times> bot" where
  "scroll_down d page_height i current_scroll self =
     (if current_scroll < page_height then
        (let stp = randint 100 300 (step_draw d i);
             self1 = called (ScrollBy stp) self in
         case scroll_by d i of
           Some e \<Rightarrow> (Raised e, self1)
         | None \<Rightarrow>
             (let self2 = human_delay self1;
                  self3 = (if pause_draw d i then human_delay self2 else self2)
              in scroll_down d page_height (Suc i) (current_scroll + stp) self3))
      else (Returned (i, current_scroll), self))"
  by pat_completeness auto
termination
  by (relation "measure (\<lambda>(d, page_height, i, current_scroll, self).
         nat (page_height - current_scroll))")
    (auto simp: randint_def)

declare scroll_down.simps [simp del]

function scroll_up ::
  "scroll_driver \<Rightarrow> nat \<Rightarrow> int \<Rightarrow> bot \<Rightarrow> unit outcome \<times> bot" where
  "scroll_up d i current_scroll self =
     (if current_scroll > 0 then
        (let stp = randint 100 300 (step_draw d i);
             current_scroll' = max 0 (current_scroll - stp);
             self1 = called (ScrollBy (- stp)) self in
         case scroll_by d i of
           Some e \<Rightarrow> (Raised e, self1)
         | None \<Rightarrow>
             (let self2 = human_delay self1 in
              if mouse_draw d i then
                (let self3 = called MouseMove self2 in
                 case mouse_move d i of
                   Some e \<Rightarrow> (Raised e, self3)
                 | None \<Rightarrow> scroll_up d (Suc i) current_scroll' self3)
              else scroll_up d (Suc i) current_scroll' self2))
      else (Returned (), self))"
  by pat_completeness auto
termination
  by (relation "measure (\<lambda>(d, i, current_scroll, self). nat current_scroll)")
    (auto simp: randint_def)

declare scroll_up.simps [simp del]

definition human_scroll_try :: "scroll_driver \<Rightarrow> bot \<Rightarrow> unit outcome \<times> bot" where
  "human_scroll_try d self =
     (let self1 = called (Evaluate ''document.body.scrollHeight'') self in
      case scroll_height d of
        Inl e \<Rightarrow> (Raised e, self1)
      | Inr page_height \<Rightarrow>
     (let self2 = called (Evaluate ''window.innerHeight'') self1 in
      case inner_height d of
        Inl e \<Rightarrow> (Raised e, self2)
      | Inr viewport_height \<Rightarrow>
          if page_height \<le> viewport_height then (Returned (), self2)
          else
            (case scroll_down d page_height 0 0 (human_delay self2) of
               (Raised e, self3) \<Rightarrow> (Raised e, self3)
             | (Returned (i, current_scroll), self3) \<Rightarrow>
                 scroll_up d i current_scroll (human_delay self3))))"

definition human_scroll :: "scroll_driver \<Rightarrow> bot \<Rightarrow> unit outcome \<times> bot" where
  "human_scroll d self =
     (case human_scroll_try d self of
        (Raised e, self') \<Rightarrow>
          (Raised e, human_delay (logger (''Error during human scrolling: '' @ str_of e) self'))
      | (Returned u, self') \<Rightarrow> (Returned u, human_delay self'))"

subsection \<open>\<^verbatim>\<open>_handle_cloudflare\<close> (lines 1040 to 1070) and \<^verbatim>\<open>send_security_notification\<close> (lines 1484 to 1513)\<close>

text \<open>
  For a selector, the wait for the challenge raises or returns an element or nothing, and
  the wait for the challenge to be hidden raises or returns; the wait for the network to be
  idle raises or returns.
\<close>

record cloudflare_driver =
  challenge_wait :: "string \<Rightarrow> exn + bool"
  challenge_hidden :: "string \<Rightarrow> exn option"
  load_state :: "exn option"

definition cloudflare_selectors :: "string list" where
  "cloudflare_selectors =
     [''#challenge-running'', ''#challenge-stage'', ''#challenge-form'',
      ''iframe[title='Widget containing a Cloudflare security challenge']'']"

text \<open>
  The loop over the selectors: the inner handler catches every error and goes on with the
  next selector, so the loop itself never raises.
\<close>

fun cloudflare_loop :: "cloudflare_driver \<Rightarrow> string list \<Rightarrow> bot \<Rightarrow> bot" where
  "cloudflare_loop d [] self = self"
| "cloudflare_loop d (selector # rest) self =
     (let self1 = called (WaitForSelector selector) self in
      case challenge_wait d selector of
        Inl e \<Rightarrow>
          cloudflare_loop d rest
            (logger (''Selector '' @ selector @ '' not found: '' @ str_of e) self1)
      | Inr False \<Rightarrow> cloudflare_loop d rest self1
      | Inr True \<Rightarrow>
          (let self2 = called (WaitForHidden selector)
                 (logger ''Cloudflare challenge detected, waiting for resolution...'' self1) in
           case challenge_hidden d selector of
             Some e \<Rightarrow>
               cloudflare_loop d rest
                 (logger (''Selector '' @ selector @ '' not found: '' @ str_of e) self2)
           | None \<Rightarrow> human_delay self2))"

definition handle_cloudflare :: "cloudflare_driver \<Rightarrow> bot \<Rightarrow> unit outcome \<times> bot" where
  "handle_cloudflare d self =
     (let self1 = called WaitForLoadState (cloudflare_loop d cloudflare_selectors self) in
      case load_state d of
        Some e \<Rightarrow>
          (Raised (Exception ''Failed to bypass Cloudflare protection''),
           logger (''Error handling Cloudflare: '' @ str_of e) self1)
      | None \<Rightarrow> (Returned (), human_delay self1))"

text \<open>
  The notification sink writes the alert to \<^verbatim>\<open>security_alerts.log\<close>; the first argument is
  what that write does. An alert that was written is the journal's \<open>Notify\<close>.
\<close>

definition send_security_notification ::
  "exn option \<Rightarrow> string \<Rightarrow> string \<Rightarrow> string option \<Rightarrow> bot \<Rightarrow> bool \<times> bot" where
  "send_security_notification alert_write issue_type det account_email self =
     (case alert_write of
        None \<Rightarrow>
          (True, logger (''Security alert logged: '' @ issue_type)
                   (called (Notify issue_type det account_email) self))
      | Some e \<Rightarrow> (False, logger (''Error sending security notification: '' @ str_of e) self))"

subsection \<open>\<^verbatim>\<open>login\<close> (lines 1073 to 1115)\<close>

record login_driver =
  typing :: typing_driver
  login_button :: "exn + bool"
  login_button_click :: "exn option"
  login_marker :: "exn option"
  error_message :: "exn + string option"

text \<open>Sequencing: what follows a call runs only if the call returned.\<close>

definition and_then ::
  "'a outcome \<times> bot \<Rightarrow> ('a \<Rightarrow> bot \<Rightarrow> 'b outcome \<times> bot) \<Rightarrow> 'b outcome \<times> bot" where
  "and_then r f = (case r of (Raised e, s) \<Rightarrow> (Raised e, s) | (Returned x, s) \<Rightarrow> f x s)"

definition login_try :: "login_driver \<Rightarrow> string \<Rightarrow> string \<Rightarrow> bot \<Rightarrow> bool outcome \<times> bot" where
  "login_try d email password self =
     and_then (human_type (typing d) ''input[type='email']'' email self) (\<lambda>_ self1.
     and_then (human_type (typing d) ''input[type='password']'' password (human_delay self1))
       (\<lambda>_ self2.
     (let self3 = called (WaitForSelector ''button[type='submit']'') (human_delay self2) in
      case login_button d of
        Inl e \<Rightarrow> (Raised e, self3)
      | Inr False \<Rightarrow> (Raised (Exception ''Login button not found''), self3)
      | Inr True \<Rightarrow>
     (let self4 = called (Click ''button[type='submit']'') self3 in
      case login_button_click d of
        Some e \<Rightarrow> (Raised e, self4)
      | None \<Rightarrow>
     (let self5 = called (WaitForSelector ''.user-info, .error-message'') (human_delay self4) in
      case login_marker d of
        Some e \<Rightarrow> (Raised (Exception ''Login verification timeout''), self5)
      | None \<Rightarrow>
     (let self6 = called (QuerySelector ''.error-message'') self5 in
      case error_message d of
        Inl e \<Rightarrow> (Raised e, self6)
      | Inr (Some error_text) \<Rightarrow> (Raised (Exception (''Login failed: '' @ error_text)), self6)
      | Inr None \<Rightarrow> (Returned True, self6\<lparr>logged_in := True\<rparr>)))))))"

definition login :: "login_driver \<Rightarrow> string \<Rightarrow> string \<Rightarrow> bot \<Rightarrow> bool \<times> bot" where
  "login d email password self =
     (case login_try d email password self of
        (Raised e, self') \<Rightarrow>
          (False, logger (''Login failed for '' @ email @ '': '' @ str_of e) self')
      | (Returned b, self') \<Rightarrow> (b, self'))"

subsection \<open>\<^verbatim>\<open>start_workflow\<close>: the wait for the login form\<close>

text \<open>
  What the workflow meets: the configuration (\<^verbatim>\<open>TLSConfig.CENTERS\<close>, a dictionary from
  location codes to URLs, and \<^verbatim>\<open>TLSConfig.BASE_URL\<close>; the module \<^verbatim>\<open>config\<close> is not part of the
  source file, so they are given), the clock, and the answers of the page. \<open>form_wait k\<close> is
  what invocation number \<open>k\<close> (from 0) of the check \<^verbatim>\<open>wait_for_selector("input[type='email']")\<close>
  does, \<open>reload k\<close> what the reload after the failed invocation \<open>k\<close> does. \<open>notify_draw\<close> is the
  outcome of \<^verbatim>\<open>random.random() < 0.1\<close>.
\<close>

record workflow_driver =
  centers :: "string \<rightharpoonup> string"
  base_url :: string
  clock :: "nat \<Rightarrow> readings"
  browser_setup :: setup_driver
  cloudflare :: cloudflare_driver
  goto_center :: "exn option"
  form_wait :: "nat \<Rightarrow> exn option"
  reload :: "nat \<Rightarrow> exn option"
  login_page :: login_driver
  goto_base :: "exn option"
  notify_draw :: bool
  alert_write :: "exn option"

text \<open>
  A call of \<^verbatim>\<open>self.update_account_status\<close> from the workflow; the clock readings it takes
  are the ones the driver gives for this point of the run (the run's progress is counted in
  log lines).
\<close>

definition status_update :: "(nat \<Rightarrow> readings) \<Rightarrow> string \<Rightarrow> string \<Rightarrow> string \<Rightarrow> bot \<Rightarrow> bot" where
  "status_update clk email st det self =
     update_account_status (clk (length (logged self))) self email st det"

text \<open>
  The loop of lines 345 to 356 (in the method of the class), from the state in which
  \<open>retry_count\<close> attempts have failed. The source runs it with \<open>max_retries = 3\<close> from
  \<open>retry_count = 0\<close>.
\<close>

function TLSVisaBot_wait_for_login_form ::
  "workflow_driver \<Rightarrow> nat \<Rightarrow> nat \<Rightarrow> bot \<Rightarrow> unit outcome \<times> bot" where
  "TLSVisaBot_wait_for_login_form d max_retries retry_count self =
     (if retry_count < max_retries then
        (let self1 = called (WaitForSelector ''input[type='email']'') self in
         case form_wait d retry_count of
           None \<Rightarrow> (Returned (), self1)
         | Some e \<Rightarrow>
             if retry_count + 1 = max_retries
             then (Raised (Exception ''Login form not found after retries''), self1)
             else
               (let self2 = called Reload (human_delay self1) in
                case reload d retry_count of
                  Some e' \<Rightarrow> (Raised e', self2)
                | None \<Rightarrow> TLSVisaBot_wait_for_login_form d max_retries (retry_count + 1) self2))
      else (Returned (), self))"
  by pat_completeness auto
termination
  by (relation "measure (\<lambda>(d, max_retries, retry_count, self). max_retries - retry_count)") auto

declare TLSVisaBot_wait_for_login_form.simps [simp del]

text \<open>
  The loop of lines 1155 to 1171 (in the last \<^verbatim>\<open>start_workflow\<close>): the same loop, with the
  ledger calls.
\<close>

function wait_for_login_form ::
  "workflow_driver \<Rightarrow> string \<Rightarrow> nat \<Rightarrow> nat \<Rightarrow> bot \<Rightarrow> unit outcome \<times> bot" where
  "wait_for_login_form d email max_retries retry_count self =
     (if retry_count < max_retries then
        (let self1 = called (WaitForSelector ''input[type='email']'') self in
         case form_wait d retry_count of
           None \<Rightarrow>
             (Returned (),
              status_update (clock d) email INIT
                (''Step '' @ str_nat (current_step self1) @
                 '': Login form found, starting authentication'') self1)
         | Some e \<Rightarrow>
             if retry_count + 1 = max_retries
             then
               (Raised (Exception ''Login form not found after retries''),
                status_update (clock d) email LOGIN_FAILED
                  (''Step '' @ str_nat (current_step self1) @ '': Login form not found after '' @
                   str_nat max_retries @ '' retries'') self1)
             else
               (let self2 = status_update (clock d) email INIT
                      (''Step '' @ str_nat (current_step self1) @
                       '': Retrying to find login form (attempt '' @ str_nat (retry_count + 1) @
                       ''/'' @ str_nat max_retries @ '')'') self1;
                    self3 = called Reload (human_delay self2) in
                case reload d retry_count of
                  Some e' \<Rightarrow> (Raised e', self3)
                | None \<Rightarrow> wait_for_login_form d email max_retries (retry_count + 1) self3))
      else (Returned (), self))"
  by pat_completeness auto
termination
  by (relation "measure (\<lambda>(d, email, max_retries, retry_count, self). max_retries - retry_count)")
    auto

declare wait_for_login_form.simps [simp del]

subsection \<open>\<^verbatim>\<open>start_workflow\<close> (lines 1117 to 1467)\<close>

text \<open>
  The last definition of \<^verbatim>\<open>start_workflow\<close>, step by step. The workflow is run on a bot whose
  step table is the one of \<^verbatim>\<open>__init__\<close>, so the reads \<open>steps self ! 0\<close> to \<open>steps self ! 3\<close> are
  in range.

  Lines 1121 to 1132: the first ledger entry and the Cloudflare pre-step, with its handler.
\<close>

definition initialize_and_bypass :: "workflow_driver \<Rightarrow> string \<Rightarrow> bot \<Rightarrow> unit outcome \<times> bot" where
  "initialize_and_bypass d email self =
     (let self1 = status_update (clock d) email INIT (''Starting workflow - '' @ steps self ! 0)
                    (self\<lparr>current_account := Some (email, 0)\<rparr>) in
      case handle_cloudflare (cloudflare d) self1 of
        (Raised cf_error, self2) \<Rightarrow>
          (Raised cf_error, status_update (clock d) email CLOUDFLARE (str_of cf_error) self2)
      | (Returned u, self2) \<Rightarrow>
          (Returned (), status_update (clock d) email INIT ''Successfully bypassed Cloudflare'' self2))"

text \<open>
  Lines 1135 to 1143: step 1. The URL is looked up in \<^verbatim>\<open>TLSConfig.CENTERS\<close> while the argument
  of \<^verbatim>\<open>page.goto\<close> is evaluated: for a code that is not a key the lookup raises \<^verbatim>\<open>KeyError\<close>
  and \<^verbatim>\<open>goto\<close> is not called. The handler takes every exception of the block.
\<close>

definition navigate_to_login_page ::
  "workflow_driver \<Rightarrow> string \<Rightarrow> string \<Rightarrow> bot \<Rightarrow> unit outcome \<times> bot" where
  "navigate_to_login_page d email center self =
     (let self0 = self\<lparr>current_step := 1\<rparr>;
          self1 = status_update (clock d) email INIT
                    (''Step '' @ str_nat (current_step self0) @ '': '' @
                     steps self0 ! (current_step self0 - 1)) self0;
          self2 = human_delay self1 in
      case centers d (upper center) of
        None \<Rightarrow>
          (Raised (KeyError (upper center)),
           status_update (clock d) email NETWORK_ERROR (str_of (KeyError (upper center))) self2)
      | Some url \<Rightarrow>
          (let self3 = called (Goto url) self2 in
           case goto_center d of
             Some nav_error \<Rightarrow>
               (Raised nav_error,
                status_update (clock d) email NETWORK_ERROR (str_of nav_error) self3)
           | None \<Rightarrow> (Returned (), self3)))"

text \<open>Lines 1146 to 1171: step 2, the wait for the login form, three attempts.\<close>

definition find_login_form :: "workflow_driver \<Rightarrow> string \<Rightarrow> bot \<Rightarrow> unit outcome \<times> bot" where
  "find_login_form d email self =
     (let self0 = self\<lparr>current_step := 2\<rparr>;
          self1 = status_update (clock d) email INIT
                    (''Step '' @ str_nat (current_step self0) @ '': '' @
                     steps self0 ! (current_step self0 - 1) @ '' - Waiting for login form'') self0
      in wait_for_login_form d email 3 0 self1)"

text \<open>Lines 1174 to 1180: the login.\<close>

definition authenticate ::
  "workflow_driver \<Rightarrow> string \<Rightarrow> string \<Rightarrow> bot \<Rightarrow> unit outcome \<times> bot" where
  "authenticate d email password self =
     (case login (login_page d) email password self of
        (False, self1) \<Rightarrow>
          (Raised (Exception ''Login failed''),
           status_update (clock d) email LOGIN_FAILED ''Failed to authenticate'' self1)
      | (True, self1) \<Rightarrow>
          (Returned (),
           status_update (clock d) email LOGGED_IN
             (''Step '' @ str_nat (current_step self1) @ '': Successfully authenticated'') self1))"

text \<open>
  Lines 1183 to 1200: steps 3 and 4, and the navigation to the country page with its
  handler. The statements of lines 1202 to 1449 stand in the handler after its \<^verbatim>\<open>raise\<close>: they
  are never executed.
\<close>

definition select_country :: "workflow_driver \<Rightarrow> string \<Rightarrow> bot \<Rightarrow> unit outcome \<times> bot" where
  "select_country d email self =
     (let self0 = self\<lparr>current_step := 3\<rparr>;
          self1 = status_update (clock d) email BOOKING
                    (''Step '' @ str_nat (current_step self0) @ '': '' @
                     steps self0 ! (current_step self0 - 1) @
                     '' - Starting appointment booking'') self0;
          self2 = self1\<lparr>current_step := 4\<rparr>;
          self3 = status_update (clock d) email BOOKING
                    (''Step '' @ str_nat (current_step self2) @ '': '' @
                     steps self2 ! (current_step self2 - 1) @ '' - Selecting country'') self2;
          self4 = called (Goto (base_url d)) self3 in
      case goto_base d of
        Some nav_error \<Rightarrow>
          (Raised nav_error,
           status_update (clock d) email NETWORK_ERROR
             (''Step '' @ str_nat (current_step self4) @ '': Navigation error - '' @
              str_of nav_error) self4)
      | None \<Rightarrow> (Returned (), human_delay self4))"

text \<open>Lines 1451 to 1461: what follows the navigation of step 4 in the \<^verbatim>\<open>try\<close> block.\<close>

definition after_navigation :: "workflow_driver \<Rightarrow> bot \<Rightarrow> bool outcome \<times> bot" where
  "after_navigation d self =
     (let self1 = logger ''Monitoring time limit reached without finding available dates'' self in
      case current_account self1 of
        Some (account_email, _) \<Rightarrow>
          if notify_draw d then
            (Returned False,
             snd (send_security_notification (alert_write d)
                    ''Calendar Selectors May Have Changed''
                    (''Bot monitored the calendar page for the maximum time but could'' @
                     [CHR 0x27] @ ''t find any available dates. This could be normal (no '' @
                     ''appointments available) or the calendar selectors may have changed.'')
                    (Some account_email) self1))
          else (Returned False, self1)
      | None \<Rightarrow> (Returned False, self1))"

definition start_workflow_try ::
  "workflow_driver \<Rightarrow> string \<Rightarrow> string \<Rightarrow> string \<Rightarrow> bot \<Rightarrow> bool outcome \<times> bot" where
  "start_workflow_try d email password center self =
     and_then (initialize_and_bypass d email self) (\<lambda>_ self1.
     and_then (navigate_to_login_page d email center self1) (\<lambda>_ self2.
     and_then (find_login_form d email self2) (\<lambda>_ self3.
     and_then (authenticate d email password self3) (\<lambda>_ self4.
     and_then (select_country d email self4) (\<lambda>_ self5.
     after_navigation d self5)))))"

text \<open>The outer handler (lines 1462 to 1464) and the \<^verbatim>\<open>finally\<close> block.\<close>

definition start_workflow ::
  "workflow_driver \<Rightarrow> string \<Rightarrow> string \<Rightarrow> string \<Rightarrow> bot \<Rightarrow> bool outcome \<times> bot" where
  "start_workflow d email password center self =
     (case start_workflow_try d email password center self of
        (Raised e, self') \<Rightarrow>
          (Raised e,
           human_delay (human_delay (logger (''Failed to monitor calendar: '' @ str_of e) self')))
      | (Returned b, self') \<Rightarrow> (Returned b, human_delay (human_delay self')))"

subsection \<open>\<^verbatim>\<open>start_workflow\<close> (lines 533 to 613)\<close>

text \<open>
  The first \<^verbatim>\<open>start_workflow\<close> of the module: a \<^verbatim>\<open>try\<close> block (lines 537 to 557), a handler
  (lines 558 to 566) and a \<^verbatim>\<open>finally\<close> block (lines 568 to 613).

  The \<^verbatim>\<open>try\<close> block opens the ledger entry, sets the browser up when there is none, waits for
  the Cloudflare challenge and navigates to the login page of the centre.
\<close>

definition start_workflow_533_try ::
  "workflow_driver \<Rightarrow> string \<Rightarrow> string \<Rightarrow> bot \<Rightarrow> unit outcome \<times> bot" where
  "start_workflow_533_try d email center self =
     (let self1 = status_update (clock d) email INIT (''Starting workflow - '' @ steps self ! 0)
                    (self\<lparr>current_account := Some (email, 0)\<rparr>) in
      and_then
        (case browser self1 of
           Some b \<Rightarrow> (Returned (), self1)
         | None \<Rightarrow>
             (case bot_setup (browser_setup d) self1 of
                (Raised e, self2) \<Rightarrow> (Raised e, self2)
              | (Returned False, self2) \<Rightarrow>
                  (Raised (Exception ''Failed to set up browser''), self2)
              | (Returned True, self2) \<Rightarrow> (Returned (), self2)))
        (\<lambda>_ self2.
      and_then (handle_cloudflare (cloudflare d) self2) (\<lambda>_ self3.
        (let self4 = status_update (clock d) email INIT ''Successfully bypassed Cloudflare'' self3;
             self5 = self4\<lparr>current_step := 1\<rparr>;
             self6 = status_update (clock d) email INIT
                       (''Step '' @ str_nat (current_step self5) @ '': '' @
                        steps self5 ! (current_step self5 - 1)) self5;
             self7 = human_delay self6 in
         case centers d (upper center) of
           None \<Rightarrow> (Raised (KeyError (upper center)), self7)
         | Some url \<Rightarrow>
             (let self8 = called (Goto url) self7 in
              case goto_center d of
                Some e \<Rightarrow> (Raised e, self8)
              | None \<Rightarrow> (Returned (), self8))))))"

text \<open>
  The handler, entered with the exception \<open>e\<close> of the \<^verbatim>\<open>try\<close> block. Its first statement
  evaluates \<^verbatim>\<open>isinstance(e, PlaywrightError)\<close>. The module binds no name \<^verbatim>\<open>PlaywrightError\<close>, so
  the evaluation raises \<^verbatim>\<open>NameError\<close>: no branch of the handler runs, nothing is recorded in
  the ledger, nothing is logged, and the \<^verbatim>\<open>raise\<close> of line 566 is not reached. The value is the
  exception that leaves the handler, with the bot as the handler leaves it.
\<close>

definition classify_failure :: "string \<Rightarrow> exn \<Rightarrow> bot \<Rightarrow> exn \<times> bot" where
  "classify_failure email e self = (NameError ''PlaywrightError'', self)"

text \<open>
  The \<^verbatim>\<open>finally\<close> block. By its indentation it holds not only the delay of line 568 but the
  whole of steps 2 and 3: the wait for the login form (lines 571 to 596, the statements of
  lines 1147 to 1171, modelled by \<open>find_login_form\<close>), the login with its handler (lines 598
  to 605), and the two ledger calls that follow (lines 607 to 613).
\<close>

definition start_workflow_533_finally ::
  "workflow_driver \<Rightarrow> string \<Rightarrow> string \<Rightarrow> bot \<Rightarrow> unit outcome \<times> bot" where
  "start_workflow_533_finally d email password self =
     and_then (find_login_form d email (human_delay self)) (\<lambda>_ self1.
       case login (login_page d) email password self1 of
         (False, self2) \<Rightarrow>
           (Raised (Exception ''Login failed''),
            status_update (clock d) email LOGIN_FAILED ''Failed to authenticate''
              (logger ''Login failed: Login failed'' self2))
       | (True, self2) \<Rightarrow>
           (let self3 = status_update (clock d) email LOGGED_IN
                          (''Step '' @ str_nat (current_step self2) @
                           '': Successfully authenticated'') self2;
                self4 = self3\<lparr>current_step := 3\<rparr> in
            (Returned (),
             status_update (clock d) email BOOKING
               (''Step '' @ str_nat (current_step self4) @ '': '' @
                steps self4 ! (current_step self4 - 1) @ '' - Starting appointment booking'')
               self4)))"

text \<open>
  The function. When the \<^verbatim>\<open>try\<close> block raises, the handler runs and then the \<^verbatim>\<open>finally\<close>
  block; the exception that leaves the function is the one of the \<^verbatim>\<open>finally\<close> block if it
  raises, and the one that left the handler otherwise. When the \<^verbatim>\<open>try\<close> block returns, only
  the \<^verbatim>\<open>finally\<close> block runs.
\<close>

definition start_workflow_533 ::
  "workflow_driver \<Rightarrow> string \<Rightarrow> string \<Rightarrow> string \<Rightarrow> bot \<Rightarrow> unit outcome \<times> bot" where
  "start_workflow_533 d email password center self =
     (case start_workflow_533_try d email center self of
        (Returned u, self1) \<Rightarrow> start_workflow_533_finally d email password self1
      | (Raised e, self1) \<Rightarrow>
          (case classify_failure email e self1 of
             (handler_error, self2) \<Rightarrow>
               (case start_workflow_533_finally d email password self2 of
                  (Raised finally_error, self3) \<Rightarrow> (Raised finally_error, self3)
                | (Returned u, self3) \<Rightarrow> (Raised handler_error, self3))))"

subsection \<open>\<^verbatim>\<open>start_workflow\<close> (lines 808 to 868): the one-shot booking\<close>

text \<open>
  The page's answers: the selection of the centre, the calendar element (present or not),
  the elements of class \<^verbatim>\<open>available\<close> in list order (an element is named by its text), the
  click on a date, the click on the submit button, the wait for the confirmation.
\<close>

record booking_driver =
  booking_clock :: "nat \<Rightarrow> readings"
  booking_setup :: setup_driver
  select_center :: "exn option"
  calendar :: "exn + bool"
  available_dates :: "exn + string list"
  date_click :: "exn option"
  submit_click :: "exn option"
  confirmation :: "exn option"

text \<open>Lines 810 to 826.\<close>

definition booking_prepare :: "booking_driver \<Rightarrow> string \<Rightarrow> bot \<Rightarrow> (bool option) \<times> bot" where
  "booking_prepare d email self =
     (let self1 = status_update (booking_clock d) email INIT
                    (''Starting workflow - '' @ steps self ! 0)
                    (self\<lparr>current_account := Some (email, 0)\<rparr>);
          failed = (\<lambda>e s. (Some False,
                      status_update (booking_clock d) email FAILED []
                        (logger (''Failed to navigate to booking: '' @ str_of e) s))) in
      case browser self1 of
        Some b \<Rightarrow> (None, self1)
      | None \<Rightarrow>
          (case bot_setup (booking_setup d) self1 of
             (Raised e, self2) \<Rightarrow> failed e self2
           | (Returned False, self2) \<Rightarrow> failed (Exception ''Failed to set up browser'') self2
           | (Returned True, self2) \<Rightarrow> (None, self2)))"

text \<open>Lines 828 to 835, step 4.\<close>

definition booking_select_center ::
  "booking_driver \<Rightarrow> string \<Rightarrow> string \<Rightarrow> bot \<Rightarrow> (bool option) \<times> bot" where
  "booking_select_center d email center self =
     (let self1 = called (SelectOption ''select#VisaCenter'' center) self in
      case select_center d of
        Some e \<Rightarrow>
          (Some False,
           status_update (booking_clock d) email FAILED []
             (logger (''Failed to select center: '' @ str_of e) self1))
      | None \<Rightarrow> (None, human_delay self1))"

text \<open>
  Lines 837 to 857, step 5: the calendar check. \<open>Some b\<close> is \<^verbatim>\<open>return b\<close>, \<open>None\<close> is falling
  through to the next step. The handler takes every exception of the block.
\<close>

definition check_calendar :: "booking_driver \<Rightarrow> string \<Rightarrow> bot \<Rightarrow> (bool option) \<times> bot" where
  "check_calendar d email self =
     (let failed = (\<lambda>e s. (Some False,
                      status_update (booking_clock d) email CALENDAR_ERROR []
                        (logger (''Error checking calendar: '' @ str_of e) s)));
          self1 = called (QuerySelector ''.calendar'') self in
      case calendar d of
        Inl e \<Rightarrow> failed e self1
      | Inr False \<Rightarrow>
          (Some False,
           status_update (booking_clock d) email CALENDAR_ERROR []
             (logger ''Calendar not found'' self1))
      | Inr True \<Rightarrow>
          (let self2 = called (QuerySelectorAll ''.available'') self1 in
           case available_dates d of
             Inl e \<Rightarrow> failed e self2
           | Inr [] \<Rightarrow>
               (Some False,
                status_update (booking_clock d) email BOOKING_FAILED []
                  (logger ''No available dates found'' self2))
           | Inr (first_date # _) \<Rightarrow>
               (let self3 = called (Click first_date) self2 in
                case date_click d of
                  Some e \<Rightarrow> failed e self3
                | None \<Rightarrow> (None, human_delay self3))))"

text \<open>Lines 859 to 868, step 6.\<close>

definition complete_booking :: "booking_driver \<Rightarrow> string \<Rightarrow> bot \<Rightarrow> bool \<times> bot" where
  "complete_booking d email self =
     (let failed = (\<lambda>e s. (False,
                      status_update (booking_clock d) email BOOKING_FAILED []
                        (logger (''Failed to complete booking: '' @ str_of e) s)));
          self1 = called (Click (''button[type='' @ [CHR 0x22] @ ''submit'' @ [CHR 0x22] @ '']'')) self in
      case submit_click d of
        Some e \<Rightarrow> failed e self1
      | None \<Rightarrow>
          (let self2 = called (WaitForSelector ''.confirmation'') self1 in
           case confirmation d of
             Some e \<Rightarrow> failed e self2
           | None \<Rightarrow> (True, status_update (booking_clock d) email BOOKED [] self2)))"

definition start_workflow_808 ::
  "booking_driver \<Rightarrow> string \<Rightarrow> string \<Rightarrow> string \<Rightarrow> bot \<Rightarrow> bool \<times> bot" where
  "start_workflow_808 d email password center self =
     (case booking_prepare d email self of
        (Some b, self1) \<Rightarrow> (b, self1)
      | (None, self1) \<Rightarrow>
     (case booking_select_center d email center self1 of
        (Some b, self2) \<Rightarrow> (b, self2)
      | (None, self2) \<Rightarrow>
     (case check_calendar d email self2 of
        (Some b, self3) \<Rightarrow> (b, self3)
      | (None, self3) \<Rightarrow> complete_booking d email self3)))"

subsection \<open>\<^verbatim>\<open>_monitor_calendar\<close>\<close>

text \<open>
  Of \<^verbatim>\<open>_monitor_calendar\<close> the source has the end only (lines 1442 to 1467, after the comment
  "rest of the code remains the same"): the sleep and the occasional refresh that end an
  iteration without available dates, what follows the loop, the handler and the \<^verbatim>\<open>finally\<close>
  block. In the file these lines close the last \<^verbatim>\<open>start_workflow\<close>, where lines 1451 to 1467
  are \<open>after_navigation\<close> and the outer handler above; \<^verbatim>\<open>_monitor_calendar\<close> itself, which line
  1411 calls, is defined nowhere. Here the lines are read as the end of that function.

  The monitor's surroundings: \<open>cancelled i\<close> is the external cancellation signal as iteration
  \<open>i\<close> (from 0) finds it; \<open>listing i\<close> is what the query for available elements returns in
  iteration \<open>i\<close>, in list order; \<open>select_date\<close> is what the selection does; \<open>refresh_draw i\<close> is
  the draw \<^verbatim>\<open>random.random() < 0.1\<close> of iteration \<open>i\<close> and \<open>refresh i\<close> what the reload and the
  wait after it do; \<open>stale_draw\<close> is the draw after the loop.
\<close>

record monitor_driver =
  cancelled :: "nat \<Rightarrow> bool"
  listing :: "nat \<Rightarrow> exn + string list"
  select_date :: "exn option"
  refresh_draw :: "nat \<Rightarrow> bool"
  refresh :: "nat \<Rightarrow> exn option"
  stale_draw :: bool
  monitor_alert_write :: "exn option"

text \<open>How the polling loop ends when it does not raise.\<close>

datatype monitor_exit = Selected string | Ceiling | Cancelled

text \<open>
  Modelled from the spec: the head of the polling loop of \<^verbatim>\<open>_monitor_calendar\<close>, which the
  source does not have. After section 4.4 of the specification: each iteration checks the
  external cancellation signal and exits early if it is set; otherwise it queries the
  listing for the elements matching the "available" predicate; if any is found, the first in
  list order is selected and the monitor returns success; if none is found the iteration
  ends as in the source (lines 1442 to 1449: the sleep, and with the draw the reload and the
  wait for the network, whose errors are not caught in the loop). The time budget is the
  number \<open>budget\<close> of iterations that start before the time ceiling.
\<close>

fun monitor_poll ::
  "monitor_driver \<Rightarrow> nat \<Rightarrow> nat \<Rightarrow> bot \<Rightarrow> monitor_exit outcome \<times> bot" where
  "monitor_poll d 0 i self = (Returned Ceiling, self)"
| "monitor_poll d (Suc budget) i self =
     (if cancelled d i then (Returned Cancelled, self)
      else
        (let self1 = called (QuerySelectorAll ''.available'') self in
         case listing d i of
           Inl e \<Rightarrow> (Raised e, self1)
         | Inr (first_date # _) \<Rightarrow>
             (let self2 = called (Click first_date) self1 in
              case select_date d of
                Some e \<Rightarrow> (Raised e, self2)
              | None \<Rightarrow> (Returned (Selected first_date), self2))
         | Inr [] \<Rightarrow>
             (let self2 = human_delay self1 in
              if refresh_draw d i then
                (let self3 = called WaitForLoadState
                               (called Reload (logger ''Refreshing calendar page'' self2)) in
                 case refresh d i of
                   Some e \<Rightarrow> (Raised e, self3)
                 | None \<Rightarrow> monitor_poll d budget (Suc i) self3)
              else monitor_poll d budget (Suc i) self2)))"

text \<open>Lines 1451 to 1461, after the loop.\<close>

definition monitor_exhausted :: "monitor_driver \<Rightarrow> bot \<Rightarrow> bool outcome \<times> bot" where
  "monitor_exhausted d self =
     (let self1 = logger ''Monitoring time limit reached without finding available dates'' self in
      case current_account self1 of
        Some (account_email, _) \<Rightarrow>
          if stale_draw d then
            (Returned False,
             snd (send_security_notification (monitor_alert_write d)
                    ''Calendar Selectors May Have Changed''
                    (''Bot monitored the calendar page for the maximum time but could'' @
                     [CHR 0x27] @ ''t find any available dates. This could be normal (no '' @
                     ''appointments available) or the calendar selectors may have changed.'')
                    (Some account_email) self1))
          else (Returned False, self1)
      | None \<Rightarrow> (Returned False, self1))"

text \<open>
  Modelled from the spec: the three ways out of the loop. A selection is success; the time
  ceiling leads to lines 1451 to 1461; of a cancelled monitor section 4.4 says that it exits
  early, without further effects, and no more: here it returns \<^verbatim>\<open>False\<close>, as nothing was
  selected.
\<close>

definition monitor_calendar_try :: "monitor_driver \<Rightarrow> nat \<Rightarrow> bot \<Rightarrow> bool outcome \<times> bot" where
  "monitor_calendar_try d budget self =
     (case monitor_poll d budget 0 self of
        (Raised e, self1) \<Rightarrow> (Raised e, self1)
      | (Returned (Selected x), self1) \<Rightarrow> (Returned True, self1)
      | (Returned Ceiling, self1) \<Rightarrow> monitor_exhausted d self1
      | (Returned Cancelled, self1) \<Rightarrow> (Returned False, self1))"

text \<open>Lines 1462 to 1467: the handler logs the error and raises it again.\<close>

definition monitor_calendar :: "monitor_driver \<Rightarrow> nat \<Rightarrow> bot \<Rightarrow> bool outcome \<times> bot" where
  "monitor_calendar d budget self =
     (case monitor_calendar_try d budget self of
        (Raised e, self') \<Rightarrow>
          (Raised e,
           human_delay (human_delay (logger (''Failed to monitor calendar: '' @ str_of e) self')))
      | (Returned b, self') \<Rightarrow> (Returned b, human_delay (human_delay self')))"

subsection \<open>Observations of a run\<close>

text \<open>
  The part of \<open>start_workflow_try\<close> that comes before step 3 (lines 1119 to 1180): when it
  returns, the run has logged in and is about to select the country.
\<close>

definition reach_country_selection ::
  "workflow_driver \<Rightarrow> string \<Rightarrow> string \<Rightarrow> string \<Rightarrow> bot \<Rightarrow> unit outcome \<times> bot" where
  "reach_country_selection d email password center self =
     and_then (initialize_and_bypass d email self) (\<lambda>_ self1.
     and_then (navigate_to_login_page d email center self1) (\<lambda>_ self2.
     and_then (find_login_form d email self2) (\<lambda>_ self3.
     authenticate d email password self3)))"

text \<open>
  The number of invocations of the login-form check in the journal, the statuses recorded
  for an identity in order, the notifications that were emitted and the navigations that
  were made.
\<close>

definition form_checks :: "bot \<Rightarrow> nat" where
  "form_checks self =
     length (filter (\<lambda>ev. ev = WaitForSelector ''input[type='email']'') (journal self))"

definition recorded_statuses :: "string \<Rightarrow> bot \<Rightarrow> string list" where
  "recorded_statuses email self =
     (case account_history self email of
        None \<Rightarrow> []
      | Some acc \<Rightarrow> map entry_status (history acc))"

fun is_notify :: "event \<Rightarrow> bool" where
  "is_notify (Notify issue_type det account_email) = True"
| "is_notify ev = False"

fun is_goto :: "event \<Rightarrow> bool" where
  "is_goto (Goto url) = True"
| "is_goto ev = False"

definition notifications :: "bot \<Rightarrow> event list" where
  "notifications self = filter is_notify (journal self)"

definition navigations :: "bot \<Rightarrow> event list" where
  "navigations self = filter is_goto (journal self)"

subsection \<open>Concrete drivers, for the instances below\<close>

definition quiet_setup :: setup_driver where
  "quiet_setup = \<lparr>start_playwright = None, launch_persistent_context = None,
     context_browser = Some 1, new_page = Inr 2, set_extra_http_headers = None,
     add_init_script = None\<rparr>"

definition quiet_cloudflare :: cloudflare_driver where
  "quiet_cloudflare =
     \<lparr>challenge_wait = (\<lambda>selector. Inl (PlaywrightError ''Timeout 5000ms exceeded'')),
      challenge_hidden = (\<lambda>selector. None), load_state = None\<rparr>"

definition quiet_typing :: typing_driver where
  "quiet_typing =
     \<lparr>click_field = (\<lambda>selector. None), fill_field = (\<lambda>selector. None),
      type_char = (\<lambda>selector i. None)\<rparr>"

definition quiet_login :: login_driver where
  "quiet_login =
     \<lparr>typing = quiet_typing, login_button = Inr True, login_button_click = None,
      login_marker = None, error_message = Inr None\<rparr>"

definition quiet_workflow :: workflow_driver where
  "quiet_workflow =
     \<lparr>centers = [''PAR'' \<mapsto> ''https://visas.example/par''],
      base_url = ''https://visas.example/'',
      clock = (\<lambda>n. demo_now (str_nat n)),
      browser_setup = quiet_setup, cloudflare = quiet_cloudflare, goto_center = None,
      form_wait = (\<lambda>k. None), reload = (\<lambda>k. None), login_page = quiet_login,
      goto_base = None, notify_draw = False, alert_write = None\<rparr>"

definition timeout_error :: exn where
  "timeout_error = PlaywrightError ''Timeout 10000ms exceeded''"

definition third_time_driver :: workflow_driver where
  "third_time_driver =
     quiet_workflow\<lparr>form_wait := (\<lambda>k. if k < 2 then Some timeout_error else None)\<rparr>"

definition never_driver :: workflow_driver where
  "never_driver = quiet_workflow\<lparr>form_wait := (\<lambda>k. Some timeout_error)\<rparr>"

text \<open>A page that is gone: the check of the login form times out and the reload fails.\<close>

definition dead_page_driver :: workflow_driver where
  "dead_page_driver =
     never_driver\<lparr>reload := (\<lambda>k. Some (PlaywrightError ''net::ERR_INTERNET_DISCONNECTED''))\<rparr>"

text \<open>A page whose second reload fails.\<close>

definition second_reload_driver :: workflow_driver where
  "second_reload_driver =
     never_driver\<lparr>reload := (\<lambda>k. if k = 1 then Some (PlaywrightError ''net::ERR_INTERNET_DISCONNECTED'')
                                 else None)\<rparr>"

definition same_ledger :: "bot \<Rightarrow> bot \<Rightarrow> bool" where
  "same_ledger s s' \<longleftrightarrow>
     account_history s' = account_history s \<and> current_step s' = current_step s \<and>
     current_account s' = current_account s \<and> steps s' = steps s \<and>
     notifications s' = notifications s \<and> navigations s' = navigations s"

text \<open>The first error that the page raises while \<open>n\<close> characters are typed from position \<open>i\<close>.\<close>

fun first_type_error :: "typing_driver \<Rightarrow> string \<Rightarrow> nat \<Rightarrow> nat \<Rightarrow> exn option" where
  "first_type_error d selector i 0 = None"
| "first_type_error d selector i (Suc n) =
     (case type_char d selector i of
        Some e \<Rightarrow> Some e
      | None \<Rightarrow> first_type_error d selector (Suc i) n)"

text \<open>
  How a call of the typing primitive ends, which does not depend on the bot: for the method
  of the class, with the first error that the page raises, if any; for the function of the
  module, with the error of the click or of the first \<^verbatim>\<open>page.type\<close>, and otherwise with the
  \<^verbatim>\<open>NameError\<close> of \<^verbatim>\<open>TIMING\<close> unless the text is empty.
\<close>

definition TLSVisaBot_typing_outcome ::
  "typing_driver \<Rightarrow> string \<Rightarrow> string \<Rightarrow> unit outcome" where
  "TLSVisaBot_typing_outcome d selector chars =
     (case click_field d selector of
        Some e \<Rightarrow> Raised e
      | None \<Rightarrow>
          (case fill_field d selector of
             Some e \<Rightarrow> Raised e
           | None \<Rightarrow>
               (case first_type_error d selector 0 (length chars) of
                  Some e \<Rightarrow> Raised e
                | None \<Rightarrow> Returned ())))"

definition typing_outcome :: "typing_driver \<Rightarrow> string \<Rightarrow> string \<Rightarrow> unit outcome" where
  "typing_outcome d selector chars =
     (case click_field d selector of
        Some e \<Rightarrow> Raised e
      | None \<Rightarrow>
          (case chars of
             [] \<Rightarrow> Returned ()
           | c # cs \<Rightarrow>
               (case type_char d selector 0 of
                  Some e \<Rightarrow> Raised e
                | None \<Rightarrow> Raised (NameError ''TIMING''))))"

definition typing_fails_driver :: workflow_driver where
  "typing_fails_driver =
     quiet_workflow\<lparr>login_page := quiet_login\<lparr>typing :=
       quiet_typing\<lparr>click_field := (\<lambda>selector. Some (PlaywrightError ''Element is not attached to the DOM''))\<rparr>\<rparr>\<rparr>"

definition height_fails_scroll :: scroll_driver where
  "height_fails_scroll =
     \<lparr>scroll_height = Inl (PlaywrightError ''Execution context was destroyed''),
      inner_height = Inr 900, scroll_by = (\<lambda>i. None), step_draw = (\<lambda>i. 50),
      pause_draw = (\<lambda>i. False), mouse_draw = (\<lambda>i. False), mouse_move = (\<lambda>i. None)\<rparr>"

definition nav_fails_driver :: workflow_driver where
  "nav_fails_driver =
     quiet_workflow\<lparr>goto_center := Some (PlaywrightError ''net::ERR_CONNECTION_RESET'')\<rparr>"

definition base_fails_driver :: workflow_driver where
  "base_fails_driver =
     quiet_workflow\<lparr>goto_base := Some (PlaywrightError ''net::ERR_CONNECTION_RESET'')\<rparr>"

text \<open>
  More observations: the polls of the listing, and the clicks, in the order in which they
  were made.
\<close>

fun is_click :: "event \<Rightarrow> bool" where
  "is_click (Click x) = True"
| "is_click ev = False"

definition polls :: "bot \<Rightarrow> nat" where
  "polls self = length (filter (\<lambda>ev. ev = QuerySelectorAll ''.available'') (journal self))"

definition selections :: "bot \<Rightarrow> event list" where
  "selections self = filter is_click (journal self)"

definition empty_listing_monitor :: monitor_driver where
  "empty_listing_monitor =
     \<lparr>cancelled = (\<lambda>i. False), listing = (\<lambda>i. Inr []), select_date = None,
      refresh_draw = (\<lambda>i. i = 1), refresh = (\<lambda>i. None), stale_draw = True,
      monitor_alert_write = None\<rparr>"

definition refresh_fails_monitor :: monitor_driver where
  "refresh_fails_monitor =
     empty_listing_monitor\<lparr>refresh := (\<lambda>i. Some (PlaywrightError ''net::ERR_CONNECTION_RESET''))\<rparr>"

definition second_poll_monitor :: monitor_driver where
  "second_poll_monitor =
     empty_listing_monitor\<lparr>listing :=
       (\<lambda>i. if i = 1 then Inr [''2026-12-01'', ''2026-12-03''] else Inr [])\<rparr>"

definition select_fails_monitor :: monitor_driver where
  "select_fails_monitor =
     second_poll_monitor\<lparr>select_date := Some (PlaywrightError ''Element is not attached to the DOM'')\<rparr>"

definition quiet_booking :: booking_driver where
  "quiet_booking =
     \<lparr>booking_clock = (\<lambda>n. demo_now (str_nat n)), booking_setup = quiet_setup,
      select_center = None, calendar = Inr True,
      available_dates = Inr [''2026-12-01'', ''2026-12-03''], date_click = None,
      submit_click = None, confirmation = None\<rparr>"

section \<open>The ledger: what a sequence of calls leaves behind\<close>

lemma account_history_update_same:
  "account_history (update_account_status now self email st det) email =
     Some (update_account now (step_label self) st det
       (case account_history self email of None \<Rightarrow> new_account now st | Some acc \<Rightarrow> acc))"
  by (simp add: update_account_status_def Let_def)

lemma account_history_update_other:
  "email' \<noteq> email \<Longrightarrow>
     account_history (update_account_status now self email st det) email' =
     account_history self email'"
  by (simp add: update_account_status_def Let_def)

lemma total_attempts_track [simp]: "total_attempts (track st det acc) = total_attempts acc"
  by (simp add: track_def)

lemma history_track [simp]: "history (track st det acc) = history acc"
  by (simp add: track_def)

lemma history_update_account:
  "history (update_account now label st det acc) =
     history acc @ [\<lparr>timestamp = at_entry now, entry_status = st, details = det,
                     step = label, attempt = Suc (total_attempts acc)\<rparr>]"
  by (simp add: update_account_def Let_def)

lemma total_attempts_update_account [simp]:
  "total_attempts (update_account now label st det acc) = Suc (total_attempts acc)"
  by (simp add: update_account_def Let_def)

lemma last_updated_update_account [simp]:
  "last_updated (update_account now label st det acc) = at_update now"
  by (simp add: update_account_def Let_def)

lemma success_update_account [simp]:
  "success (update_account now label st det acc) = (st = BOOKED \<or> success acc)"
  by (simp add: update_account_def track_def Let_def)

lemma last_error_update_account:
  "last_error (update_account now label st det acc) =
     (if st \<in> set error_statuses then Some det else last_error acc)"
  by (simp add: update_account_def track_def Let_def error_statuses_def status_defs)

lemma record_calls_append:
  "record_calls self (cs @ ds) = record_calls (record_calls self cs) ds"
  by (induction cs arbitrary: self) simp_all

lemma record_calls_snoc:
  "record_calls self (cs @ [c]) =
     update_account_status (call_now c) ((record_calls self cs)\<lparr>current_step := call_step c\<rparr>)
       (call_email c) (call_status c) (call_details c)"
  by (simp add: record_calls_append)

lemma record_calls_ledger:
  assumes fresh: "account_history self email = None"
  shows "(calls_for email cs = [] \<longrightarrow> account_history (record_calls self cs) email = None) \<and>
         (calls_for email cs \<noteq> [] \<longrightarrow>
            (\<exists>acc. account_history (record_calls self cs) email = Some acc \<and>
               total_attempts acc = length (calls_for email cs) \<and>
               length (history acc) = length (calls_for email cs) \<and>
               map attempt (history acc) = [1..<Suc (length (calls_for email cs))] \<and>
               map entry_status (history acc) = map call_status (calls_for email cs) \<and>
               map timestamp (history acc) = map (\<lambda>c. at_entry (call_now c)) (calls_for email cs) \<and>
               success acc = (BOOKED \<in> call_status ` set (calls_for email cs)) \<and>
               last_updated acc = at_update (call_now (last (calls_for email cs)))))"
proof (induction cs rule: rev_induct)
  case Nil
  then show ?case using fresh by (simp add: calls_for_def)
next
  case (snoc c cs)
  let ?s = "(record_calls self cs)\<lparr>current_step := call_step c\<rparr>"
  show ?case
  proof (cases "call_email c = email")
    case False
    then have "calls_for email (cs @ [c]) = calls_for email cs"
      by (simp add: calls_for_def)
    moreover from False have "account_history (record_calls self (cs @ [c])) email =
        account_history (record_calls self cs) email"
      by (simp add: record_calls_snoc account_history_update_other)
    ultimately show ?thesis using snoc.IH by simp
  next
    case True
    then have cf: "calls_for email (cs @ [c]) = calls_for email cs @ [c]"
      by (simp add: calls_for_def)
    have ah: "account_history (record_calls self (cs @ [c])) email =
        Some (update_account (call_now c) (step_label ?s) (call_status c) (call_details c)
          (case account_history (record_calls self cs) email of
             None \<Rightarrow> new_account (call_now c) (call_status c) | Some acc \<Rightarrow> acc))"
      using True by (simp add: record_calls_snoc account_history_update_same)
    show ?thesis
    proof (cases "calls_for email cs = []")
      case True
      with snoc.IH have "account_history (record_calls self cs) email = None" by simp
      with ah True cf show ?thesis
        by (auto simp add: history_update_account new_account_def)
    next
      case False
      with snoc.IH obtain acc where
        acc: "account_history (record_calls self cs) email = Some acc"
          "total_attempts acc = length (calls_for email cs)"
          "length (history acc) = length (calls_for email cs)"
          "map attempt (history acc) = [1..<Suc (length (calls_for email cs))]"
          "map entry_status (history acc) = map call_status (calls_for email cs)"
          "map timestamp (history acc) = map (\<lambda>c. at_entry (call_now c)) (calls_for email cs)"
          "success acc = (BOOKED \<in> call_status ` set (calls_for email cs))"
        by auto
      with ah cf show ?thesis
        by (auto simp add: history_update_account)
    qed
  qed
qed

text \<open>
  Claim C1. Start from a bot that has no record for \<open>email\<close> and make any finite sequence
  of calls (calls for other identities may come in between, and the step index may change
  from call to call). If at least one call is for \<open>email\<close>, its record exists afterwards, its
  history has as many entries as there were calls for \<open>email\<close>, the attempt counters of the
  entries are 1, 2, 3, ... (the first is 1 and each next one is the one before plus 1), and
  \<^verbatim>\<open>last_updated\<close> is the clock reading that the last of these calls took for it.
\<close>

theorem record_status_history:
  assumes "account_history self email = None" and "calls_for email cs \<noteq> []"
  shows "\<exists>acc. account_history (record_calls self cs) email = Some acc \<and>
           length (history acc) = length (calls_for email cs) \<and>
           map attempt (history acc) = [1..<Suc (length (calls_for email cs))] \<and>
           (\<forall>i. Suc i < length (history acc) \<longrightarrow>
              attempt (history acc ! Suc i) = attempt (history acc ! i) + 1) \<and>
           attempt (hd (history acc)) = 1 \<and>
           last_updated acc = at_update (call_now (last (calls_for email cs)))"
proof -
  from record_calls_ledger [OF assms(1), of cs] assms(2) obtain acc where
    acc: "account_history (record_calls self cs) email = Some acc"
      "length (history acc) = length (calls_for email cs)"
      "map attempt (history acc) = [1..<Suc (length (calls_for email cs))]"
      "last_updated acc = at_update (call_now (last (calls_for email cs)))"
    by auto
  have nth: "attempt (history acc ! i) = Suc i" if "i < length (history acc)" for i
  proof -
    from that have "attempt (history acc ! i) = map attempt (history acc) ! i" by simp
    also have "\<dots> = [1..<Suc (length (calls_for email cs))] ! i" by (simp only: acc(3))
    also have "\<dots> = Suc i" using that acc(2) by (simp del: upt_Suc)
    finally show ?thesis .
  qed
  from assms(2) acc(2) have ne: "history acc \<noteq> []" by auto
  then have "attempt (hd (history acc)) = attempt (history acc ! 0)" by (simp add: hd_conv_nth)
  also have "\<dots> = 1" using ne nth [of 0] by simp
  finally have "attempt (hd (history acc)) = 1" .
  moreover have "\<forall>i. Suc i < length (history acc) \<longrightarrow>
              attempt (history acc ! Suc i) = attempt (history acc ! i) + 1"
    using nth by simp
  ultimately show ?thesis using acc by blast
qed

lemma calls_for_demo:
  "calls_for ''a@x.com'' demo_calls = [demo_calls ! 0, demo_calls ! 2, demo_calls ! 3]"
  by (simp add: calls_for_def demo_calls_def)

lemma demo_fresh: "account_history init ''a@x.com'' = None" by (simp add: init_def)
lemma demo_calls_nonempty: "calls_for ''a@x.com'' demo_calls \<noteq> []" by (simp add: calls_for_demo)
lemma demo_calls_length: "length (calls_for ''a@x.com'' demo_calls) = 3" by (simp add: calls_for_demo)
lemma upt_1_4: "[1..<Suc 3] = [1, 2, 3]" by (simp add: upt_rec)
lemma demo_calls_last: "last (calls_for ''a@x.com'' demo_calls) = demo_calls ! 3"
    by (simp add: calls_for_demo) 
lemma demo_calls_last_reading: "at_update (call_now (demo_calls ! 3)) = ''t4.3''"
    by (simp add: demo_calls_def demo_now_def)

lemma demo_calls_last_update: "at_update (call_now (last (calls_for ''a@x.com'' demo_calls))) = ''t4.3''"
  by (simp only: demo_calls_last demo_calls_last_reading)

theorem record_status_history_witness:
  "account_history init ''a@x.com'' = None \<and> calls_for ''a@x.com'' demo_calls \<noteq> [] \<and>
   (\<exists>acc. account_history (record_calls init demo_calls) ''a@x.com'' = Some acc \<and>
      length (history acc) = 3 \<and> map attempt (history acc) = [1, 2, 3] \<and>
      last_updated acc = ''t4.3'')"
proof -
  from record_status_history [OF demo_fresh demo_calls_nonempty] obtain acc where
    a: "account_history (record_calls init demo_calls) ''a@x.com'' = Some acc"
     and b: "length (history acc) = length (calls_for ''a@x.com'' demo_calls)" 
     and c: "map attempt (history acc) = [1..<Suc (length (calls_for ''a@x.com'' demo_calls))]"
     and d: "last_updated acc = at_update (call_now (last (calls_for ''a@x.com'' demo_calls)))"
    by (elim exE conjE)
  from b have b': "length (history acc) = 3" by (simp only: demo_calls_length)
  from c have c': "map attempt (history acc) = [1, 2, 3]" by (simp only: demo_calls_length upt_1_4)
  from d have d': "last_updated acc = ''t4.3''" by (simp only: demo_calls_last_update)
  from a b' c' d' have ex: "\<exists>acc. account_history (record_calls init demo_calls) ''a@x.com'' = Some acc \<and>
      length (history acc) = 3 \<and> map attempt (history acc) = [1, 2, 3] \<and>
      last_updated acc = ''t4.3''" by (intro exI [of _ acc] conjI)
  show ?thesis by (rule conjI [OF demo_fresh conjI [OF demo_calls_nonempty ex]])
qed

lemma success_kept_by_update:
  assumes "account_history self email = Some acc" and "success acc"
  shows "\<exists>acc'. account_history (update_account_status now self email' st det) email = Some acc' \<and>
           success acc'"
proof (cases "email' = email")
  case True
  with assms show ?thesis by (simp add: account_history_update_same)
next
  case False
  then have "email \<noteq> email'" by simp
  with assms show ?thesis by (simp add: account_history_update_other)
qed

lemma success_kept_by_calls:
  "account_history self email = Some acc \<Longrightarrow> success acc \<Longrightarrow>
     \<exists>acc'. account_history (record_calls self cs) email = Some acc' \<and> success acc'"
proof (induction cs arbitrary: self acc)
  case Nil
  then show ?case by simp
next
  case (Cons c cs)
  let ?s = "update_account_status (call_now c) (self\<lparr>current_step := call_step c\<rparr>)
          (call_email c) (call_status c) (call_details c)"
  from Cons.prems have "account_history (self\<lparr>current_step := call_step c\<rparr>) email = Some acc"
    by simp
  from success_kept_by_update [OF this Cons.prems(2), of "call_now c" "call_email c"
      "call_status c" "call_details c"]
  obtain acc' where "account_history ?s email = Some acc'" "success acc'" by (elim exE conjE)
  from Cons.IH [OF this] show ?case by simp
qed

text \<open>
  Claim C6, as the code has it. For a record created by this sequence of calls, the success
  flag is true exactly when \<^verbatim>\<open>BOOKED\<close> was recorded for the identity at some point of the
  sequence, whatever was recorded after it; and a record whose flag is true keeps it true
  through every later sequence of calls: nothing resets it.
\<close>

theorem success_flag_sticky:
  "(account_history self email = None \<longrightarrow>
      ((\<exists>acc. account_history (record_calls self cs) email = Some acc \<and> success acc) \<longleftrightarrow>
       BOOKED \<in> call_status ` set (calls_for email cs))) \<and>
   ((\<exists>acc. account_history self email = Some acc \<and> success acc) \<longrightarrow>
      (\<exists>acc'. account_history (record_calls self cs) email = Some acc' \<and> success acc'))"
proof (intro conjI impI)
  assume fresh: "account_history self email = None"
  show "(\<exists>acc. account_history (record_calls self cs) email = Some acc \<and> success acc) \<longleftrightarrow>
       BOOKED \<in> call_status ` set (calls_for email cs)"
  proof (cases "calls_for email cs = []")
    case True
    with record_calls_ledger [OF fresh, of cs] show ?thesis by simp
  next
    case False
    with record_calls_ledger [OF fresh, of cs] show ?thesis by auto
  qed
next
  assume "\<exists>acc. account_history self email = Some acc \<and> success acc"
  then obtain acc where "account_history self email = Some acc" "success acc" by (elim exE conjE)
  then show "\<exists>acc'. account_history (record_calls self cs) email = Some acc' \<and> success acc'"
    by (rule success_kept_by_calls)
qed

lemma rerun_account:
  "account_history (record_calls init rerun_calls) ''a@x.com'' =
     Some \<lparr>status = FAILED,
        history = [
          \<lparr>timestamp = ''t1.2'', entry_status = INIT,
            details = ''Starting workflow - Initialize Bot'', step = ''Initialize Bot'', attempt = 1\<rparr>,
          \<lparr>timestamp = ''t2.2'', entry_status = BOOKED,
            details = [], step = ''Initialize Bot'', attempt = 2\<rparr>,
          \<lparr>timestamp = ''t3.2'', entry_status = INIT,
            details = ''Starting workflow - Initialize Bot'', step = ''Initialize Bot'', attempt = 3\<rparr>,
          \<lparr>timestamp = ''t4.2'', entry_status = FAILED,
            details = [], step = ''Initialize Bot'', attempt = 4\<rparr>],
        last_updated = ''t4.3'', total_attempts = 4, last_error = Some [], success = True\<rparr>"
  by code_simp

text \<open>
  Claim C6 as stated fails where a failure follows a booking on the same bot: the first run
  records \<^verbatim>\<open>BOOKED\<close>, the second records \<^verbatim>\<open>FAILED\<close>; the flag stays true although the most
  recently recorded terminal status is \<^verbatim>\<open>FAILED\<close>.
\<close>

theorem success_iff_last_terminal_counterexample:
  "success (the (account_history (record_calls init rerun_calls) ''a@x.com'')) \<and>
   last_terminal (history (the (account_history (record_calls init rerun_calls) ''a@x.com''))) =
     Some FAILED \<and>
   \<not> (success (the (account_history (record_calls init rerun_calls) ''a@x.com'')) \<longleftrightarrow>
      last_terminal (history (the (account_history (record_calls init rerun_calls) ''a@x.com''))) =
        Some BOOKED)"
  by code_simp

theorem success_flag_sticky_witness:
  "account_history init ''a@x.com'' = None \<and>
   (\<exists>acc. account_history (record_calls init rerun_calls) ''a@x.com'' = Some acc \<and> success acc) \<and>
   BOOKED \<in> call_status ` set (calls_for ''a@x.com'' rerun_calls) \<and>
   (\<exists>acc. account_history (record_calls init (take 2 rerun_calls)) ''a@x.com'' = Some acc \<and>
      success acc) \<and>
   (\<exists>acc'. account_history (record_calls (record_calls init (take 2 rerun_calls)) (drop 2 rerun_calls))
      ''a@x.com'' = Some acc' \<and> success acc')"
proof -
  have fresh: "account_history init ''a@x.com'' = None" by (simp add: init_def)
  have booked: "BOOKED \<in> call_status ` set (calls_for ''a@x.com'' rerun_calls)"
    by (simp add: calls_for_def rerun_calls_def)
  from success_flag_sticky [of init "''a@x.com''" rerun_calls] fresh booked
  have one: "\<exists>acc. account_history (record_calls init rerun_calls) ''a@x.com'' = Some acc \<and> success acc"
    by (simp only: simp_thms)
  have "account_history (record_calls init (take 2 rerun_calls)) ''a@x.com'' =
      Some (the (account_history (record_calls init (take 2 rerun_calls)) ''a@x.com'')) \<and>
    success (the (account_history (record_calls init (take 2 rerun_calls)) ''a@x.com''))"
    by code_simp
  then have two: "\<exists>acc. account_history (record_calls init (take 2 rerun_calls)) ''a@x.com'' = Some acc \<and>
      success acc" by (rule exI)
  from success_flag_sticky [of "record_calls init (take 2 rerun_calls)" "''a@x.com''"
      "drop 2 rerun_calls"] two
  have three: "\<exists>acc'. account_history (record_calls (record_calls init (take 2 rerun_calls))
      (drop 2 rerun_calls)) ''a@x.com'' = Some acc' \<and> success acc'"
    by (simp only: simp_thms)
  show ?thesis by (rule conjI [OF fresh conjI [OF one conjI [OF booked conjI [OF two three]]]])
qed

text \<open>
  Claim C7, as the code has it. A call sets \<^verbatim>\<open>last_error\<close> to its detail text exactly when
  its status is one of \<^verbatim>\<open>LOGIN_FAILED\<close>, \<^verbatim>\<open>FAILED\<close>, \<^verbatim>\<open>BOOKING_FAILED\<close> and
  \<^verbatim>\<open>CALENDAR_ERROR\<close>, and leaves it as it was otherwise; it sets \<^verbatim>\<open>success\<close> to true
  exactly when its status is \<^verbatim>\<open>BOOKED\<close>, and leaves it as it was otherwise.
\<close>

theorem last_error_and_success_tracking:
  "\<exists>acc. account_history (update_account_status now self email st det) email = Some acc \<and>
     last_error acc =
       (if st \<in> {LOGIN_FAILED, FAILED, BOOKING_FAILED, CALENDAR_ERROR} then Some det
        else (case account_history self email of None \<Rightarrow> None | Some old \<Rightarrow> last_error old)) \<and>
     success acc =
       (st = BOOKED \<or> (case account_history self email of None \<Rightarrow> False | Some old \<Rightarrow> success old))"
  by (cases "account_history self email")
    (simp_all add: account_history_update_same last_error_update_account new_account_def
      error_statuses_def)

text \<open>
  Claim C7 as stated fails for the failure statuses that the list of the code leaves out:
  \<^verbatim>\<open>NETWORK_ERROR\<close> is a failure status of the taxonomy, and a call with it sets no
  \<^verbatim>\<open>last_error\<close>.
\<close>

theorem last_error_network_error_counterexample:
  "spec_failure_classified NETWORK_ERROR \<and>
   last_error (the (account_history
     (update_account_status (demo_now ''t1'') init ''a@x.com'' NETWORK_ERROR ''net::ERR_TIMED_OUT'')
     ''a@x.com'')) = None"
  by code_simp

text \<open>
  Claim C9. Every call appends one history entry; its step label is the entry of the step
  table at the current step index when the index is below the length of the table, and
  \<^verbatim>\<open>"Unknown"\<close> when the index is at or beyond the length of the table.
\<close>

theorem history_entry_step_label:
  "\<exists>acc. account_history (update_account_status now self email st det) email = Some acc \<and>
     length (history acc) =
       Suc (case account_history self email of None \<Rightarrow> 0 | Some old \<Rightarrow> length (history old)) \<and>
     (current_step self < length (steps self) \<longrightarrow>
        step (last (history acc)) = steps self ! current_step self) \<and>
     (length (steps self) \<le> current_step self \<longrightarrow> step (last (history acc)) = ''Unknown'')"
  by (cases "account_history self email")
    (simp_all add: account_history_update_same history_update_account step_label_def new_account_def)

theorem history_entry_step_label_witness:
  "(\<exists>acc. account_history (update_account_status (demo_now ''t1'') (init\<lparr>current_step := 2\<rparr>)
       ''a@x.com'' INIT []) ''a@x.com'' = Some acc \<and>
      step (last (history acc)) = ''Authentication via OAuth'') \<and>
   (\<exists>acc. account_history (update_account_status (demo_now ''t1'') (init\<lparr>current_step := 11\<rparr>)
       ''a@x.com'' INIT []) ''a@x.com'' = Some acc \<and>
      step (last (history acc)) = ''Unknown'')"
proof -
  have in_range: "current_step (init\<lparr>current_step := 2\<rparr>) < length (steps (init\<lparr>current_step := 2\<rparr>))"
    by (simp add: init_def)
  have label: "steps (init\<lparr>current_step := 2\<rparr>) ! current_step (init\<lparr>current_step := 2\<rparr>) =
      ''Authentication via OAuth''"
    by (simp add: init_def)
  have beyond: "length (steps (init\<lparr>current_step := 11\<rparr>)) \<le> current_step (init\<lparr>current_step := 11\<rparr>)"
    by (simp add: init_def)
  from history_entry_step_label [of "demo_now ''t1''" "init\<lparr>current_step := 2\<rparr>" "''a@x.com''" INIT "[]"]
  obtain acc where
    "account_history (update_account_status (demo_now ''t1'') (init\<lparr>current_step := 2\<rparr>)
       ''a@x.com'' INIT []) ''a@x.com'' = Some acc"
    "current_step (init\<lparr>current_step := 2\<rparr>) < length (steps (init\<lparr>current_step := 2\<rparr>)) \<longrightarrow>
       step (last (history acc)) = steps (init\<lparr>current_step := 2\<rparr>) ! current_step (init\<lparr>current_step := 2\<rparr>)"
    by (elim exE conjE)
  with in_range label have one: "\<exists>acc. account_history (update_account_status (demo_now ''t1'')
      (init\<lparr>current_step := 2\<rparr>) ''a@x.com'' INIT []) ''a@x.com'' = Some acc \<and>
      step (last (history acc)) = ''Authentication via OAuth''"
    by (intro exI [of _ acc] conjI) (simp_all only: simp_thms)
  from history_entry_step_label [of "demo_now ''t1''" "init\<lparr>current_step := 11\<rparr>" "''a@x.com''" INIT "[]"]
  obtain acc' where
    "account_history (update_account_status (demo_now ''t1'') (init\<lparr>current_step := 11\<rparr>)
       ''a@x.com'' INIT []) ''a@x.com'' = Some acc'"
    "length (steps (init\<lparr>current_step := 11\<rparr>)) \<le> current_step (init\<lparr>current_step := 11\<rparr>) \<longrightarrow>
       step (last (history acc')) = ''Unknown''"
    by (elim exE conjE)
  with beyond have two: "\<exists>acc. account_history (update_account_status (demo_now ''t1'')
      (init\<lparr>current_step := 11\<rparr>) ''a@x.com'' INIT []) ''a@x.com'' = Some acc \<and>
      step (last (history acc)) = ''Unknown''"
    by (intro exI [of _ acc'] conjI) (simp_all only: simp_thms)
  show ?thesis by (rule conjI [OF one two])
qed

section \<open>The retry loop of the login form\<close>

lemma journal_status_update [simp]: "journal (status_update clk email st det s) = journal s"
  by (simp add: status_update_def update_account_status_def Let_def)

lemma current_step_status_update [simp]:
  "current_step (status_update clk email st det s) = current_step s"
  by (simp add: status_update_def update_account_status_def Let_def)

lemma current_step_called [simp]: "current_step (called ev s) = current_step s"
  by (simp add: called_def)

lemma current_step_human_delay [simp]: "current_step (human_delay s) = current_step s"
  by (simp add: human_delay_def)

lemma account_history_called [simp]: "account_history (called ev s) = account_history s"
  by (simp add: called_def)

lemma account_history_human_delay [simp]: "account_history (human_delay s) = account_history s"
  by (simp add: human_delay_def)

lemma account_history_logger [simp]: "account_history (logger msg s) = account_history s"
  by (simp add: logger_def)

lemma journal_called [simp]: "journal (called ev s) = journal s @ [ev]"
  by (simp add: called_def)

lemma journal_human_delay [simp]: "journal (human_delay s) = journal s @ [Delay]"
  by (simp add: human_delay_def)

lemma journal_logger [simp]: "journal (logger msg s) = journal s"
  by (simp add: logger_def)

lemma recorded_statuses_status_update [simp]:
  "recorded_statuses email (status_update clk email st det s) = recorded_statuses email s @ [st]"
  by (cases "account_history s email")
    (simp_all add: recorded_statuses_def status_update_def update_account_status_def Let_def
      update_account_def new_account_def)

lemma recorded_statuses_called [simp]:
  "recorded_statuses email (called ev s) = recorded_statuses email s"
  by (simp add: recorded_statuses_def)

lemma recorded_statuses_human_delay [simp]:
  "recorded_statuses email (human_delay s) = recorded_statuses email s"
  by (simp add: recorded_statuses_def)

lemma recorded_statuses_logger [simp]:
  "recorded_statuses email (logger msg s) = recorded_statuses email s"
  by (simp add: recorded_statuses_def)

lemma form_checks_called [simp]:
  "form_checks (called ev s) =
     (if ev = WaitForSelector ''input[type='email']'' then Suc (form_checks s) else form_checks s)"
  by (simp add: form_checks_def)

lemma form_checks_human_delay [simp]: "form_checks (human_delay s) = form_checks s"
  by (simp add: form_checks_def)

lemma form_checks_status_update [simp]:
  "form_checks (status_update clk email st det s) = form_checks s"
  by (simp add: form_checks_def)

lemma wait_for_login_form_third_succeeds:
  assumes "form_wait d 0 = Some e0" "form_wait d 1 = Some e1" "form_wait d 2 = None"
    and "reload d 0 = None" "reload d 1 = None"
  shows "fst (wait_for_login_form d email 3 0 self) = Returned ()"
    and "form_checks (snd (wait_for_login_form d email 3 0 self)) = form_checks self + 3"
    and "recorded_statuses email (snd (wait_for_login_form d email 3 0 self)) =
           recorded_statuses email self @ [INIT, INIT, INIT]"
  using assms
  by (simp_all add: wait_for_login_form.simps [of d email 3 0]
      wait_for_login_form.simps [of d email 3 "Suc 0"] wait_for_login_form.simps [of d email 3 "Suc (Suc 0)"]
      numeral_2_eq_2 Let_def)

lemma wait_for_login_form_exhausted:
  assumes "form_wait d 0 = Some e0" "form_wait d 1 = Some e1" "form_wait d 2 = Some e2"
    and "reload d 0 = None" "reload d 1 = None"
  shows "fst (wait_for_login_form d email 3 0 self) =
           Raised (Exception ''Login form not found after retries'')"
    and "form_checks (snd (wait_for_login_form d email 3 0 self)) = form_checks self + 3"
    and "recorded_statuses email (snd (wait_for_login_form d email 3 0 self)) =
           recorded_statuses email self @ [INIT, INIT, LOGIN_FAILED]"
  using assms
  by (simp_all add: wait_for_login_form.simps [of d email 3 0]
      wait_for_login_form.simps [of d email 3 "Suc 0"] wait_for_login_form.simps [of d email 3 "Suc (Suc 0)"]
      numeral_2_eq_2 Let_def)

lemma TLSVisaBot_wait_third_succeeds:
  assumes "form_wait d 0 = Some e0" "form_wait d 1 = Some e1" "form_wait d 2 = None"
    and "reload d 0 = None" "reload d 1 = None"
  shows "fst (TLSVisaBot_wait_for_login_form d 3 0 self) = Returned ()"
    and "form_checks (snd (TLSVisaBot_wait_for_login_form d 3 0 self)) = form_checks self + 3"
  using assms
  by (simp_all add: TLSVisaBot_wait_for_login_form.simps [of d 3 0]
      TLSVisaBot_wait_for_login_form.simps [of d 3 "Suc 0"]
      TLSVisaBot_wait_for_login_form.simps [of d 3 "Suc (Suc 0)"] numeral_2_eq_2 Let_def)

lemma TLSVisaBot_wait_exhausted:
  assumes "form_wait d 0 = Some e0" "form_wait d 1 = Some e1" "form_wait d 2 = Some e2"
    and "reload d 0 = None" "reload d 1 = None"
  shows "fst (TLSVisaBot_wait_for_login_form d 3 0 self) =
           Raised (Exception ''Login form not found after retries'')"
    and "form_checks (snd (TLSVisaBot_wait_for_login_form d 3 0 self)) = form_checks self + 3"
  using assms
  by (simp_all add: TLSVisaBot_wait_for_login_form.simps [of d 3 0]
      TLSVisaBot_wait_for_login_form.simps [of d 3 "Suc 0"]
      TLSVisaBot_wait_for_login_form.simps [of d 3 "Suc (Suc 0)"] numeral_2_eq_2 Let_def)

lemma wait_for_login_form_first_reload_fails:
  assumes "form_wait d 0 = Some e0" and "reload d 0 = Some e'"
  shows "fst (wait_for_login_form d email 3 0 self) = Raised e'"
    and "form_checks (snd (wait_for_login_form d email 3 0 self)) = form_checks self + 1"
    and "recorded_statuses email (snd (wait_for_login_form d email 3 0 self)) =
           recorded_statuses email self @ [INIT]"
  using assms by (simp_all add: wait_for_login_form.simps [of d email 3 0] Let_def)

lemma wait_for_login_form_second_reload_fails:
  assumes "form_wait d 0 = Some e0" and "reload d 0 = None"
    and "form_wait d 1 = Some e1" and "reload d 1 = Some e'"
  shows "fst (wait_for_login_form d email 3 0 self) = Raised e'"
    and "form_checks (snd (wait_for_login_form d email 3 0 self)) = form_checks self + 2"
    and "recorded_statuses email (snd (wait_for_login_form d email 3 0 self)) =
           recorded_statuses email self @ [INIT, INIT]"
  using assms
  by (simp_all add: wait_for_login_form.simps [of d email 3 0]
      wait_for_login_form.simps [of d email 3 "Suc 0"] Let_def)

lemma TLSVisaBot_wait_first_reload_fails:
  assumes "form_wait d 0 = Some e0" and "reload d 0 = Some e'"
  shows "fst (TLSVisaBot_wait_for_login_form d 3 0 self) = Raised e'"
    and "form_checks (snd (TLSVisaBot_wait_for_login_form d 3 0 self)) = form_checks self + 1"
  using assms by (simp_all add: TLSVisaBot_wait_for_login_form.simps [of d 3 0] Let_def)

lemma TLSVisaBot_wait_second_reload_fails:
  assumes "form_wait d 0 = Some e0" and "reload d 0 = None"
    and "form_wait d 1 = Some e1" and "reload d 1 = Some e'"
  shows "fst (TLSVisaBot_wait_for_login_form d 3 0 self) = Raised e'"
    and "form_checks (snd (TLSVisaBot_wait_for_login_form d 3 0 self)) = form_checks self + 2"
  using assms
  by (simp_all add: TLSVisaBot_wait_for_login_form.simps [of d 3 0]
      TLSVisaBot_wait_for_login_form.simps [of d 3 "Suc 0"] Let_def)

text \<open>
  Claim C2, as the code has it. Both loops, run with \<open>max_retries = 3\<close>. When the reloads
  between the attempts return: if the check fails on its first two invocations and succeeds
  on the third, the loop returns and the check has been invoked exactly three times; if the
  check fails on all three invocations, the loop raises
  \<^verbatim>\<open>Exception("Login form not found after retries")\<close> and the check has been invoked exactly
  three times, and the loop of lines 1155 to 1171 has then recorded \<^verbatim>\<open>LOGIN_FAILED\<close> once,
  after the two retry notes. When the reload that follows a failed check raises, its error
  leaves the loop at once: the check has been invoked once or twice, the exhaustion failure
  is not raised and \<^verbatim>\<open>LOGIN_FAILED\<close> is not recorded.
\<close>

theorem login_form_retry:
  "(form_wait d 0 \<noteq> None \<and> form_wait d 1 \<noteq> None \<and> form_wait d 2 = None \<and>
    reload d 0 = None \<and> reload d 1 = None \<longrightarrow>
      fst (wait_for_login_form d email 3 0 self) = Returned () \<and>
      form_checks (snd (wait_for_login_form d email 3 0 self)) = form_checks self + 3 \<and>
      recorded_statuses email (snd (wait_for_login_form d email 3 0 self)) =
        recorded_statuses email self @ [INIT, INIT, INIT] \<and>
      fst (TLSVisaBot_wait_for_login_form d 3 0 self) = Returned () \<and>
      form_checks (snd (TLSVisaBot_wait_for_login_form d 3 0 self)) = form_checks self + 3) \<and>
   (form_wait d 0 \<noteq> None \<and> form_wait d 1 \<noteq> None \<and> form_wait d 2 \<noteq> None \<and>
    reload d 0 = None \<and> reload d 1 = None \<longrightarrow>
      fst (wait_for_login_form d email 3 0 self) =
        Raised (Exception ''Login form not found after retries'') \<and>
      form_checks (snd (wait_for_login_form d email 3 0 self)) = form_checks self + 3 \<and>
      recorded_statuses email (snd (wait_for_login_form d email 3 0 self)) =
        recorded_statuses email self @ [INIT, INIT, LOGIN_FAILED] \<and>
      fst (TLSVisaBot_wait_for_login_form d 3 0 self) =
        Raised (Exception ''Login form not found after retries'') \<and>
      form_checks (snd (TLSVisaBot_wait_for_login_form d 3 0 self)) = form_checks self + 3) \<and>
   (form_wait d 0 \<noteq> None \<and> reload d 0 = Some e' \<longrightarrow>
      fst (wait_for_login_form d email 3 0 self) = Raised e' \<and>
      form_checks (snd (wait_for_login_form d email 3 0 self)) = form_checks self + 1 \<and>
      recorded_statuses email (snd (wait_for_login_form d email 3 0 self)) =
        recorded_statuses email self @ [INIT] \<and>
      fst (TLSVisaBot_wait_for_login_form d 3 0 self) = Raised e' \<and>
      form_checks (snd (TLSVisaBot_wait_for_login_form d 3 0 self)) = form_checks self + 1) \<and>
   (form_wait d 0 \<noteq> None \<and> reload d 0 = None \<and> form_wait d 1 \<noteq> None \<and>
    reload d 1 = Some e' \<longrightarrow>
      fst (wait_for_login_form d email 3 0 self) = Raised e' \<and>
      form_checks (snd (wait_for_login_form d email 3 0 self)) = form_checks self + 2 \<and>
      recorded_statuses email (snd (wait_for_login_form d email 3 0 self)) =
        recorded_statuses email self @ [INIT, INIT] \<and>
      fst (TLSVisaBot_wait_for_login_form d 3 0 self) = Raised e' \<and>
      form_checks (snd (TLSVisaBot_wait_for_login_form d 3 0 self)) = form_checks self + 2)"
proof (intro conjI impI; elim conjE)
  assume "form_wait d 0 \<noteq> None" "form_wait d 1 \<noteq> None"
    and ok: "form_wait d 2 = None" and r: "reload d 0 = None" "reload d 1 = None"
  then obtain e0 e1 where f: "form_wait d 0 = Some e0" "form_wait d 1 = Some e1" by auto
  show "fst (wait_for_login_form d email 3 0 self) = Returned ()"
    by (rule wait_for_login_form_third_succeeds(1) [OF f ok r])
  show "form_checks (snd (wait_for_login_form d email 3 0 self)) = form_checks self + 3"
    by (rule wait_for_login_form_third_succeeds(2) [OF f ok r])
  show "recorded_statuses email (snd (wait_for_login_form d email 3 0 self)) =
          recorded_statuses email self @ [INIT, INIT, INIT]"
    by (rule wait_for_login_form_third_succeeds(3) [OF f ok r])
  show "fst (TLSVisaBot_wait_for_login_form d 3 0 self) = Returned ()"
    by (rule TLSVisaBot_wait_third_succeeds(1) [OF f ok r])
  show "form_checks (snd (TLSVisaBot_wait_for_login_form d 3 0 self)) = form_checks self + 3"
    by (rule TLSVisaBot_wait_third_succeeds(2) [OF f ok r])
next
  assume "form_wait d 0 \<noteq> None" "form_wait d 1 \<noteq> None" "form_wait d 2 \<noteq> None"
    and r: "reload d 0 = None" "reload d 1 = None"
  then obtain e0 e1 e2 where f: "form_wait d 0 = Some e0" "form_wait d 1 = Some e1"
    "form_wait d 2 = Some e2" by auto
  show "fst (wait_for_login_form d email 3 0 self) =
          Raised (Exception ''Login form not found after retries'')"
    by (rule wait_for_login_form_exhausted(1) [OF f r])
  show "form_checks (snd (wait_for_login_form d email 3 0 self)) = form_checks self + 3"
    by (rule wait_for_login_form_exhausted(2) [OF f r])
  show "recorded_statuses email (snd (wait_for_login_form d email 3 0 self)) =
          recorded_statuses email self @ [INIT, INIT, LOGIN_FAILED]"
    by (rule wait_for_login_form_exhausted(3) [OF f r])
  show "fst (TLSVisaBot_wait_for_login_form d 3 0 self) =
          Raised (Exception ''Login form not found after retries'')"
    by (rule TLSVisaBot_wait_exhausted(1) [OF f r])
  show "form_checks (snd (TLSVisaBot_wait_for_login_form d 3 0 self)) = form_checks self + 3"
    by (rule TLSVisaBot_wait_exhausted(2) [OF f r])
next
  assume "form_wait d 0 \<noteq> None" and r: "reload d 0 = Some e'"
  then obtain e0 where f: "form_wait d 0 = Some e0" by auto
  show "fst (wait_for_login_form d email 3 0 self) = Raised e'"
    by (rule wait_for_login_form_first_reload_fails(1) [OF f r])
  show "form_checks (snd (wait_for_login_form d email 3 0 self)) = form_checks self + 1"
    by (rule wait_for_login_form_first_reload_fails(2) [OF f r])
  show "recorded_statuses email (snd (wait_for_login_form d email 3 0 self)) =
          recorded_statuses email self @ [INIT]"
    by (rule wait_for_login_form_first_reload_fails(3) [OF f r])
  show "fst (TLSVisaBot_wait_for_login_form d 3 0 self) = Raised e'"
    by (rule TLSVisaBot_wait_first_reload_fails(1) [OF f r])
  show "form_checks (snd (TLSVisaBot_wait_for_login_form d 3 0 self)) = form_checks self + 1"
    by (rule TLSVisaBot_wait_first_reload_fails(2) [OF f r])
next
  assume "form_wait d 0 \<noteq> None" and r0: "reload d 0 = None" and "form_wait d 1 \<noteq> None"
    and r1: "reload d 1 = Some e'"
  then obtain e0 e1 where f0: "form_wait d 0 = Some e0" and f1: "form_wait d 1 = Some e1"
    by auto
  show "fst (wait_for_login_form d email 3 0 self) = Raised e'"
    by (rule wait_for_login_form_second_reload_fails(1) [OF f0 r0 f1 r1])
  show "form_checks (snd (wait_for_login_form d email 3 0 self)) = form_checks self + 2"
    by (rule wait_for_login_form_second_reload_fails(2) [OF f0 r0 f1 r1])
  show "recorded_statuses email (snd (wait_for_login_form d email 3 0 self)) =
          recorded_statuses email self @ [INIT, INIT]"
    by (rule wait_for_login_form_second_reload_fails(3) [OF f0 r0 f1 r1])
  show "fst (TLSVisaBot_wait_for_login_form d 3 0 self) = Raised e'"
    by (rule TLSVisaBot_wait_second_reload_fails(1) [OF f0 r0 f1 r1])
  show "form_checks (snd (TLSVisaBot_wait_for_login_form d 3 0 self)) = form_checks self + 2"
    by (rule TLSVisaBot_wait_second_reload_fails(2) [OF f0 r0 f1 r1])
qed

lemma retry_driver_fields:
  "form_wait third_time_driver 0 \<noteq> None" "form_wait third_time_driver 1 \<noteq> None"
  "form_wait third_time_driver 2 = None"
  "reload third_time_driver 0 = None" "reload third_time_driver 1 = None"
  "form_wait never_driver k \<noteq> None" "reload never_driver k = None"
  "form_wait dead_page_driver k = Some timeout_error"
  "reload dead_page_driver k = Some (PlaywrightError ''net::ERR_INTERNET_DISCONNECTED'')"
  "form_wait second_reload_driver k \<noteq> None" "reload second_reload_driver 0 = None"
  "reload second_reload_driver 1 = Some (PlaywrightError ''net::ERR_INTERNET_DISCONNECTED'')"
  by (simp_all add: third_time_driver_def never_driver_def dead_page_driver_def
      second_reload_driver_def quiet_workflow_def)

lemma init_observations:
  "form_checks init = 0" "recorded_statuses email init = []"
  by (simp_all add: form_checks_def recorded_statuses_def init_def)

theorem login_form_retry_witness:
  "form_wait third_time_driver 0 \<noteq> None \<and> form_wait third_time_driver 1 \<noteq> None \<and>
   form_wait third_time_driver 2 = None \<and>
   reload third_time_driver 0 = None \<and> reload third_time_driver 1 = None \<and>
   fst (wait_for_login_form third_time_driver ''a@x.com'' 3 0 init) = Returned () \<and>
   form_checks (snd (wait_for_login_form third_time_driver ''a@x.com'' 3 0 init)) = 3 \<and>
   form_wait never_driver 0 \<noteq> None \<and> form_wait never_driver 1 \<noteq> None \<and>
   form_wait never_driver 2 \<noteq> None \<and>
   reload never_driver 0 = None \<and> reload never_driver 1 = None \<and>
   fst (wait_for_login_form never_driver ''a@x.com'' 3 0 init) =
     Raised (Exception ''Login form not found after retries'') \<and>
   form_checks (snd (wait_for_login_form never_driver ''a@x.com'' 3 0 init)) = 3 \<and>
   recorded_statuses ''a@x.com'' (snd (wait_for_login_form never_driver ''a@x.com'' 3 0 init)) =
     [INIT, INIT, LOGIN_FAILED] \<and>
   form_wait dead_page_driver 0 \<noteq> None \<and>
   reload dead_page_driver 0 = Some (PlaywrightError ''net::ERR_INTERNET_DISCONNECTED'') \<and>
   fst (wait_for_login_form dead_page_driver ''a@x.com'' 3 0 init) =
     Raised (PlaywrightError ''net::ERR_INTERNET_DISCONNECTED'') \<and>
   form_checks (snd (wait_for_login_form dead_page_driver ''a@x.com'' 3 0 init)) = 1 \<and>
   form_wait second_reload_driver 0 \<noteq> None \<and> reload second_reload_driver 0 = None \<and>
   form_wait second_reload_driver 1 \<noteq> None \<and>
   reload second_reload_driver 1 = Some (PlaywrightError ''net::ERR_INTERNET_DISCONNECTED'') \<and>
   fst (TLSVisaBot_wait_for_login_form second_reload_driver 3 0 init) =
     Raised (PlaywrightError ''net::ERR_INTERNET_DISCONNECTED'') \<and>
   form_checks (snd (TLSVisaBot_wait_for_login_form second_reload_driver 3 0 init)) = 2"
proof -
  let ?e = "PlaywrightError ''net::ERR_INTERNET_DISCONNECTED''"
  note f = retry_driver_fields
  note c2 = conjunct2
  note t1 = login_form_retry [where d = third_time_driver and email = "''a@x.com''"
      and self = init and e' = ?e, THEN conjunct1,
      THEN mp, OF conjI [OF f(1) conjI [OF f(2) conjI [OF f(3) conjI [OF f(4) f(5)]]]]]
  note t2 = login_form_retry [where d = never_driver and email = "''a@x.com''"
      and self = init and e' = ?e, THEN c2, THEN conjunct1,
      THEN mp, OF conjI [OF f(6) conjI [OF f(6) conjI [OF f(6) conjI [OF f(7) f(7)]]]]]
  have d0: "form_wait dead_page_driver 0 \<noteq> None" by (simp add: f(8))
  note t3 = login_form_retry [where d = dead_page_driver and email = "''a@x.com''"
      and self = init and e' = ?e, THEN c2, THEN c2,
      THEN conjunct1, THEN mp, OF conjI [OF d0 f(9)]]
  note t4 = login_form_retry [where d = second_reload_driver and email = "''a@x.com''"
      and self = init and e' = ?e, THEN c2, THEN c2,
      THEN c2, THEN mp, OF conjI [OF f(10) conjI [OF f(11) conjI [OF f(10) f(12)]]]]
  have one: "form_checks (snd (wait_for_login_form third_time_driver ''a@x.com'' 3 0 init)) = 3"
    using t1 [THEN c2, THEN conjunct1] by (simp add: init_observations)
  have two: "form_checks (snd (wait_for_login_form never_driver ''a@x.com'' 3 0 init)) = 3"
    "recorded_statuses ''a@x.com'' (snd (wait_for_login_form never_driver ''a@x.com'' 3 0 init)) =
       [INIT, INIT, LOGIN_FAILED]"
    using t2 [THEN c2, THEN conjunct1] t2 [THEN c2, THEN c2, THEN conjunct1]
    by (simp_all add: init_observations)
  have three: "form_checks (snd (wait_for_login_form dead_page_driver ''a@x.com'' 3 0 init)) = 1"
    using t3 [THEN c2, THEN conjunct1] by (simp add: init_observations)
  have four: "form_checks (snd (TLSVisaBot_wait_for_login_form second_reload_driver 3 0 init)) = 2"
    using t4 [THEN c2, THEN c2, THEN c2, THEN c2] by (simp add: init_observations)
  show ?thesis
    by (intro conjI f(1-5) f(6) f(7) t1 [THEN conjunct1] one t2 [THEN conjunct1] two d0 f(9)
        t3 [THEN conjunct1] three f(10) f(11) f(12) t4 [THEN c2, THEN c2, THEN c2, THEN conjunct1]
        four)
qed

text \<open>
  Claim C2 as stated fails when the page is gone: the check fails on every invocation, the
  reload after the first failed check raises, and the loop is left with the reload's error
  after one invocation of the check. The exhaustion failure is not raised, and the loop of
  lines 1155 to 1171 has recorded the retry note only, not \<^verbatim>\<open>LOGIN_FAILED\<close>.
\<close>

theorem login_form_reload_error_counterexample:
  "map (form_wait dead_page_driver) [0, 1, 2] =
     [Some timeout_error, Some timeout_error, Some timeout_error] \<and>
   fst (wait_for_login_form dead_page_driver ''a@x.com'' 3 0 init) =
     Raised (PlaywrightError ''net::ERR_INTERNET_DISCONNECTED'') \<and>
   form_checks (snd (wait_for_login_form dead_page_driver ''a@x.com'' 3 0 init)) = 1 \<and>
   recorded_statuses ''a@x.com'' (snd (wait_for_login_form dead_page_driver ''a@x.com'' 3 0 init)) =
     [INIT] \<and>
   fst (TLSVisaBot_wait_for_login_form dead_page_driver 3 0 init) =
     Raised (PlaywrightError ''net::ERR_INTERNET_DISCONNECTED'') \<and>
   form_checks (snd (TLSVisaBot_wait_for_login_form dead_page_driver 3 0 init)) = 1"
proof -
  note f = retry_driver_fields(8) [of 0] retry_driver_fields(9) [of 0]
  have m: "map (form_wait dead_page_driver) [0, 1, 2] =
     [Some timeout_error, Some timeout_error, Some timeout_error]"
    by (simp add: retry_driver_fields(8))
  note a = wait_for_login_form_first_reload_fails [OF f, of "''a@x.com''" init]
  note b = TLSVisaBot_wait_first_reload_fails [OF f, of init]
  have a2: "form_checks (snd (wait_for_login_form dead_page_driver ''a@x.com'' 3 0 init)) = 1"
    using a(2) by (simp add: init_observations)
  have a3: "recorded_statuses ''a@x.com''
      (snd (wait_for_login_form dead_page_driver ''a@x.com'' 3 0 init)) = [INIT]"
    using a(3) by (simp add: init_observations)
  have b2: "form_checks (snd (TLSVisaBot_wait_for_login_form dead_page_driver 3 0 init)) = 1"
    using b(2) by (simp add: init_observations)
  show ?thesis by (intro conjI m a(1) a2 a3 b(1) b2)
qed

section \<open>Closing the browser\<close>

text \<open>
  Claim C10, as the code has it. A call of \<^verbatim>\<open>close\<close> whose \<^verbatim>\<open>browser.close()\<close> returns raises
  nothing and leaves \<^verbatim>\<open>browser\<close> at \<^verbatim>\<open>None\<close>; it leaves \<^verbatim>\<open>page\<close> at \<^verbatim>\<open>None\<close> too if
  \<^verbatim>\<open>browser\<close> was set before the call, and changes nothing if it was not. Any further call
  does nothing and raises nothing, whatever \<^verbatim>\<open>browser.close()\<close> would do.
\<close>

theorem close_idempotent:
  "fst (close None self) = Returned () \<and>
   browser (snd (close None self)) = None \<and>
   (browser self \<noteq> None \<longrightarrow> page (snd (close None self)) = None) \<and>
   (browser self = None \<longrightarrow> snd (close None self) = self) \<and>
   close browser_close (snd (close None self)) = (Returned (), snd (close None self))"
  by (cases "browser self") (simp_all add: close_def called_def)

theorem close_idempotent_witness:
  "browser (snd (bot_setup quiet_setup init)) \<noteq> None \<and>
   page (snd (bot_setup quiet_setup init)) \<noteq> None \<and>
   browser init = None \<and>
   fst (close None (snd (bot_setup quiet_setup init))) = Returned () \<and>
   browser (snd (close None (snd (bot_setup quiet_setup init)))) = None \<and>
   page (snd (close None (snd (bot_setup quiet_setup init)))) = None \<and>
   snd (close None init) = init \<and>
   close (Some (PlaywrightError ''closed'')) (snd (close None (snd (bot_setup quiet_setup init)))) =
     (Returned (), snd (close None (snd (bot_setup quiet_setup init))))"
proof -
  have b: "browser (snd (bot_setup quiet_setup init)) \<noteq> None" by code_simp
  have p: "page (snd (bot_setup quiet_setup init)) \<noteq> None" by code_simp
  have i: "browser init = None" by (simp add: init_def)
  from close_idempotent [of "snd (bot_setup quiet_setup init)" "Some (PlaywrightError ''closed'')"] b
  have one: "fst (close None (snd (bot_setup quiet_setup init))) = Returned () \<and>
   browser (snd (close None (snd (bot_setup quiet_setup init)))) = None \<and>
   page (snd (close None (snd (bot_setup quiet_setup init)))) = None \<and>
   close (Some (PlaywrightError ''closed'')) (snd (close None (snd (bot_setup quiet_setup init)))) =
     (Returned (), snd (close None (snd (bot_setup quiet_setup init))))"
    by (simp only: simp_thms)
  from close_idempotent [of init None] i have two: "snd (close None init) = init"
    by (simp only: simp_thms)
  from b p i one two show ?thesis by (simp only: simp_thms)
qed

text \<open>
  Claim C10 as stated fails on a bot whose \<^verbatim>\<open>browser\<close> is \<^verbatim>\<open>None\<close> while its \<^verbatim>\<open>page\<close> is set,
  which is what \<^verbatim>\<open>setup\<close> leaves when the context has no browser handle: \<^verbatim>\<open>close\<close> skips
  its body and the page reference stays.
\<close>

theorem close_leaves_page_counterexample:
  "browser (snd (bot_setup (quiet_setup\<lparr>context_browser := None\<rparr>) init)) = None \<and>
   fst (close None (snd (bot_setup (quiet_setup\<lparr>context_browser := None\<rparr>) init))) = Returned () \<and>
   page (snd (close None (snd (bot_setup (quiet_setup\<lparr>context_browser := None\<rparr>) init)))) = Some 2"
  by code_simp

section \<open>The workflow\<close>

lemma recorded_statuses_current_step [simp]:
  "recorded_statuses email (s\<lparr>current_step := n\<rparr>) = recorded_statuses email s"
  by (simp add: recorded_statuses_def)

lemma recorded_statuses_current_account [simp]:
  "recorded_statuses email (s\<lparr>current_account := a\<rparr>) = recorded_statuses email s"
  by (simp add: recorded_statuses_def)

lemma notifications_called [simp]:
  "notifications (called ev s) = notifications s @ (if is_notify ev then [ev] else [])"
  by (simp add: notifications_def)

lemma notifications_human_delay [simp]: "notifications (human_delay s) = notifications s"
  by (simp add: notifications_def)

lemma notifications_logger [simp]: "notifications (logger msg s) = notifications s"
  by (simp add: notifications_def)

lemma notifications_status_update [simp]:
  "notifications (status_update clk email st det s) = notifications s"
  by (simp add: notifications_def)

lemma notifications_current_step [simp]:
  "notifications (s\<lparr>current_step := n\<rparr>) = notifications s"
  by (simp add: notifications_def)

lemma notifications_current_account [simp]:
  "notifications (s\<lparr>current_account := a\<rparr>) = notifications s"
  by (simp add: notifications_def)

lemma navigations_called [simp]:
  "navigations (called ev s) = navigations s @ (if is_goto ev then [ev] else [])"
  by (simp add: navigations_def)

lemma navigations_human_delay [simp]: "navigations (human_delay s) = navigations s"
  by (simp add: navigations_def)

lemma navigations_logger [simp]: "navigations (logger msg s) = navigations s"
  by (simp add: navigations_def)

lemma navigations_status_update [simp]:
  "navigations (status_update clk email st det s) = navigations s"
  by (simp add: navigations_def)

lemma navigations_current_step [simp]:
  "navigations (s\<lparr>current_step := n\<rparr>) = navigations s"
  by (simp add: navigations_def)

lemma navigations_current_account [simp]:
  "navigations (s\<lparr>current_account := a\<rparr>) = navigations s"
  by (simp add: navigations_def)

lemma cloudflare_loop_quiet:
  "notifications (cloudflare_loop d sels s) = notifications s \<and>
   navigations (cloudflare_loop d sels s) = navigations s \<and>
   recorded_statuses email (cloudflare_loop d sels s) = recorded_statuses email s"
  by (induction sels arbitrary: s) (simp_all add: Let_def split: sum.split bool.split option.split)

lemma handle_cloudflare_returns:
  "load_state d = None \<Longrightarrow> fst (handle_cloudflare d s) = Returned ()"
  by (simp add: handle_cloudflare_def Let_def)

lemma handle_cloudflare_quiet:
  "notifications (snd (handle_cloudflare d s)) = notifications s \<and>
   navigations (snd (handle_cloudflare d s)) = navigations s \<and>
   recorded_statuses email (snd (handle_cloudflare d s)) = recorded_statuses email s"
  by (simp add: handle_cloudflare_def Let_def cloudflare_loop_quiet split: option.split)

lemma initialize_and_bypass_returns:
  assumes "load_state (cloudflare d) = None"
  shows "fst (initialize_and_bypass d email self) = Returned ()"
    and "notifications (snd (initialize_and_bypass d email self)) = notifications self"
    and "navigations (snd (initialize_and_bypass d email self)) = navigations self"
    and "recorded_statuses email (snd (initialize_and_bypass d email self)) =
           recorded_statuses email self @ [INIT, INIT]"
proof -
  let ?s1 = "status_update (clock d) email INIT (''Starting workflow - '' @ steps self ! 0)
                    (self\<lparr>current_account := Some (email, 0)\<rparr>)"
  obtain r s2 where h: "handle_cloudflare (cloudflare d) ?s1 = (r, s2)" by (cases "handle_cloudflare (cloudflare d) ?s1")
  from handle_cloudflare_returns [OF assms, of ?s1] h have r: "r = Returned ()" by simp
  from handle_cloudflare_quiet [of "cloudflare d" ?s1 email] h
  have q: "notifications s2 = notifications self" "navigations s2 = navigations self"
    "recorded_statuses email s2 = recorded_statuses email self @ [INIT]"
    by simp_all
  from h r q show "fst (initialize_and_bypass d email self) = Returned ()"
    and "notifications (snd (initialize_and_bypass d email self)) = notifications self"
    and "navigations (snd (initialize_and_bypass d email self)) = navigations self"
    and "recorded_statuses email (snd (initialize_and_bypass d email self)) =
           recorded_statuses email self @ [INIT, INIT]"
    by (simp_all add: initialize_and_bypass_def Let_def)
qed

lemma navigate_unknown_center:
  assumes "centers d (upper center) = None"
  shows "fst (navigate_to_login_page d email center s) = Raised (KeyError (upper center))"
    and "notifications (snd (navigate_to_login_page d email center s)) = notifications s"
    and "navigations (snd (navigate_to_login_page d email center s)) = navigations s"
    and "recorded_statuses email (snd (navigate_to_login_page d email center s)) =
           recorded_statuses email s @ [INIT, NETWORK_ERROR]"
  using assms by (simp_all add: navigate_to_login_page_def Let_def)

lemma same_ledger_refl [simp]: "same_ledger s s"
  by (simp add: same_ledger_def)

lemma same_ledger_step:
  "same_ledger t u \<Longrightarrow> same_ledger s u = same_ledger s t"
  by (auto simp: same_ledger_def)

lemma same_ledger_called [simp]:
  "\<not> is_notify ev \<Longrightarrow> \<not> is_goto ev \<Longrightarrow> same_ledger s (called ev t) = same_ledger s t"
  by (rule same_ledger_step) (simp add: same_ledger_def called_def notifications_def navigations_def)

lemma same_ledger_human_delay [simp]: "same_ledger s (human_delay t) = same_ledger s t"
  by (simp add: human_delay_def)

lemma same_ledger_logger [simp]: "same_ledger s (logger msg t) = same_ledger s t"
  by (rule same_ledger_step) (simp add: same_ledger_def logger_def notifications_def navigations_def)

lemma same_ledger_logged_in [simp]: "same_ledger s (t\<lparr>logged_in := b\<rparr>) = same_ledger s t"
  by (rule same_ledger_step) (simp add: same_ledger_def notifications_def navigations_def)

lemma same_ledger_human_type_try [simp]:
  "same_ledger s (snd (human_type_try d sel chars t)) = same_ledger s t"
  by (simp add: human_type_try_def Let_def split: option.split list.split)

lemma same_ledger_human_type [simp]:
  "same_ledger s (snd (human_type d sel chars t)) = same_ledger s t"
proof -
  obtain r s1 where h: "human_type_try d sel chars t = (r, s1)"
    by (cases "human_type_try d sel chars t")
  have "same_ledger s s1 = same_ledger s t"
    using same_ledger_human_type_try [of s d sel chars t] h by simp
  with h show ?thesis by (cases r) (simp_all add: human_type_def)
qed

lemma snd_and_then:
  "snd (and_then r f) = (case fst r of Raised e \<Rightarrow> snd r | Returned x \<Rightarrow> snd (f x (snd r)))"
  by (cases r) (simp add: and_then_def split: outcome.split)

lemma fst_and_then:
  "fst (and_then r f) = (case fst r of Raised e \<Rightarrow> Raised e | Returned x \<Rightarrow> fst (f x (snd r)))"
  by (cases r) (simp add: and_then_def split: outcome.split)

lemma same_ledger_login_try [simp]:
  "same_ledger s (snd (login_try d email password t)) = same_ledger s t"
  by (simp add: login_try_def snd_and_then Let_def
      split: outcome.split sum.split option.split bool.split)

lemma same_ledger_login [simp]:
  "same_ledger s (snd (login d email password t)) = same_ledger s t"
proof -
  obtain r s1 where h: "login_try d email password t = (r, s1)"
    by (cases "login_try d email password t")
  have "same_ledger s s1 = same_ledger s t"
    using same_ledger_login_try [of s d email password t] h by simp
  with h show ?thesis by (cases r) (simp_all add: login_def)
qed

lemma same_ledger_recorded_statuses:
  "same_ledger s t \<Longrightarrow> recorded_statuses email t = recorded_statuses email s"
  by (simp add: same_ledger_def recorded_statuses_def)

lemma cloudflare_loop_keeps_ledger: "same_ledger s (cloudflare_loop d sels s)"
proof (induction sels arbitrary: s)
  case Nil
  show ?case by simp
next
  case (Cons selector rest)
  have step: "same_ledger s (cloudflare_loop d rest u)" if "same_ledger s u" for u
    using Cons.IH [of u] that by (simp add: same_ledger_def)
  show ?case
    by (auto simp: Let_def intro!: step split: sum.split bool.split option.split)
qed

lemma same_ledger_cloudflare_loop [simp]:
  "same_ledger s (cloudflare_loop d sels t) = same_ledger s t"
  by (rule same_ledger_step) (rule cloudflare_loop_keeps_ledger)

lemma same_ledger_handle_cloudflare [simp]:
  "same_ledger s (snd (handle_cloudflare d t)) = same_ledger s t"
  by (simp add: handle_cloudflare_def Let_def split: option.split)

lemma fst_handle_cloudflare:
  "fst (handle_cloudflare d s) =
     (case load_state d of None \<Rightarrow> Returned ()
      | Some e \<Rightarrow> Raised (Exception ''Failed to bypass Cloudflare protection''))"
  by (simp add: handle_cloudflare_def Let_def split: option.split)

lemma initialize_and_bypass_quiet:
  "notifications (snd (initialize_and_bypass d email self)) = notifications self \<and>
   navigations (snd (initialize_and_bypass d email self)) = navigations self"
proof -
  let ?s1 = "status_update (clock d) email INIT (''Starting workflow - '' @ steps self ! 0)
                    (self\<lparr>current_account := Some (email, 0)\<rparr>)"
  obtain r s2 where h: "handle_cloudflare (cloudflare d) ?s1 = (r, s2)"
    by (cases "handle_cloudflare (cloudflare d) ?s1")
  have "same_ledger ?s1 (snd (handle_cloudflare (cloudflare d) ?s1))" by simp
  with h have "notifications s2 = notifications self" "navigations s2 = navigations self"
    by (simp_all add: same_ledger_def)
  with h show ?thesis by (cases r) (simp_all add: initialize_and_bypass_def Let_def)
qed

lemma fst_initialize_and_bypass:
  "fst (initialize_and_bypass d email self) =
     (case load_state (cloudflare d) of None \<Rightarrow> Returned ()
      | Some e \<Rightarrow> Raised (Exception ''Failed to bypass Cloudflare protection''))"
proof -
  let ?s1 = "status_update (clock d) email INIT (''Starting workflow - '' @ steps self ! 0)
                    (self\<lparr>current_account := Some (email, 0)\<rparr>)"
  obtain r s2 where h: "handle_cloudflare (cloudflare d) ?s1 = (r, s2)"
    by (cases "handle_cloudflare (cloudflare d) ?s1")
  with fst_handle_cloudflare [of "cloudflare d" ?s1] show ?thesis
    by (cases r) (auto simp: initialize_and_bypass_def Let_def split: option.splits)
qed

lemma start_workflow_outer:
  "fst (start_workflow d email password center self) =
     fst (start_workflow_try d email password center self) \<and>
   notifications (snd (start_workflow d email password center self)) =
     notifications (snd (start_workflow_try d email password center self)) \<and>
   navigations (snd (start_workflow d email password center self)) =
     navigations (snd (start_workflow_try d email password center self)) \<and>
   recorded_statuses email (snd (start_workflow d email password center self)) =
     recorded_statuses email (snd (start_workflow_try d email password center self))"
  by (cases "start_workflow_try d email password center self";
      cases "fst (start_workflow_try d email password center self)")
    (auto simp: start_workflow_def)

text \<open>
  Claim C4, on the code. A run with a location code that is not a key of \<^verbatim>\<open>TLSConfig.CENTERS\<close>
  fails, and no navigation has been made when it fails: the lookup of line 1140 raises
  \<^verbatim>\<open>KeyError\<close> before \<^verbatim>\<open>page.goto\<close> is called. But the run emits no notification: the handler of
  step 1 records \<^verbatim>\<open>NETWORK_ERROR\<close> and raises the error again, and the notification of
  lines 1243 to 1249 is never reached.
\<close>

theorem unknown_center_no_notification:
  assumes "centers d (upper center) = None"
  shows "(\<exists>e. fst (start_workflow d email password center self) = Raised e) \<and>
         navigations (snd (start_workflow d email password center self)) = navigations self \<and>
         notifications (snd (start_workflow d email password center self)) = notifications self \<and>
         (load_state (cloudflare d) = None \<longrightarrow>
            fst (start_workflow d email password center self) = Raised (KeyError (upper center)) \<and>
            recorded_statuses email (snd (start_workflow d email password center self)) =
              recorded_statuses email self @ [INIT, INIT, INIT, NETWORK_ERROR])"
proof -
  let ?r0 = "initialize_and_bypass d email self"
  let ?t = "start_workflow_try d email password center self"
  have q0: "notifications (snd ?r0) = notifications self" "navigations (snd ?r0) = navigations self"
    using initialize_and_bypass_quiet [of d email self] by simp_all
  show ?thesis
  proof (cases "load_state (cloudflare d)")
    case (Some e0)
    then have "fst ?r0 = Raised (Exception ''Failed to bypass Cloudflare protection'')"
      by (simp add: fst_initialize_and_bypass)
    then have "fst ?t = Raised (Exception ''Failed to bypass Cloudflare protection'')"
      and "snd ?t = snd ?r0"
      by (simp_all add: start_workflow_try_def fst_and_then snd_and_then)
    with q0 Some show ?thesis by (simp add: start_workflow_outer)
  next
    case None
    then have r0: "fst ?r0 = Returned ()" by (simp add: fst_initialize_and_bypass)
    from initialize_and_bypass_returns(4) [OF None, of email self]
    have st0: "recorded_statuses email (snd ?r0) = recorded_statuses email self @ [INIT, INIT]" .
    let ?r1 = "navigate_to_login_page d email center (snd ?r0)"
    from r0 have t: "fst ?t = Raised (KeyError (upper center))" "snd ?t = snd ?r1"
      using navigate_unknown_center(1) [OF assms, of email "snd ?r0"]
      by (simp_all add: start_workflow_try_def fst_and_then snd_and_then)
    from t navigate_unknown_center [OF assms, of email "snd ?r0"] q0 st0 None
    show ?thesis by (simp add: start_workflow_outer)
  qed
qed

theorem unknown_center_no_notification_witness:
  "centers quiet_workflow (upper ''xxx'') = None \<and>
   load_state (cloudflare quiet_workflow) = None \<and>
   fst (start_workflow quiet_workflow ''a@x.com'' ''secret'' ''xxx'' init) = Raised (KeyError ''XXX'') \<and>
   navigations (snd (start_workflow quiet_workflow ''a@x.com'' ''secret'' ''xxx'' init)) = [] \<and>
   notifications (snd (start_workflow quiet_workflow ''a@x.com'' ''secret'' ''xxx'' init)) = [] \<and>
   recorded_statuses ''a@x.com'' (snd (start_workflow quiet_workflow ''a@x.com'' ''secret'' ''xxx'' init)) =
     [INIT, INIT, INIT, NETWORK_ERROR]"
proof -
  have u: "upper ''xxx'' = ''XXX''" by code_simp
  have c: "centers quiet_workflow (upper ''xxx'') = None" by code_simp
  have l: "load_state (cloudflare quiet_workflow) = None" by code_simp
  have i: "navigations init = []" "notifications init = []" "recorded_statuses ''a@x.com'' init = []"
    by (simp_all add: navigations_def notifications_def recorded_statuses_def init_def)
  from unknown_center_no_notification [OF c, of "''a@x.com''" "''secret''" init] l
  have "fst (start_workflow quiet_workflow ''a@x.com'' ''secret'' ''xxx'' init) =
      Raised (KeyError (upper ''xxx'')) \<and>
   navigations (snd (start_workflow quiet_workflow ''a@x.com'' ''secret'' ''xxx'' init)) =
     navigations init \<and>
   notifications (snd (start_workflow quiet_workflow ''a@x.com'' ''secret'' ''xxx'' init)) =
     notifications init \<and>
   recorded_statuses ''a@x.com'' (snd (start_workflow quiet_workflow ''a@x.com'' ''secret'' ''xxx'' init)) =
     recorded_statuses ''a@x.com'' init @ [INIT, INIT, INIT, NETWORK_ERROR]"
    by (simp only: simp_thms)
  then have "fst (start_workflow quiet_workflow ''a@x.com'' ''secret'' ''xxx'' init) =
      Raised (KeyError ''XXX'') \<and>
   navigations (snd (start_workflow quiet_workflow ''a@x.com'' ''secret'' ''xxx'' init)) = [] \<and>
   notifications (snd (start_workflow quiet_workflow ''a@x.com'' ''secret'' ''xxx'' init)) = [] \<and>
   recorded_statuses ''a@x.com'' (snd (start_workflow quiet_workflow ''a@x.com'' ''secret'' ''xxx'' init)) =
     [INIT, INIT, INIT, NETWORK_ERROR]"
    by (simp only: u i append_Nil)
  with c l show ?thesis by (simp only: simp_thms)
qed

lemma logged_called [simp]: "logged (called ev s) = logged s"
  by (simp add: called_def)

lemma logged_human_delay [simp]: "logged (human_delay s) = logged s"
  by (simp add: human_delay_def)

lemma logged_logger [simp]: "logged (logger msg s) = logged s @ [msg]"
  by (simp add: logger_def)

lemma type_each_outcome:
  "fst (type_each d sel i chars s) =
     (case first_type_error d sel i (length chars) of Some e \<Rightarrow> Raised e | None \<Rightarrow> Returned ()) \<and>
   logged (snd (type_each d sel i chars s)) = logged s"
  by (induction chars arbitrary: i s) (simp_all add: Let_def split: option.split)

lemma TLSVisaBot_human_type_outcome:
  "fst (TLSVisaBot_human_type d sel chars s) = TLSVisaBot_typing_outcome d sel chars \<and>
   logged (snd (TLSVisaBot_human_type d sel chars s)) = logged s"
  by (simp add: TLSVisaBot_human_type_def TLSVisaBot_typing_outcome_def type_each_outcome Let_def
      split: option.split)

lemma human_type_try_outcome:
  "fst (human_type_try d sel chars s) = typing_outcome d sel chars \<and>
   logged (snd (human_type_try d sel chars s)) = logged s"
  by (simp add: human_type_try_def typing_outcome_def Let_def split: option.split list.split)

lemma human_type_outcome:
  "fst (human_type d sel chars s) = typing_outcome d sel chars"
  using human_type_try_outcome [of d sel chars s]
  by (cases "human_type_try d sel chars s"; cases "fst (human_type_try d sel chars s)")
    (auto simp: human_type_def)

lemma human_type_logged:
  "logged (snd (human_type d sel chars s)) =
     (case typing_outcome d sel chars of
        Raised e \<Rightarrow> logged s @ [''Error during human typing: '' @ str_of e]
      | Returned u \<Rightarrow> logged s)"
  using human_type_try_outcome [of d sel chars s]
  by (cases "human_type_try d sel chars s"; cases "fst (human_type_try d sel chars s)")
    (auto simp: human_type_def)

lemma scroll_down_logged: "logged (snd (scroll_down d h i c s)) = logged s"
proof (induction d h i c s rule: scroll_down.induct)
  case (1 d page_height i current_scroll self)
  show ?case
  proof (cases "current_scroll < page_height")
    case False
    then show ?thesis by (simp add: scroll_down.simps [of d page_height i current_scroll self])
  next
    case True
    show ?thesis
    proof (cases "scroll_by d i")
      case (Some e)
      with True show ?thesis
        by (simp add: scroll_down.simps [of d page_height i current_scroll self] Let_def)
    next
      case None
      note ih = 1 [OF True refl refl None refl refl]
      from True None ih show ?thesis
        by (simp add: scroll_down.simps [of d page_height i current_scroll self] Let_def)
    qed
  qed
qed

lemma scroll_up_logged: "logged (snd (scroll_up d i c s)) = logged s"
proof (induction d i c s rule: scroll_up.induct)
  case (1 d i current_scroll self)
  show ?case
  proof (cases "current_scroll > 0")
    case False
    then show ?thesis by (simp add: scroll_up.simps [of d i current_scroll self])
  next
    case True
    show ?thesis
    proof (cases "scroll_by d i")
      case (Some e)
      with True show ?thesis
        by (simp add: scroll_up.simps [of d i current_scroll self] Let_def)
    next
      case None
      show ?thesis
      proof (cases "mouse_draw d i")
        case False
        note ih = 1(2) [OF True refl refl refl None refl False]
        from True None False ih show ?thesis
          by (simp add: scroll_up.simps [of d i current_scroll self] Let_def)
      next
        case draw: True
        show ?thesis
        proof (cases "mouse_move d i")
          case (Some e)
          with True None draw show ?thesis
            by (simp add: scroll_up.simps [of d i current_scroll self] Let_def)
        next
          case none: None
          note ih = 1(1) [OF True refl refl refl None refl draw refl none]
          from True None draw none ih show ?thesis
            by (simp add: scroll_up.simps [of d i current_scroll self] Let_def)
        qed
      qed
    qed
  qed
qed

lemma human_scroll_try_logged: "logged (snd (human_scroll_try sd s)) = logged s"
proof -
  let ?s2 = "called (Evaluate ''window.innerHeight'')
               (called (Evaluate ''document.body.scrollHeight'') s)"
  have down: "\<And>h r s3. scroll_down sd h 0 0 (human_delay ?s2) = (r, s3) \<Longrightarrow> logged s3 = logged s"
    using scroll_down_logged [of sd _ 0 0 "human_delay ?s2"] by (metis logged_called logged_human_delay snd_conv)
  have up: "\<And>i c s3. logged (snd (scroll_up sd i c (human_delay s3))) = logged s3"
    by (simp add: scroll_up_logged)
  show ?thesis
    by (auto simp: human_scroll_try_def Let_def up dest: down
        split: sum.split prod.split outcome.split)
qed

lemma human_scroll_outcome:
  "fst (human_scroll sd s) = fst (human_scroll_try sd s)"
  by (cases "human_scroll_try sd s"; cases "fst (human_scroll_try sd s)")
    (auto simp: human_scroll_def)

lemma human_scroll_logged:
  "fst (human_scroll sd s) = Raised e \<Longrightarrow>
     logged (snd (human_scroll sd s)) = logged s @ [''Error during human scrolling: '' @ str_of e]"
  using human_scroll_try_logged [of sd s]
  by (cases "human_scroll_try sd s"; cases "fst (human_scroll_try sd s)")
    (auto simp: human_scroll_def)

lemma human_scroll_height_error:
  "scroll_height sd = Inl e \<Longrightarrow>
     fst (human_scroll sd s) = Raised e \<and>
     logged (snd (human_scroll sd s)) = logged s @ [''Error during human scrolling: '' @ str_of e]"
  by (simp add: human_scroll_def human_scroll_try_def Let_def)

lemma login_try_typing_fails:
  assumes "typing_outcome (typing d) ''input[type='email']'' email \<noteq> Returned () \<or>
           typing_outcome (typing d) ''input[type='password']'' password \<noteq> Returned ()"
  shows "\<exists>e. fst (login_try d email password s) = Raised e"
proof (cases "typing_outcome (typing d) ''input[type='email']'' email")
  case (Raised e)
  then show ?thesis by (simp add: login_try_def fst_and_then human_type_outcome)
next
  case (Returned u)
  with assms obtain e where
    "typing_outcome (typing d) ''input[type='password']'' password = Raised e"
    by (cases "typing_outcome (typing d) ''input[type='password']'' password") auto
  with Returned show ?thesis by (simp add: login_try_def fst_and_then human_type_outcome)
qed

lemma fst_login:
  "fst (login d email password s) =
     (case fst (login_try d email password s) of Raised e \<Rightarrow> False | Returned b \<Rightarrow> b)"
  by (cases "login_try d email password s"; cases "fst (login_try d email password s)")
    (auto simp: login_def)

lemma login_typing_fails:
  assumes "typing_outcome (typing d) ''input[type='email']'' email \<noteq> Returned () \<or>
           typing_outcome (typing d) ''input[type='password']'' password \<noteq> Returned ()"
  shows "fst (login d email password s) = False"
  using login_try_typing_fails [OF assms, of s] by (auto simp: fst_login)

lemma authenticate_outcome:
  "fst (authenticate d email password s) =
     (if fst (login (login_page d) email password s) then Returned ()
      else Raised (Exception ''Login failed'')) \<and>
   recorded_statuses email (snd (authenticate d email password s)) =
     recorded_statuses email s @
       [if fst (login (login_page d) email password s) then LOGGED_IN else LOGIN_FAILED] \<and>
   notifications (snd (authenticate d email password s)) = notifications s \<and>
   navigations (snd (authenticate d email password s)) = navigations s"
proof -
  obtain b s1 where h: "login (login_page d) email password s = (b, s1)"
    by (cases "login (login_page d) email password s")
  have "same_ledger s (snd (login (login_page d) email password s))" by simp
  with h have "same_ledger s s1" by simp
  then have "recorded_statuses email s1 = recorded_statuses email s"
    "notifications s1 = notifications s" "navigations s1 = navigations s"
    by (simp_all add: same_ledger_def recorded_statuses_def)
  with h show ?thesis by (cases b) (simp_all add: authenticate_def)
qed

text \<open>
  Claim C8, as the code has it. An error raised inside \<^verbatim>\<open>_human_type\<close> or \<^verbatim>\<open>_human_scroll\<close> is
  logged by the function of the module and raised again to the caller; the method of the
  class has no handler, logs nothing and lets the error through. The typing primitives end
  as \<open>typing_outcome\<close> and \<open>TLSVisaBot_typing_outcome\<close> say, and the scrolling primitive raises
  whatever its \<^verbatim>\<open>try\<close> block raises. The caller decides what happens next: when the typing of
  the e-mail address or of the password raises, \<^verbatim>\<open>login\<close> answers \<^verbatim>\<open>False\<close>, and the workflow
  then records \<^verbatim>\<open>LOGIN_FAILED\<close> and raises \<^verbatim>\<open>Exception("Login failed")\<close>.
\<close>

theorem pacing_errors_are_raised_again:
  "fst (human_type_try d selector chars s) = typing_outcome d selector chars \<and>
   fst (human_type d selector chars s) = fst (human_type_try d selector chars s) \<and>
   (\<forall>e. fst (human_type d selector chars s) = Raised e \<longrightarrow>
      logged (snd (human_type d selector chars s)) =
        logged s @ [''Error during human typing: '' @ str_of e]) \<and>
   fst (TLSVisaBot_human_type d selector chars s) = TLSVisaBot_typing_outcome d selector chars \<and>
   logged (snd (TLSVisaBot_human_type d selector chars s)) = logged s \<and>
   (click_field d selector = Some click_error \<longrightarrow>
      fst (human_type d selector chars s) = Raised click_error \<and>
      fst (TLSVisaBot_human_type d selector chars s) = Raised click_error) \<and>
   fst (human_scroll sd s) = fst (human_scroll_try sd s) \<and>
   (\<forall>e. fst (human_scroll sd s) = Raised e \<longrightarrow>
      logged (snd (human_scroll sd s)) =
        logged s @ [''Error during human scrolling: '' @ str_of e]) \<and>
   (scroll_height sd = Inl height_error \<longrightarrow> fst (human_scroll sd s) = Raised height_error) \<and>
   (typing_outcome (typing (login_page wd)) ''input[type='email']'' email \<noteq> Returned () \<or>
    typing_outcome (typing (login_page wd)) ''input[type='password']'' password \<noteq> Returned () \<longrightarrow>
      fst (login (login_page wd) email password s) = False \<and>
      fst (authenticate wd email password s) = Raised (Exception ''Login failed'') \<and>
      recorded_statuses email (snd (authenticate wd email password s)) =
        recorded_statuses email s @ [LOGIN_FAILED])"
proof (intro conjI allI impI)
  show "fst (human_type_try d selector chars s) = typing_outcome d selector chars"
    by (simp add: human_type_try_outcome)
next
  show "fst (human_type d selector chars s) = fst (human_type_try d selector chars s)"
    by (simp add: human_type_outcome human_type_try_outcome)
next
  fix e assume "fst (human_type d selector chars s) = Raised e"
  then have "typing_outcome d selector chars = Raised e" by (simp add: human_type_outcome)
  then show "logged (snd (human_type d selector chars s)) =
      logged s @ [''Error during human typing: '' @ str_of e]"
    by (simp add: human_type_logged)
next
  show "fst (TLSVisaBot_human_type d selector chars s) =
      TLSVisaBot_typing_outcome d selector chars"
    by (simp add: TLSVisaBot_human_type_outcome)
next
  show "logged (snd (TLSVisaBot_human_type d selector chars s)) = logged s"
    by (simp add: TLSVisaBot_human_type_outcome)
next
  assume "click_field d selector = Some click_error"
  then show "fst (human_type d selector chars s) = Raised click_error"
    by (simp add: human_type_outcome typing_outcome_def)
next
  assume "click_field d selector = Some click_error"
  then show "fst (TLSVisaBot_human_type d selector chars s) = Raised click_error"
    by (simp add: TLSVisaBot_human_type_def Let_def)
next
  show "fst (human_scroll sd s) = fst (human_scroll_try sd s)" by (rule human_scroll_outcome)
next
  fix e assume "fst (human_scroll sd s) = Raised e"
  then show "logged (snd (human_scroll sd s)) =
      logged s @ [''Error during human scrolling: '' @ str_of e]"
    by (rule human_scroll_logged)
next
  assume "scroll_height sd = Inl height_error"
  then show "fst (human_scroll sd s) = Raised height_error" by (simp add: human_scroll_height_error)
next
  assume c: "typing_outcome (typing (login_page wd)) ''input[type='email']'' email \<noteq> Returned () \<or>
    typing_outcome (typing (login_page wd)) ''input[type='password']'' password \<noteq> Returned ()"
  show l: "fst (login (login_page wd) email password s) = False"
    by (rule login_typing_fails [OF c])
  from l show "fst (authenticate wd email password s) = Raised (Exception ''Login failed'')"
    by (simp add: authenticate_outcome)
  from l show "recorded_statuses email (snd (authenticate wd email password s)) =
        recorded_statuses email s @ [LOGIN_FAILED]"
    by (simp add: authenticate_outcome)
qed

lemma typing_outcome_instances:
  "typing_outcome (typing (login_page typing_fails_driver)) ''input[type='email']'' ''a@x.com'' =
     Raised (PlaywrightError ''Element is not attached to the DOM'')"
  "typing_outcome quiet_typing ''input[type='email']'' ''a@x.com'' = Raised (NameError ''TIMING'')"
  "typing_outcome quiet_typing selector [] = Returned ()"
  by (simp_all add: typing_outcome_def typing_fails_driver_def quiet_typing_def)

theorem pacing_errors_are_raised_again_witness:
  "fst (human_type (typing (login_page typing_fails_driver)) ''input[type='email']'' ''a@x.com'' init) =
     Raised (PlaywrightError ''Element is not attached to the DOM'') \<and>
   logged (snd (human_type (typing (login_page typing_fails_driver)) ''input[type='email']''
       ''a@x.com'' init)) =
     [''Error during human typing: Element is not attached to the DOM''] \<and>
   fst (human_type quiet_typing ''input[type='email']'' ''a@x.com'' init) =
     Raised (NameError ''TIMING'') \<and>
   logged (snd (human_type quiet_typing ''input[type='email']'' ''a@x.com'' init)) =
     [''Error during human typing: name '' @ [CHR 0x27] @ ''TIMING'' @ [CHR 0x27] @
      '' is not defined''] \<and>
   click_field (typing (login_page typing_fails_driver)) ''input[type='email']'' =
     Some (PlaywrightError ''Element is not attached to the DOM'') \<and>
   fst (TLSVisaBot_human_type (typing (login_page typing_fails_driver)) ''input[type='email']''
       ''a@x.com'' init) =
     Raised (PlaywrightError ''Element is not attached to the DOM'') \<and>
   scroll_height height_fails_scroll = Inl (PlaywrightError ''Execution context was destroyed'') \<and>
   fst (human_scroll height_fails_scroll init) =
     Raised (PlaywrightError ''Execution context was destroyed'') \<and>
   logged (snd (human_scroll height_fails_scroll init)) =
     [''Error during human scrolling: Execution context was destroyed''] \<and>
   typing_outcome (typing (login_page quiet_workflow)) ''input[type='email']'' ''a@x.com'' \<noteq>
     Returned () \<and>
   fst (login (login_page quiet_workflow) ''a@x.com'' ''secret'' init) = False \<and>
   fst (authenticate quiet_workflow ''a@x.com'' ''secret'' init) =
     Raised (Exception ''Login failed'')"
proof -
  let ?d = "typing (login_page typing_fails_driver)"
  let ?sel = "''input[type='email']''"
  let ?e = "PlaywrightError ''Element is not attached to the DOM''"
  let ?h = "PlaywrightError ''Execution context was destroyed''"
  note c2 = conjunct2
  have c: "click_field ?d ?sel = Some ?e" by (simp add: typing_fails_driver_def)
  have h: "scroll_height height_fails_scroll = Inl ?h" by (simp add: height_fails_scroll_def)
  have q: "typing (login_page quiet_workflow) = quiet_typing"
    by (simp add: quiet_workflow_def quiet_login_def)
  have n: "typing_outcome (typing (login_page quiet_workflow)) ?sel ''a@x.com'' \<noteq> Returned ()"
    by (simp add: q typing_outcome_instances)
  note t = pacing_errors_are_raised_again [where d = ?d and selector = ?sel
      and chars = "''a@x.com''" and s = init and click_error = ?e and sd = height_fails_scroll
      and height_error = ?h and wd = quiet_workflow and email = "''a@x.com''" and password = "''secret''"]
  note u = pacing_errors_are_raised_again [where d = quiet_typing and selector = ?sel
      and chars = "''a@x.com''" and s = init and click_error = ?e and sd = height_fails_scroll
      and height_error = ?h and wd = quiet_workflow and email = "''a@x.com''" and password = "''secret''"]
  have one: "fst (human_type ?d ?sel ''a@x.com'' init) = Raised ?e"
    using t [THEN c2, THEN conjunct1] t [THEN conjunct1]
    by (simp add: typing_outcome_instances)
  have "logged (snd (human_type ?d ?sel ''a@x.com'' init)) =
      logged init @ [''Error during human typing: '' @ str_of ?e]"
    by (rule t [THEN c2, THEN c2, THEN conjunct1, rule_format, OF one])
  then have two: "logged (snd (human_type ?d ?sel ''a@x.com'' init)) =
      [''Error during human typing: Element is not attached to the DOM'']"
    by (simp add: init_def)
  have three: "fst (human_type quiet_typing ?sel ''a@x.com'' init) = Raised (NameError ''TIMING'')"
    using u [THEN c2, THEN conjunct1] u [THEN conjunct1]
    by (simp add: typing_outcome_instances)
  have "logged (snd (human_type quiet_typing ?sel ''a@x.com'' init)) =
      logged init @ [''Error during human typing: '' @ str_of (NameError ''TIMING'')]"
    by (rule u [THEN c2, THEN c2, THEN conjunct1, rule_format, OF three])
  then have four: "logged (snd (human_type quiet_typing ?sel ''a@x.com'' init)) =
     [''Error during human typing: name '' @ [CHR 0x27] @ ''TIMING'' @ [CHR 0x27] @
      '' is not defined'']"
    by (simp add: init_def)
  have five: "fst (TLSVisaBot_human_type ?d ?sel ''a@x.com'' init) = Raised ?e"
    by (rule t [THEN c2, THEN c2, THEN c2, THEN c2, THEN c2, THEN conjunct1, THEN mp, OF c,
          THEN conjunct2])
  have six: "fst (human_scroll height_fails_scroll init) = Raised ?h"
    by (rule t [THEN c2, THEN c2, THEN c2, THEN c2, THEN c2, THEN c2, THEN c2, THEN c2,
          THEN conjunct1, THEN mp, OF h])
  have "logged (snd (human_scroll height_fails_scroll init)) =
      logged init @ [''Error during human scrolling: '' @ str_of ?h]"
    by (rule t [THEN c2, THEN c2, THEN c2, THEN c2, THEN c2, THEN c2, THEN c2, THEN conjunct1,
          rule_format, OF six])
  then have seven: "logged (snd (human_scroll height_fails_scroll init)) =
     [''Error during human scrolling: Execution context was destroyed'']"
    by (simp add: init_def)
  note l = t [THEN c2, THEN c2, THEN c2, THEN c2, THEN c2, THEN c2, THEN c2, THEN c2, THEN c2,
      THEN mp, OF disjI1 [OF n]]
  show ?thesis
    by (intro conjI one two three four c five h six seven n l [THEN conjunct1]
        l [THEN c2, THEN conjunct1])
qed

lemma navigate_ok:
  assumes "centers d (upper center) = Some url" and "goto_center d = None"
  shows "fst (navigate_to_login_page d email center s) = Returned ()"
    and "recorded_statuses email (snd (navigate_to_login_page d email center s)) =
           recorded_statuses email s @ [INIT]"
  using assms by (simp_all add: navigate_to_login_page_def Let_def)

lemma navigate_fails:
  assumes "centers d (upper center) = Some url" and "goto_center d = Some e"
  shows "fst (navigate_to_login_page d email center s) = Raised e"
    and "recorded_statuses email (snd (navigate_to_login_page d email center s)) =
           recorded_statuses email s @ [INIT, NETWORK_ERROR]"
  using assms by (simp_all add: navigate_to_login_page_def Let_def)

lemma find_login_form_first:
  assumes "form_wait d 0 = None"
  shows "fst (find_login_form d email s) = Returned ()"
    and "recorded_statuses email (snd (find_login_form d email s)) =
           recorded_statuses email s @ [INIT, INIT]"
  using assms
  by (simp_all add: find_login_form_def Let_def wait_for_login_form.simps [of d email 3 0])

lemma find_login_form_exhausted:
  assumes "form_wait d 0 = Some e0" "form_wait d 1 = Some e1" "form_wait d 2 = Some e2"
    and "reload d 0 = None" "reload d 1 = None"
  shows "fst (find_login_form d email s) = Raised (Exception ''Login form not found after retries'')"
    and "recorded_statuses email (snd (find_login_form d email s)) =
           recorded_statuses email s @ [INIT, INIT, INIT, LOGIN_FAILED]"
  by (simp_all add: find_login_form_def Let_def wait_for_login_form_exhausted [OF assms])

lemma select_country_fails:
  assumes "goto_base d = Some e"
  shows "fst (select_country d email s) = Raised e"
    and "recorded_statuses email (snd (select_country d email s)) =
           recorded_statuses email s @ [BOOKING, BOOKING, NETWORK_ERROR]"
  using assms by (simp_all add: select_country_def Let_def)

lemma and_then_assoc:
  "and_then (and_then r f) g = and_then r (\<lambda>x s. and_then (f x s) g)"
  by (cases r; cases "fst r") (simp_all add: and_then_def)

lemma start_workflow_try_split:
  "start_workflow_try d email password center self =
     and_then (reach_country_selection d email password center self) (\<lambda>_ self4.
     and_then (select_country d email self4) (\<lambda>_ self5. after_navigation d self5))"
  by (simp add: start_workflow_try_def reach_country_selection_def and_then_assoc)

lemma start_workflow_step1_fails:
  assumes "load_state (cloudflare d) = None" and "centers d (upper center) = Some url"
    and "goto_center d = Some e"
  shows "fst (start_workflow d email password center self) = Raised e"
    and "recorded_statuses email (snd (start_workflow d email password center self)) =
           recorded_statuses email self @ [INIT, INIT, INIT, NETWORK_ERROR]"
  using initialize_and_bypass_returns(1,4) [OF assms(1)] navigate_fails [OF assms(2,3)]
  by (simp_all add: start_workflow_outer start_workflow_try_def fst_and_then snd_and_then)

lemma start_workflow_form_not_found:
  assumes "load_state (cloudflare d) = None" and "centers d (upper center) = Some url"
    and "goto_center d = None"
    and "form_wait d 0 = Some e0" "form_wait d 1 = Some e1" "form_wait d 2 = Some e2"
    and "reload d 0 = None" "reload d 1 = None"
  shows "fst (start_workflow d email password center self) =
           Raised (Exception ''Login form not found after retries'')"
    and "recorded_statuses email (snd (start_workflow d email password center self)) =
           recorded_statuses email self @ [INIT, INIT, INIT, INIT, INIT, INIT, LOGIN_FAILED]"
  using initialize_and_bypass_returns(1,4) [OF assms(1)] navigate_ok [OF assms(2,3)]
    find_login_form_exhausted [OF assms(4-8)]
  by (simp_all add: start_workflow_outer start_workflow_try_def fst_and_then snd_and_then)

lemma start_workflow_login_fails:
  assumes "load_state (cloudflare d) = None" and "centers d (upper center) = Some url"
    and "goto_center d = None" and "form_wait d 0 = None"
    and "\<And>t. fst (login (login_page d) email password t) = False"
  shows "fst (start_workflow d email password center self) = Raised (Exception ''Login failed'')"
    and "recorded_statuses email (snd (start_workflow d email password center self)) =
           recorded_statuses email self @ [INIT, INIT, INIT, INIT, INIT, LOGIN_FAILED]"
  using initialize_and_bypass_returns(1,4) [OF assms(1)] navigate_ok [OF assms(2,3)]
    find_login_form_first [OF assms(4)] assms(5)
  by (simp_all add: start_workflow_outer start_workflow_try_def fst_and_then snd_and_then
      authenticate_outcome)

lemma reach_country_selection_returns:
  assumes "load_state (cloudflare d) = None" and "centers d (upper center) = Some url"
    and "goto_center d = None" and "form_wait d 0 = None"
    and "\<And>t. fst (login (login_page d) email password t) = True"
  shows "fst (reach_country_selection d email password center self) = Returned ()"
    and "recorded_statuses email (snd (reach_country_selection d email password center self)) =
           recorded_statuses email self @ [INIT, INIT, INIT, INIT, INIT, LOGGED_IN]"
  using initialize_and_bypass_returns(1,4) [OF assms(1)] navigate_ok [OF assms(2,3)]
    find_login_form_first [OF assms(4)] assms(5)
  by (simp_all add: reach_country_selection_def fst_and_then snd_and_then authenticate_outcome)

lemma start_workflow_step4_fails:
  assumes "fst (reach_country_selection d email password center self) = Returned ()"
    and "goto_base d = Some e"
  shows "fst (start_workflow d email password center self) = Raised e"
    and "recorded_statuses email (snd (start_workflow d email password center self)) =
           recorded_statuses email (snd (reach_country_selection d email password center self)) @
             [BOOKING, BOOKING, NETWORK_ERROR]"
  using assms(1) select_country_fails [OF assms(2)]
  by (simp_all add: start_workflow_outer start_workflow_try_split fst_and_then snd_and_then)

lemma click_field_quiet: "click_field quiet_typing sel = None"
  by (simp add: quiet_typing_def)

lemma quiet_login_fields:
  "typing quiet_login = quiet_typing" "login_button quiet_login = Inr True"
  "login_button_click quiet_login = None" "login_marker quiet_login = None"
  "error_message quiet_login = Inr None"
  by (simp_all add: quiet_login_def)

text \<open>
  With the function of the module as the typing primitive, a login can only succeed when
  there is nothing to type.
\<close>

lemma login_quiet_empty: "fst (login quiet_login [] [] t) = True"
  by (simp add: fst_login login_try_def fst_and_then human_type_outcome typing_outcome_def
      click_field_quiet quiet_login_fields Let_def)

lemma login_needs_empty_text:
  assumes "fst (login d email password t) = True"
  shows "email = [] \<and> password = []"
proof -
  have "typing_outcome (typing d) ''input[type='email']'' email = Returned () \<and>
        typing_outcome (typing d) ''input[type='password']'' password = Returned ()"
    using login_typing_fails [of d email password t] assms by auto
  then show ?thesis
    by (auto simp: typing_outcome_def split: option.splits list.splits)
qed

text \<open>
  The first \<^verbatim>\<open>start_workflow\<close> of the module (lines 533 to 613). When its \<^verbatim>\<open>try\<close> block raises,
  whatever the exception, the handler records nothing and the exception that leaves the
  function is the \<^verbatim>\<open>NameError\<close> of the handler or what the \<^verbatim>\<open>finally\<close> block raises: the
  exception of the \<^verbatim>\<open>try\<close> block is not raised again.
\<close>

lemma start_workflow_533_handler:
  assumes "start_workflow_533_try d email center self = (Raised e, self1)"
  shows "snd (start_workflow_533 d email password center self) =
           snd (start_workflow_533_finally d email password self1)"
    and "fst (start_workflow_533 d email password center self) =
           (case fst (start_workflow_533_finally d email password self1) of
              Raised finally_error \<Rightarrow> Raised finally_error
            | Returned u \<Rightarrow> Raised (NameError ''PlaywrightError''))"
  using assms
  by (cases "start_workflow_533_finally d email password self1";
      cases "fst (start_workflow_533_finally d email password self1)";
      simp add: start_workflow_533_def classify_failure_def)+

text \<open>
  An instance: the browser is set up, the challenge passes, and the navigation to the page of
  the centre raises \<open>e\<close>. The handler records nothing; the \<^verbatim>\<open>finally\<close> block then finds the login
  form and tries to log in, which fails for every non-empty e-mail address. The run has
  recorded \<^verbatim>\<open>LOGIN_FAILED\<close>, not \<^verbatim>\<open>NETWORK_ERROR\<close>, and the exception that leaves the function is
  \<^verbatim>\<open>Exception("Login failed")\<close>, not \<open>e\<close>.
\<close>

lemma start_workflow_533_try_navigation_fails:
  assumes "browser self = Some b" and "load_state (cloudflare d) = None"
    and "centers d (upper center) = Some url" and "goto_center d = Some e"
  shows "fst (start_workflow_533_try d email center self) = Raised e"
    and "recorded_statuses email (snd (start_workflow_533_try d email center self)) =
           recorded_statuses email self @ [INIT, INIT, INIT]"
proof -
  let ?s1 = "status_update (clock d) email INIT (''Starting workflow - '' @ steps self ! 0)
               (self\<lparr>current_account := Some (email, 0)\<rparr>)"
  have b: "browser ?s1 = Some b"
    using assms(1) by (simp add: status_update_def update_account_status_def Let_def)
  obtain r s2 where h: "handle_cloudflare (cloudflare d) ?s1 = (r, s2)"
    by (cases "handle_cloudflare (cloudflare d) ?s1")
  from handle_cloudflare_returns [OF assms(2), of ?s1] h have r: "r = Returned ()" by simp
  from handle_cloudflare_quiet [of "cloudflare d" ?s1 email] h
  have q: "recorded_statuses email s2 = recorded_statuses email self @ [INIT]" by simp
  from b h r q assms(3,4)
  show "fst (start_workflow_533_try d email center self) = Raised e"
    and "recorded_statuses email (snd (start_workflow_533_try d email center self)) =
           recorded_statuses email self @ [INIT, INIT, INIT]"
    by (simp_all add: start_workflow_533_try_def and_then_def Let_def)
qed

lemma start_workflow_533_finally_login_fails:
  assumes "form_wait d 0 = None"
    and "\<And>t. fst (login (login_page d) email password t) = False"
  shows "fst (start_workflow_533_finally d email password s) = Raised (Exception ''Login failed'')"
    and "recorded_statuses email (snd (start_workflow_533_finally d email password s)) =
           recorded_statuses email s @ [INIT, INIT, LOGIN_FAILED]"
proof -
  let ?s0 = "human_delay s"
  obtain s1 where f: "find_login_form d email ?s0 = (Returned (), s1)"
    using find_login_form_first(1) [OF assms(1), of email ?s0]
    by (cases "find_login_form d email ?s0") simp
  from find_login_form_first(2) [OF assms(1), of email ?s0] f
  have st: "recorded_statuses email s1 = recorded_statuses email s @ [INIT, INIT]" by simp
  obtain b s2 where l: "login (login_page d) email password s1 = (b, s2)"
    by (cases "login (login_page d) email password s1")
  from assms(2) [of s1] l have b: "b = False" by simp
  have "same_ledger s1 (snd (login (login_page d) email password s1))" by simp
  with l have "recorded_statuses email s2 = recorded_statuses email s1"
    by (simp add: same_ledger_def recorded_statuses_def)
  with f l b st
  show "fst (start_workflow_533_finally d email password s) = Raised (Exception ''Login failed'')"
    and "recorded_statuses email (snd (start_workflow_533_finally d email password s)) =
           recorded_statuses email s @ [INIT, INIT, LOGIN_FAILED]"
    by (simp_all add: start_workflow_533_finally_def and_then_def)
qed

lemma start_workflow_533_navigation_error:
  assumes "browser self = Some b" and "load_state (cloudflare d) = None"
    and "centers d (upper center) = Some url" and "goto_center d = Some e"
    and "form_wait d 0 = None" and "email \<noteq> []"
  shows "fst (start_workflow_533 d email password center self) = Raised (Exception ''Login failed'')"
    and "recorded_statuses email (snd (start_workflow_533 d email password center self)) =
           recorded_statuses email self @ [INIT, INIT, INIT, INIT, INIT, LOGIN_FAILED]"
proof -
  obtain s1 where t: "start_workflow_533_try d email center self = (Raised e, s1)"
    using start_workflow_533_try_navigation_fails(1) [OF assms(1-4), of email]
    by (cases "start_workflow_533_try d email center self") simp
  from start_workflow_533_try_navigation_fails(2) [OF assms(1-4), of email] t
  have st: "recorded_statuses email s1 = recorded_statuses email self @ [INIT, INIT, INIT]"
    by simp
  have l: "\<And>t. fst (login (login_page d) email password t) = False"
    using login_needs_empty_text [of "login_page d" email password] assms(6) by auto
  note f = start_workflow_533_finally_login_fails [OF assms(5) l, of s1]
  note h = start_workflow_533_handler [OF t, of password]
  from h f st
  show "fst (start_workflow_533 d email password center self) = Raised (Exception ''Login failed'')"
    and "recorded_statuses email (snd (start_workflow_533 d email password center self)) =
           recorded_statuses email self @ [INIT, INIT, INIT, INIT, INIT, LOGIN_FAILED]"
    by simp_all
qed

text \<open>
  Claim C5, as the code has it, in the last \<^verbatim>\<open>start_workflow\<close> (lines 1117 to 1467). An error
  raised by the navigation of step 1 is recorded as \<^verbatim>\<open>NETWORK_ERROR\<close> and raised again to the
  caller. So is an error raised by the navigation of step 4, in every run that gets there.
  An error raised by the check of the login form in step 2 is not: it counts as a failed
  attempt, and after the third the run records \<^verbatim>\<open>LOGIN_FAILED\<close> and raises
  \<^verbatim>\<open>Exception("Login form not found after retries")\<close>.
\<close>

theorem network_error_at_navigation:
  "(load_state (cloudflare d) = None \<and> centers d (upper center) = Some url \<and>
    goto_center d = Some e \<longrightarrow>
      fst (start_workflow d email password center self) = Raised e \<and>
      recorded_statuses email (snd (start_workflow d email password center self)) =
        recorded_statuses email self @ [INIT, INIT, INIT, NETWORK_ERROR]) \<and>
   (fst (reach_country_selection d email password center self) = Returned () \<and>
    goto_base d = Some e \<longrightarrow>
      fst (start_workflow d email password center self) = Raised e \<and>
      recorded_statuses email (snd (start_workflow d email password center self)) =
        recorded_statuses email (snd (reach_country_selection d email password center self)) @
          [BOOKING, BOOKING, NETWORK_ERROR]) \<and>
   (load_state (cloudflare d) = None \<and> centers d (upper center) = Some url \<and>
    goto_center d = None \<and> form_wait d 0 \<noteq> None \<and> form_wait d 1 \<noteq> None \<and>
    form_wait d 2 \<noteq> None \<and> reload d 0 = None \<and> reload d 1 = None \<longrightarrow>
      fst (start_workflow d email password center self) =
        Raised (Exception ''Login form not found after retries'') \<and>
      recorded_statuses email (snd (start_workflow d email password center self)) =
        recorded_statuses email self @ [INIT, INIT, INIT, INIT, INIT, INIT, LOGIN_FAILED])"
proof (intro conjI impI; (elim conjE)?)
  assume a: "load_state (cloudflare d) = None" "centers d (upper center) = Some url"
    "goto_center d = Some e"
  show "fst (start_workflow d email password center self) = Raised e"
    by (rule start_workflow_step1_fails(1) [OF a])
  show "recorded_statuses email (snd (start_workflow d email password center self)) =
        recorded_statuses email self @ [INIT, INIT, INIT, NETWORK_ERROR]"
    by (rule start_workflow_step1_fails(2) [OF a])
next
  assume a: "fst (reach_country_selection d email password center self) = Returned ()"
    "goto_base d = Some e"
  show "fst (start_workflow d email password center self) = Raised e"
    by (rule start_workflow_step4_fails(1) [OF a])
  show "recorded_statuses email (snd (start_workflow d email password center self)) =
        recorded_statuses email (snd (reach_country_selection d email password center self)) @
          [BOOKING, BOOKING, NETWORK_ERROR]"
    by (rule start_workflow_step4_fails(2) [OF a])
next
  assume a: "load_state (cloudflare d) = None" "centers d (upper center) = Some url"
    "goto_center d = None"
    and f: "form_wait d 0 \<noteq> None" "form_wait d 1 \<noteq> None" "form_wait d 2 \<noteq> None"
    and r: "reload d 0 = None" "reload d 1 = None"
  from f obtain e0 e1 e2 where f': "form_wait d 0 = Some e0" "form_wait d 1 = Some e1"
    "form_wait d 2 = Some e2" by auto
  show "fst (start_workflow d email password center self) =
        Raised (Exception ''Login form not found after retries'')"
    by (rule start_workflow_form_not_found(1) [OF a f' r])
  show "recorded_statuses email (snd (start_workflow d email password center self)) =
        recorded_statuses email self @ [INIT, INIT, INIT, INIT, INIT, INIT, LOGIN_FAILED]"
    by (rule start_workflow_form_not_found(2) [OF a f' r])
qed

lemma upper_par: "upper ''par'' = ''PAR''"
  by code_simp

lemma quiet_workflow_fields:
  "load_state (cloudflare quiet_workflow) = None"
  "centers quiet_workflow ''PAR'' = Some ''https://visas.example/par''"
  "goto_center quiet_workflow = None" "form_wait quiet_workflow k = None"
  "reload quiet_workflow k = None" "login_page quiet_workflow = quiet_login"
  "goto_base quiet_workflow = None"
  by (simp_all add: quiet_workflow_def quiet_cloudflare_def)

theorem network_error_at_navigation_witness:
  "load_state (cloudflare nav_fails_driver) = None \<and>
   centers nav_fails_driver (upper ''par'') = Some ''https://visas.example/par'' \<and>
   goto_center nav_fails_driver = Some (PlaywrightError ''net::ERR_CONNECTION_RESET'') \<and>
   fst (start_workflow nav_fails_driver ''a@x.com'' ''secret'' ''par'' init) =
     Raised (PlaywrightError ''net::ERR_CONNECTION_RESET'') \<and>
   recorded_statuses ''a@x.com'' (snd (start_workflow nav_fails_driver ''a@x.com'' ''secret'' ''par'' init)) =
     recorded_statuses ''a@x.com'' init @ [INIT, INIT, INIT, NETWORK_ERROR] \<and>
   fst (reach_country_selection base_fails_driver [] [] ''par'' init) = Returned () \<and>
   goto_base base_fails_driver = Some (PlaywrightError ''net::ERR_CONNECTION_RESET'') \<and>
   fst (start_workflow base_fails_driver [] [] ''par'' init) =
     Raised (PlaywrightError ''net::ERR_CONNECTION_RESET'') \<and>
   recorded_statuses [] (snd (start_workflow base_fails_driver [] [] ''par'' init)) =
     [INIT, INIT, INIT, INIT, INIT, LOGGED_IN, BOOKING, BOOKING, NETWORK_ERROR] \<and>
   load_state (cloudflare never_driver) = None \<and>
   centers never_driver (upper ''par'') = Some ''https://visas.example/par'' \<and>
   goto_center never_driver = None \<and> form_wait never_driver 0 \<noteq> None \<and>
   form_wait never_driver 1 \<noteq> None \<and> form_wait never_driver 2 \<noteq> None \<and>
   reload never_driver 0 = None \<and> reload never_driver 1 = None \<and>
   fst (start_workflow never_driver ''a@x.com'' ''secret'' ''par'' init) =
     Raised (Exception ''Login form not found after retries'')"
proof -
  let ?e = "PlaywrightError ''net::ERR_CONNECTION_RESET''"
  have n: "load_state (cloudflare nav_fails_driver) = None"
    "centers nav_fails_driver (upper ''par'') = Some ''https://visas.example/par''"
    "goto_center nav_fails_driver = Some ?e"
    by (simp_all add: nav_fails_driver_def quiet_workflow_fields upper_par)
  have b: "load_state (cloudflare base_fails_driver) = None"
    "centers base_fails_driver (upper ''par'') = Some ''https://visas.example/par''"
    "goto_center base_fails_driver = None" "form_wait base_fails_driver 0 = None"
    "\<And>t. fst (login (login_page base_fails_driver) [] [] t) = True"
    by (simp_all add: base_fails_driver_def quiet_workflow_fields upper_par login_quiet_empty)
  have g: "goto_base base_fails_driver = Some ?e" by (simp add: base_fails_driver_def)
  note p = reach_country_selection_returns [OF b, of init]
  have v: "load_state (cloudflare never_driver) = None"
    "centers never_driver (upper ''par'') = Some ''https://visas.example/par''"
    "goto_center never_driver = None" "form_wait never_driver 0 \<noteq> None"
    "form_wait never_driver 1 \<noteq> None" "form_wait never_driver 2 \<noteq> None"
    "reload never_driver 0 = None" "reload never_driver 1 = None"
    by (simp_all add: never_driver_def quiet_workflow_fields upper_par)
  note c2 = conjunct2
  note t1 = network_error_at_navigation [where d = nav_fails_driver and center = "''par''"
      and url = "''https://visas.example/par''" and e = ?e and email = "''a@x.com''"
      and password = "''secret''" and self = init,
      THEN conjunct1, THEN mp, OF conjI [OF n(1) conjI [OF n(2) n(3)]]]
  note t2 = network_error_at_navigation [where d = base_fails_driver and center = "''par''"
      and url = "''https://visas.example/par''" and e = ?e and email = "[]"
      and password = "[]" and self = init,
      THEN c2, THEN conjunct1, THEN mp, OF conjI [OF p(1) g]]
  note t3 = network_error_at_navigation [where d = never_driver and center = "''par''"
      and url = "''https://visas.example/par''" and e = ?e and email = "''a@x.com''"
      and password = "''secret''" and self = init,
      THEN c2, THEN c2, THEN mp,
      OF conjI [OF v(1) conjI [OF v(2) conjI [OF v(3) conjI [OF v(4) conjI [OF v(5)
        conjI [OF v(6) conjI [OF v(7) v(8)]]]]]]], THEN conjunct1]
  have four: "recorded_statuses [] (snd (start_workflow base_fails_driver [] [] ''par'' init)) =
     [INIT, INIT, INIT, INIT, INIT, LOGGED_IN, BOOKING, BOOKING, NETWORK_ERROR]"
    using t2 [THEN conjunct2] p(2) by (simp add: init_observations)
  show ?thesis
    by (intro conjI n v p(1) g four t1 [THEN conjunct1] t1 [THEN conjunct2] t2 [THEN conjunct1] t3)
qed

text \<open>
  Claim C5 as stated fails at step 2: the check of the login form raises an error of the
  page driver at each of its three invocations, and the status recorded for the failure is
  \<^verbatim>\<open>LOGIN_FAILED\<close>; \<^verbatim>\<open>NETWORK_ERROR\<close> is recorded nowhere, and another exception is raised.
\<close>

theorem login_form_playwright_error_counterexample:
  "form_wait never_driver 2 = Some (PlaywrightError ''Timeout 10000ms exceeded'') \<and>
   fst (start_workflow never_driver ''a@x.com'' ''secret'' ''par'' init) =
     Raised (Exception ''Login form not found after retries'') \<and>
   recorded_statuses ''a@x.com'' (snd (start_workflow never_driver ''a@x.com'' ''secret'' ''par'' init)) =
     [INIT, INIT, INIT, INIT, INIT, INIT, LOGIN_FAILED] \<and>
   NETWORK_ERROR \<notin> set (recorded_statuses ''a@x.com''
     (snd (start_workflow never_driver ''a@x.com'' ''secret'' ''par'' init)))"
proof -
  have v: "load_state (cloudflare never_driver) = None"
    "centers never_driver (upper ''par'') = Some ''https://visas.example/par''"
    "goto_center never_driver = None"
    "form_wait never_driver 0 = Some (PlaywrightError ''Timeout 10000ms exceeded'')"
    "form_wait never_driver 1 = Some (PlaywrightError ''Timeout 10000ms exceeded'')"
    "form_wait never_driver 2 = Some (PlaywrightError ''Timeout 10000ms exceeded'')"
    "reload never_driver 0 = None" "reload never_driver 1 = None"
    by (simp_all add: never_driver_def quiet_workflow_fields upper_par timeout_error_def)
  have i: "recorded_statuses ''a@x.com'' init = []"
    by (simp add: recorded_statuses_def init_def)
  note r = start_workflow_form_not_found [OF v, of "''a@x.com''" "''secret''" init]
  from r(2) i have st: "recorded_statuses ''a@x.com''
      (snd (start_workflow never_driver ''a@x.com'' ''secret'' ''par'' init)) =
     [INIT, INIT, INIT, INIT, INIT, INIT, LOGIN_FAILED]" by simp
  have "NETWORK_ERROR \<notin> set [INIT, INIT, INIT, INIT, INIT, INIT, LOGIN_FAILED]"
    by (simp add: status_defs)
  with st have no: "NETWORK_ERROR \<notin> set (recorded_statuses ''a@x.com''
     (snd (start_workflow never_driver ''a@x.com'' ''secret'' ''par'' init)))" by simp
  show ?thesis by (rule conjI [OF v(6) conjI [OF r(1) conjI [OF st no]]])
qed

text \<open>
  Claim C8 as stated fails when the click on the e-mail field raises: the typing primitive
  raises the error, and the run ends at step 2 with \<^verbatim>\<open>LOGIN_FAILED\<close> and an exception.
\<close>

theorem typing_failure_aborts_counterexample:
  "fst (human_type (typing (login_page typing_fails_driver)) ''input[type='email']'' ''a@x.com'' init) =
     Raised (PlaywrightError ''Element is not attached to the DOM'') \<and>
   fst (start_workflow typing_fails_driver ''a@x.com'' ''secret'' ''par'' init) =
     Raised (Exception ''Login failed'') \<and>
   recorded_statuses ''a@x.com''
     (snd (start_workflow typing_fails_driver ''a@x.com'' ''secret'' ''par'' init)) =
     [INIT, INIT, INIT, INIT, INIT, LOGIN_FAILED]"
proof -
  have one: "fst (human_type (typing (login_page typing_fails_driver)) ''input[type='email']''
      ''a@x.com'' init) = Raised (PlaywrightError ''Element is not attached to the DOM'')"
    by (simp add: human_type_outcome typing_outcome_instances)
  have "typing_outcome (typing (login_page typing_fails_driver)) ''input[type='email']''
      ''a@x.com'' \<noteq> Returned ()"
    by (simp add: typing_outcome_instances)
  then have l: "\<And>t. fst (login (login_page typing_fails_driver) ''a@x.com'' ''secret'' t) = False"
    by (simp add: login_typing_fails)
  have v: "load_state (cloudflare typing_fails_driver) = None"
    "centers typing_fails_driver (upper ''par'') = Some ''https://visas.example/par''"
    "goto_center typing_fails_driver = None" "form_wait typing_fails_driver 0 = None"
    by (simp_all add: typing_fails_driver_def quiet_workflow_fields upper_par)
  have i: "recorded_statuses ''a@x.com'' init = []"
    by (simp add: recorded_statuses_def init_def)
  note r = start_workflow_login_fails [OF v l, where self = init]
  from r(2) i have st: "recorded_statuses ''a@x.com''
     (snd (start_workflow typing_fails_driver ''a@x.com'' ''secret'' ''par'' init)) =
     [INIT, INIT, INIT, INIT, INIT, LOGIN_FAILED]" by simp
  show ?thesis by (rule conjI [OF one conjI [OF r(1) st]])
qed

section \<open>The availability monitor\<close>

lemma polls_called [simp]:
  "polls (called ev s) =
     (if ev = QuerySelectorAll ''.available'' then Suc (polls s) else polls s)"
  by (simp add: polls_def)

lemma polls_human_delay [simp]: "polls (human_delay s) = polls s"
  by (simp add: polls_def)

lemma polls_logger [simp]: "polls (logger msg s) = polls s"
  by (simp add: polls_def)

lemma polls_status_update [simp]: "polls (status_update clk email st det s) = polls s"
  by (simp add: polls_def)

lemma selections_called [simp]:
  "selections (called ev s) = selections s @ (if is_click ev then [ev] else [])"
  by (simp add: selections_def)

lemma selections_human_delay [simp]: "selections (human_delay s) = selections s"
  by (simp add: selections_def)

lemma selections_logger [simp]: "selections (logger msg s) = selections s"
  by (simp add: selections_def)

lemma selections_status_update [simp]:
  "selections (status_update clk email st det s) = selections s"
  by (simp add: selections_def)

lemma monitor_poll_empty:
  assumes "\<forall>j<n. \<not> cancelled d (i + j) \<and> listing d (i + j) = Inr []"
    and "\<forall>j<n. refresh_draw d (i + j) \<longrightarrow> refresh d (i + j) = None"
  shows "fst (monitor_poll d n i s) = Returned Ceiling \<and>
         polls (snd (monitor_poll d n i s)) = polls s + n \<and>
         selections (snd (monitor_poll d n i s)) = selections s"
  using assms
proof (induction n arbitrary: i s)
  case 0
  show ?case by simp
next
  case (Suc n)
  from Suc.prems(1) have here: "\<not> cancelled d i" "listing d i = Inr []"
    by (metis add.right_neutral zero_less_Suc)+
  from Suc.prems(2) have rf: "refresh_draw d i \<longrightarrow> refresh d i = None"
    by (metis add.right_neutral zero_less_Suc)
  have l: "\<forall>j<n. \<not> cancelled d (Suc i + j) \<and> listing d (Suc i + j) = Inr []"
    using Suc.prems(1) by (metis Suc_less_eq add_Suc_shift)
  have r: "\<forall>j<n. refresh_draw d (Suc i + j) \<longrightarrow> refresh d (Suc i + j) = None"
    using Suc.prems(2) by (metis Suc_less_eq add_Suc_shift)
  note ih = Suc.IH [OF l r]
  show ?case
  proof (cases "refresh_draw d i")
    case True
    with rf have "refresh d i = None" by simp
    with here True ih show ?thesis by (simp add: Let_def)
  next
    case False
    with here ih show ?thesis by (simp add: Let_def)
  qed
qed

lemma monitor_poll_refresh_fails:
  assumes "k < n" and "\<forall>j\<le>k. \<not> cancelled d (i + j) \<and> listing d (i + j) = Inr []"
    and "\<forall>j<k. refresh_draw d (i + j) \<longrightarrow> refresh d (i + j) = None"
    and "refresh_draw d (i + k)" and "refresh d (i + k) = Some e"
  shows "fst (monitor_poll d n i s) = Raised e \<and>
         polls (snd (monitor_poll d n i s)) = polls s + k + 1 \<and>
         selections (snd (monitor_poll d n i s)) = selections s"
  using assms
proof (induction k arbitrary: n i s)
  case 0
  then obtain m where n: "n = Suc m" by (cases n) auto
  from 0 show ?case by (simp add: n Let_def)
next
  case (Suc k)
  then obtain m where n: "n = Suc m" and km: "k < m" by (cases n) auto
  from Suc.prems(2) have here: "\<not> cancelled d i" "listing d i = Inr []"
    by (metis add.right_neutral le0)+
  from Suc.prems(3) have rf: "refresh_draw d i \<longrightarrow> refresh d i = None"
    by (metis add.right_neutral zero_less_Suc)
  have l: "\<forall>j\<le>k. \<not> cancelled d (Suc i + j) \<and> listing d (Suc i + j) = Inr []"
    using Suc.prems(2) by (metis Suc_le_mono add_Suc_shift)
  have r: "\<forall>j<k. refresh_draw d (Suc i + j) \<longrightarrow> refresh d (Suc i + j) = None"
    using Suc.prems(3) by (metis Suc_less_eq add_Suc_shift)
  have f: "refresh_draw d (Suc i + k)" "refresh d (Suc i + k) = Some e"
    using Suc.prems(4,5) by simp_all
  note ih = Suc.IH [OF km l r f]
  show ?case
  proof (cases "refresh_draw d i")
    case True
    with rf have "refresh d i = None" by simp
    with here True ih show ?thesis by (simp add: n Let_def)
  next
    case False
    with here ih show ?thesis by (simp add: n Let_def)
  qed
qed

lemma monitor_poll_found:
  assumes "k < n" and "\<forall>j<k. \<not> cancelled d (i + j) \<and> listing d (i + j) = Inr []"
    and "\<forall>j<k. refresh_draw d (i + j) \<longrightarrow> refresh d (i + j) = None"
    and "\<not> cancelled d (i + k)" and "listing d (i + k) = Inr (x # xs)"
  shows "fst (monitor_poll d n i s) =
           (case select_date d of None \<Rightarrow> Returned (Selected x) | Some e \<Rightarrow> Raised e) \<and>
         polls (snd (monitor_poll d n i s)) = polls s + k + 1 \<and>
         selections (snd (monitor_poll d n i s)) = selections s @ [Click x]"
  using assms
proof (induction k arbitrary: n i s)
  case 0
  then obtain m where n: "n = Suc m" by (cases n) auto
  from 0 show ?case by (simp add: n Let_def split: option.split)
next
  case (Suc k)
  then obtain m where n: "n = Suc m" and km: "k < m" by (cases n) auto
  from Suc.prems(2) have here: "\<not> cancelled d i" "listing d i = Inr []"
    by (metis add.right_neutral zero_less_Suc)+
  from Suc.prems(3) have rf: "refresh_draw d i \<longrightarrow> refresh d i = None"
    by (metis add.right_neutral zero_less_Suc)
  have l: "\<forall>j<k. \<not> cancelled d (Suc i + j) \<and> listing d (Suc i + j) = Inr []"
    using Suc.prems(2) by (metis Suc_less_eq add_Suc_shift)
  have r: "\<forall>j<k. refresh_draw d (Suc i + j) \<longrightarrow> refresh d (Suc i + j) = None"
    using Suc.prems(3) by (metis Suc_less_eq add_Suc_shift)
  have f: "\<not> cancelled d (Suc i + k)" "listing d (Suc i + k) = Inr (x # xs)"
    using Suc.prems(4,5) by simp_all
  note ih = Suc.IH [OF km l r f]
  show ?case
  proof (cases "refresh_draw d i")
    case True
    with rf have "refresh d i = None" by simp
    with here True ih show ?thesis by (simp add: n Let_def)
  next
    case False
    with here ih show ?thesis by (simp add: n Let_def)
  qed
qed

lemma monitor_exhausted_outcome:
  "fst (monitor_exhausted d s) = Returned False \<and>
   polls (snd (monitor_exhausted d s)) = polls s \<and>
   selections (snd (monitor_exhausted d s)) = selections s"
  by (simp add: monitor_exhausted_def send_security_notification_def Let_def
      split: option.split prod.split)

lemma monitor_calendar_outcome:
  "fst (monitor_calendar d budget s) = fst (monitor_calendar_try d budget s) \<and>
   polls (snd (monitor_calendar d budget s)) = polls (snd (monitor_calendar_try d budget s)) \<and>
   selections (snd (monitor_calendar d budget s)) =
     selections (snd (monitor_calendar_try d budget s))"
  by (cases "monitor_calendar_try d budget s"; cases "fst (monitor_calendar_try d budget s)")
    (auto simp: monitor_calendar_def)

lemma monitor_calendar_logs_error:
  "fst (monitor_calendar_try d budget s) = Raised e \<Longrightarrow>
     last (logged (snd (monitor_calendar d budget s))) = ''Failed to monitor calendar: '' @ str_of e"
  by (cases "monitor_calendar_try d budget s") (simp add: monitor_calendar_def)

lemma monitor_calendar_nothing:
  assumes "\<forall>i<budget. \<not> cancelled d i \<and> listing d i = Inr []"
    and "\<forall>i<budget. refresh_draw d i \<longrightarrow> refresh d i = None"
  shows "fst (monitor_calendar d budget s) = Returned False \<and>
         polls (snd (monitor_calendar d budget s)) = polls s + budget \<and>
         selections (snd (monitor_calendar d budget s)) = selections s"
proof -
  from assms have "\<forall>j<budget. \<not> cancelled d (0 + j) \<and> listing d (0 + j) = Inr []"
    "\<forall>j<budget. refresh_draw d (0 + j) \<longrightarrow> refresh d (0 + j) = None" by simp_all
  note p = monitor_poll_empty [OF this, where s = s]
  obtain r s1 where h: "monitor_poll d budget 0 s = (r, s1)" by (cases "monitor_poll d budget 0 s")
  with p have "r = Returned Ceiling" "polls s1 = polls s + budget" "selections s1 = selections s"
    by simp_all
  with h monitor_exhausted_outcome [of d s1] show ?thesis
    by (simp add: monitor_calendar_outcome monitor_calendar_try_def)
qed

lemma monitor_calendar_refresh_fails:
  assumes "k < budget" and "\<forall>i\<le>k. \<not> cancelled d i \<and> listing d i = Inr []"
    and "\<forall>i<k. refresh_draw d i \<longrightarrow> refresh d i = None"
    and "refresh_draw d k" and "refresh d k = Some e"
  shows "fst (monitor_calendar d budget s) = Raised e \<and>
         last (logged (snd (monitor_calendar d budget s))) =
           ''Failed to monitor calendar: '' @ str_of e \<and>
         polls (snd (monitor_calendar d budget s)) = polls s + k + 1 \<and>
         selections (snd (monitor_calendar d budget s)) = selections s"
proof -
  from assms have "\<forall>j\<le>k. \<not> cancelled d (0 + j) \<and> listing d (0 + j) = Inr []"
    "\<forall>j<k. refresh_draw d (0 + j) \<longrightarrow> refresh d (0 + j) = None"
    "refresh_draw d (0 + k)" "refresh d (0 + k) = Some e" by simp_all
  note p = monitor_poll_refresh_fails [OF assms(1) this, where s = s]
  obtain r s1 where h: "monitor_poll d budget 0 s = (r, s1)" by (cases "monitor_poll d budget 0 s")
  with p have q: "r = Raised e" "polls s1 = polls s + k + 1" "selections s1 = selections s"
    by simp_all
  with h have t: "fst (monitor_calendar_try d budget s) = Raised e"
    by (simp add: monitor_calendar_try_def)
  from q h show ?thesis
    by (simp add: monitor_calendar_outcome monitor_calendar_logs_error [OF t]
        monitor_calendar_try_def)
qed

lemma monitor_calendar_found:
  assumes "k < budget" and "\<forall>i<k. \<not> cancelled d i \<and> listing d i = Inr []"
    and "\<forall>i<k. refresh_draw d i \<longrightarrow> refresh d i = None"
    and "\<not> cancelled d k" and "listing d k = Inr (x # xs)"
  shows "fst (monitor_calendar d budget s) =
           (case select_date d of None \<Rightarrow> Returned True | Some e \<Rightarrow> Raised e) \<and>
         polls (snd (monitor_calendar d budget s)) = polls s + k + 1 \<and>
         selections (snd (monitor_calendar d budget s)) = selections s @ [Click x]"
proof -
  from assms have "\<forall>j<k. \<not> cancelled d (0 + j) \<and> listing d (0 + j) = Inr []"
    "\<forall>j<k. refresh_draw d (0 + j) \<longrightarrow> refresh d (0 + j) = None"
    "\<not> cancelled d (0 + k)" "listing d (0 + k) = Inr (x # xs)" by simp_all
  note p = monitor_poll_found [OF assms(1) this, where s = s]
  obtain r s1 where h: "monitor_poll d budget 0 s = (r, s1)" by (cases "monitor_poll d budget 0 s")
  with p have "r = (case select_date d of None \<Rightarrow> Returned (Selected x) | Some e \<Rightarrow> Raised e)"
    "polls s1 = polls s + k + 1" "selections s1 = selections s @ [Click x]"
    by simp_all
  with h show ?thesis
    by (cases "select_date d") (simp_all add: monitor_calendar_outcome monitor_calendar_try_def)
qed

lemma check_calendar_nothing:
  assumes "calendar bd = Inr True" and "available_dates bd = Inr []"
  shows "fst (check_calendar bd email s) = Some False \<and>
         recorded_statuses email (snd (check_calendar bd email s)) =
           recorded_statuses email s @ [BOOKING_FAILED] \<and>
         selections (snd (check_calendar bd email s)) = selections s"
  using assms by (simp add: check_calendar_def Let_def)

lemma check_calendar_first:
  assumes "calendar bd = Inr True" and "available_dates bd = Inr (x # xs)"
  shows "fst (check_calendar bd email s) =
           (case date_click bd of None \<Rightarrow> None | Some e \<Rightarrow> Some False) \<and>
         selections (snd (check_calendar bd email s)) = selections s @ [Click x]"
  using assms by (simp add: check_calendar_def Let_def split: option.split)

text \<open>
  Claim C3, as the code has it. The polling monitor, whose loop head is modelled from the
  specification, with a budget of \<open>budget\<close> iterations, none of which finds the monitor
  cancelled. If the listing has no available element in any iteration and every reload of
  the occasional refresh returns, the monitor returns \<^verbatim>\<open>False\<close>, after \<open>budget\<close> polls and
  without selecting anything. If the listing has no available element and a reload raises,
  the monitor logs the error and raises it again (lines 1462 to 1464): it does raise. If
  iteration \<open>k\<close> is the first with an available element, the monitor selects the first element
  of that listing and nothing else, and has polled \<open>k + 1\<close> times: no iteration follows the
  selection; it returns \<^verbatim>\<open>True\<close> when the selection returns, and raises its error otherwise.
  The calendar check of lines 837 to 857 has no loop, and its handler answers an error of
  the page with \<^verbatim>\<open>False\<close>: without an available date it records \<^verbatim>\<open>BOOKING_FAILED\<close> and returns
  \<^verbatim>\<open>False\<close>; with available dates it clicks the first one, and then goes on to the next step,
  or returns \<^verbatim>\<open>False\<close> if the click raises.
\<close>

theorem availability_monitor:
  "((\<forall>i<budget. \<not> cancelled d i \<and> listing d i = Inr []) \<and>
    (\<forall>i<budget. refresh_draw d i \<longrightarrow> refresh d i = None) \<longrightarrow>
      fst (monitor_calendar d budget s) = Returned False \<and>
      polls (snd (monitor_calendar d budget s)) = polls s + budget \<and>
      selections (snd (monitor_calendar d budget s)) = selections s) \<and>
   (j < budget \<and> (\<forall>i\<le>j. \<not> cancelled d i \<and> listing d i = Inr []) \<and>
    (\<forall>i<j. refresh_draw d i \<longrightarrow> refresh d i = None) \<and>
    refresh_draw d j \<and> refresh d j = Some e \<longrightarrow>
      fst (monitor_calendar d budget s) = Raised e \<and>
      last (logged (snd (monitor_calendar d budget s))) =
        ''Failed to monitor calendar: '' @ str_of e \<and>
      polls (snd (monitor_calendar d budget s)) = polls s + j + 1 \<and>
      selections (snd (monitor_calendar d budget s)) = selections s) \<and>
   (k < budget \<and> (\<forall>i<k. \<not> cancelled d i \<and> listing d i = Inr []) \<and>
    (\<forall>i<k. refresh_draw d i \<longrightarrow> refresh d i = None) \<and>
    \<not> cancelled d k \<and> listing d k = Inr (x # xs) \<longrightarrow>
      fst (monitor_calendar d budget s) =
        (case select_date d of None \<Rightarrow> Returned True | Some e \<Rightarrow> Raised e) \<and>
      polls (snd (monitor_calendar d budget s)) = polls s + k + 1 \<and>
      selections (snd (monitor_calendar d budget s)) = selections s @ [Click x]) \<and>
   (calendar bd = Inr True \<and> available_dates bd = Inr [] \<longrightarrow>
      fst (check_calendar bd email s) = Some False \<and>
      recorded_statuses email (snd (check_calendar bd email s)) =
        recorded_statuses email s @ [BOOKING_FAILED] \<and>
      selections (snd (check_calendar bd email s)) = selections s) \<and>
   (calendar bd = Inr True \<and> available_dates bd = Inr (y # ys) \<longrightarrow>
      fst (check_calendar bd email s) =
        (case date_click bd of None \<Rightarrow> None | Some e \<Rightarrow> Some False) \<and>
      selections (snd (check_calendar bd email s)) = selections s @ [Click y])"
proof (intro conjI impI; (elim conjE)?)
  assume a: "\<forall>i<budget. \<not> cancelled d i \<and> listing d i = Inr []"
    "\<forall>i<budget. refresh_draw d i \<longrightarrow> refresh d i = None"
  note r = monitor_calendar_nothing [OF a, of s]
  from r show "fst (monitor_calendar d budget s) = Returned False" by (rule conjunct1)
  from r show "polls (snd (monitor_calendar d budget s)) = polls s + budget" by simp
  from r show "selections (snd (monitor_calendar d budget s)) = selections s" by simp
next
  assume a: "j < budget" "\<forall>i\<le>j. \<not> cancelled d i \<and> listing d i = Inr []"
    "\<forall>i<j. refresh_draw d i \<longrightarrow> refresh d i = None" "refresh_draw d j" "refresh d j = Some e"
  note r = monitor_calendar_refresh_fails [OF a, of s]
  from r show "fst (monitor_calendar d budget s) = Raised e" by (rule conjunct1)
  from r show "last (logged (snd (monitor_calendar d budget s))) =
        ''Failed to monitor calendar: '' @ str_of e" by simp
  from r show "polls (snd (monitor_calendar d budget s)) = polls s + j + 1" by simp
  from r show "selections (snd (monitor_calendar d budget s)) = selections s" by simp
next
  assume a: "k < budget" "\<forall>i<k. \<not> cancelled d i \<and> listing d i = Inr []"
    "\<forall>i<k. refresh_draw d i \<longrightarrow> refresh d i = None"
    "\<not> cancelled d k" "listing d k = Inr (x # xs)"
  note r = monitor_calendar_found [OF a, of s]
  from r show "fst (monitor_calendar d budget s) =
        (case select_date d of None \<Rightarrow> Returned True | Some e \<Rightarrow> Raised e)" by (rule conjunct1)
  from r show "polls (snd (monitor_calendar d budget s)) = polls s + k + 1" by simp
  from r show "selections (snd (monitor_calendar d budget s)) = selections s @ [Click x]" by simp
next
  assume a: "calendar bd = Inr True" "available_dates bd = Inr []"
  note r = check_calendar_nothing [OF a, of email s]
  from r show "fst (check_calendar bd email s) = Some False" by (rule conjunct1)
  from r show "recorded_statuses email (snd (check_calendar bd email s)) =
        recorded_statuses email s @ [BOOKING_FAILED]" by simp
  from r show "selections (snd (check_calendar bd email s)) = selections s" by simp
next
  assume a: "calendar bd = Inr True" "available_dates bd = Inr (y # ys)"
  note r = check_calendar_first [OF a, of email s]
  from r show "fst (check_calendar bd email s) =
        (case date_click bd of None \<Rightarrow> None | Some e \<Rightarrow> Some False)" by (rule conjunct1)
  from r show "selections (snd (check_calendar bd email s)) = selections s @ [Click y]" by simp
qed

lemma monitor_driver_fields:
  "cancelled empty_listing_monitor i = False" "listing empty_listing_monitor i = Inr []"
  "refresh_draw empty_listing_monitor i = (i = 1)" "refresh empty_listing_monitor i = None"
  "cancelled refresh_fails_monitor i = False" "listing refresh_fails_monitor i = Inr []"
  "refresh_draw refresh_fails_monitor i = (i = 1)"
  "refresh refresh_fails_monitor i = Some (PlaywrightError ''net::ERR_CONNECTION_RESET'')"
  "cancelled second_poll_monitor i = False" "listing second_poll_monitor 0 = Inr []"
  "listing second_poll_monitor 1 = Inr [''2026-12-01'', ''2026-12-03'']"
  "refresh_draw second_poll_monitor 0 = False" "select_date second_poll_monitor = None"
  "cancelled select_fails_monitor i = False" "listing select_fails_monitor 0 = Inr []"
  "listing select_fails_monitor 1 = Inr [''2026-12-01'', ''2026-12-03'']"
  "refresh_draw select_fails_monitor 0 = False"
  "select_date select_fails_monitor = Some (PlaywrightError ''Element is not attached to the DOM'')"
  by (simp_all add: empty_listing_monitor_def refresh_fails_monitor_def second_poll_monitor_def
      select_fails_monitor_def)

theorem availability_monitor_witness:
  "map (cancelled empty_listing_monitor) [0, 1, 2] = [False, False, False] \<and>
   map (listing empty_listing_monitor) [0, 1, 2] = [Inr [], Inr [], Inr []] \<and>
   map (refresh_draw empty_listing_monitor) [0, 1, 2] = [False, True, False] \<and>
   refresh empty_listing_monitor 1 = None \<and>
   fst (monitor_calendar empty_listing_monitor 3 init) = Returned False \<and>
   polls (snd (monitor_calendar empty_listing_monitor 3 init)) = polls init + 3 \<and>
   refresh_draw refresh_fails_monitor 1 \<and>
   refresh refresh_fails_monitor 1 = Some (PlaywrightError ''net::ERR_CONNECTION_RESET'') \<and>
   fst (monitor_calendar refresh_fails_monitor 3 init) =
     Raised (PlaywrightError ''net::ERR_CONNECTION_RESET'') \<and>
   (1::nat) < 3 \<and> cancelled second_poll_monitor 1 = False \<and>
   listing second_poll_monitor 0 = Inr [] \<and>
   refresh_draw second_poll_monitor 0 = False \<and>
   listing second_poll_monitor 1 = Inr [''2026-12-01'', ''2026-12-03''] \<and>
   select_date second_poll_monitor = None \<and>
   fst (monitor_calendar second_poll_monitor 3 init) = Returned True \<and>
   polls (snd (monitor_calendar second_poll_monitor 3 init)) = polls init + 1 + 1 \<and>
   selections (snd (monitor_calendar second_poll_monitor 3 init)) =
     selections init @ [Click ''2026-12-01''] \<and>
   fst (monitor_calendar select_fails_monitor 3 init) =
     Raised (PlaywrightError ''Element is not attached to the DOM'') \<and>
   calendar (quiet_booking\<lparr>available_dates := Inr []\<rparr>) = Inr True \<and>
   available_dates (quiet_booking\<lparr>available_dates := Inr []\<rparr>) = Inr [] \<and>
   fst (check_calendar (quiet_booking\<lparr>available_dates := Inr []\<rparr>) ''a@x.com'' init) = Some False \<and>
   calendar quiet_booking = Inr True \<and>
   available_dates quiet_booking = Inr [''2026-12-01'', ''2026-12-03''] \<and>
   date_click quiet_booking = None \<and>
   fst (check_calendar quiet_booking ''a@x.com'' init) = None \<and>
   selections (snd (check_calendar quiet_booking ''a@x.com'' init)) =
     selections init @ [Click ''2026-12-01'']"
proof -
  let ?r = "PlaywrightError ''net::ERR_CONNECTION_RESET''"
  note m = monitor_driver_fields
  have e: "\<forall>i<3. \<not> cancelled empty_listing_monitor i \<and> listing empty_listing_monitor i = Inr []"
    "\<forall>i<3. refresh_draw empty_listing_monitor i \<longrightarrow> refresh empty_listing_monitor i = None"
    by (simp_all add: m)
  have g: "(1::nat) < 3"
    "\<forall>i\<le>1. \<not> cancelled refresh_fails_monitor i \<and> listing refresh_fails_monitor i = Inr []"
    "\<forall>i<1. refresh_draw refresh_fails_monitor i \<longrightarrow> refresh refresh_fails_monitor i = None"
    "refresh_draw refresh_fails_monitor 1" "refresh refresh_fails_monitor 1 = Some ?r"
    by (simp_all add: m)
  have f: "(1::nat) < 3"
    "\<forall>i<1. \<not> cancelled second_poll_monitor i \<and> listing second_poll_monitor i = Inr []"
    "\<forall>i<1. refresh_draw second_poll_monitor i \<longrightarrow> refresh second_poll_monitor i = None"
    "\<not> cancelled second_poll_monitor 1"
    by (simp_all add: m)
  note f = f m(11)
  have f': "(1::nat) < 3"
    "\<forall>i<1. \<not> cancelled select_fails_monitor i \<and> listing select_fails_monitor i = Inr []"
    "\<forall>i<1. refresh_draw select_fails_monitor i \<longrightarrow> refresh select_fails_monitor i = None"
    "\<not> cancelled select_fails_monitor 1"
    by (simp_all add: m)
  note f' = f' m(16)
  have n: "calendar (quiet_booking\<lparr>available_dates := Inr []\<rparr>) = Inr True"
    "available_dates (quiet_booking\<lparr>available_dates := Inr []\<rparr>) = Inr []"
    by (simp_all add: quiet_booking_def)
  have q: "calendar quiet_booking = Inr True"
    "available_dates quiet_booking = Inr [''2026-12-01'', ''2026-12-03'']"
    "date_click quiet_booking = None"
    by (simp_all add: quiet_booking_def)
  note c2 = conjunct2
  note t1 = availability_monitor [where budget = 3 and d = empty_listing_monitor and s = init,
      THEN conjunct1, THEN mp, OF conjI [OF e]]
  note t2 = availability_monitor [where budget = 3 and d = refresh_fails_monitor and s = init
      and j = 1 and e = ?r, THEN c2, THEN conjunct1, THEN mp,
      OF conjI [OF g(1) conjI [OF g(2) conjI [OF g(3) conjI [OF g(4) g(5)]]]]]
  note t3 = availability_monitor [where budget = 3 and d = second_poll_monitor and s = init
      and k = 1 and x = "''2026-12-01''" and xs = "[''2026-12-03'']", THEN c2, THEN c2,
      THEN conjunct1, THEN mp,
      OF conjI [OF f(1) conjI [OF f(2) conjI [OF f(3) conjI [OF f(4) f(5)]]]]]
  note t4 = availability_monitor [where budget = 3 and d = select_fails_monitor and s = init
      and k = 1 and x = "''2026-12-01''" and xs = "[''2026-12-03'']", THEN c2, THEN c2,
      THEN conjunct1, THEN mp,
      OF conjI [OF f'(1) conjI [OF f'(2) conjI [OF f'(3) conjI [OF f'(4) f'(5)]]]]]
  note t5 = availability_monitor [where bd = "quiet_booking\<lparr>available_dates := Inr []\<rparr>"
      and email = "''a@x.com''" and s = init, THEN c2, THEN c2, THEN c2, THEN conjunct1,
      THEN mp, OF conjI [OF n]]
  note t6 = availability_monitor [where bd = quiet_booking and email = "''a@x.com''"
      and s = init and y = "''2026-12-01''" and ys = "[''2026-12-03'']", THEN c2, THEN c2,
      THEN c2, THEN c2, THEN mp, OF conjI [OF q(1) q(2)]]
  have e2: "map (cancelled empty_listing_monitor) [0, 1, 2] = [False, False, False]"
    "map (listing empty_listing_monitor) [0, 1, 2] = [Inr [], Inr [], Inr []]"
    "map (refresh_draw empty_listing_monitor) [0, 1, 2] = [False, True, False]"
    by (simp_all add: m)
  have three: "fst (monitor_calendar second_poll_monitor 3 init) = Returned True"
    using t3 [THEN conjunct1] by (simp add: m)
  have four: "fst (monitor_calendar select_fails_monitor 3 init) =
     Raised (PlaywrightError ''Element is not attached to the DOM'')"
    using t4 [THEN conjunct1] by (simp add: m)
  have six: "fst (check_calendar quiet_booking ''a@x.com'' init) = None"
    using t6 [THEN conjunct1] by (simp add: q)
  show ?thesis
    by (intro conjI e2 m(4) t1 [THEN conjunct1] t1 [THEN c2, THEN conjunct1] g(4) g(5)
        t2 [THEN conjunct1] f(1) m(9) m(10) m(12) m(11) m(13) three t3 [THEN c2, THEN conjunct1]
        t3 [THEN c2, THEN c2] four n t5 [THEN conjunct1] q six t6 [THEN c2])
qed

text \<open>
  Claim C3 as stated fails when a reload of the occasional refresh raises. The listing has
  no available element in any of the three iterations of the budget and the monitor is not
  cancelled; the draw of the second iteration asks for a refresh, whose reload fails. The
  monitor does not return \<^verbatim>\<open>False\<close>: it raises the error of the reload, after two polls.
\<close>

theorem monitor_refresh_error_counterexample:
  "map (cancelled refresh_fails_monitor) [0, 1, 2] = [False, False, False] \<and>
   map (listing refresh_fails_monitor) [0, 1, 2] = [Inr [], Inr [], Inr []] \<and>
   fst (monitor_calendar refresh_fails_monitor 3 init) =
     Raised (PlaywrightError ''net::ERR_CONNECTION_RESET'') \<and>
   polls (snd (monitor_calendar refresh_fails_monitor 3 init)) = 2"
proof -
  note m = monitor_driver_fields
  have g: "(1::nat) < 3"
    "\<forall>i\<le>1. \<not> cancelled refresh_fails_monitor i \<and> listing refresh_fails_monitor i = Inr []"
    "\<forall>i<1. refresh_draw refresh_fails_monitor i \<longrightarrow> refresh refresh_fails_monitor i = None"
    "refresh_draw refresh_fails_monitor 1"
    "refresh refresh_fails_monitor 1 = Some (PlaywrightError ''net::ERR_CONNECTION_RESET'')"
    by (simp_all add: m)
  note r = monitor_calendar_refresh_fails [OF g, of init]
  have a: "map (cancelled refresh_fails_monitor) [0, 1, 2] = [False, False, False]"
    "map (listing refresh_fails_monitor) [0, 1, 2] = [Inr [], Inr [], Inr []]"
    by (simp_all add: m)
  have p: "polls init = 0" by (simp add: polls_def init_def)
  from r p have b: "polls (snd (monitor_calendar refresh_fails_monitor 3 init)) = 2" by simp
  show ?thesis by (intro conjI a r [THEN conjunct1] b)
qed

end
